theory Spec2Isabelle
  imports Main "HOL-Library.Word" "HOL-Library.Multiset" "HOL-Library.Monad_Syntax"
begin

unbundle bit_operations_syntax

section \<open>Sized integer types and bit helpers (core/types.hpp)\<close>

type_synonym u8 = "8 word"
type_synonym u16 = "16 word"
type_synonym u32 = "32 word"
type_synonym u64 = "64 word"

text \<open>\<^verbatim>\<open>get_bit(value, bit) = (value >> bit) & 1\<close>\<close>

definition get_bit :: "u8 \<Rightarrow> nat \<Rightarrow> u8" where
  "get_bit v b = (drop_bit b v) AND 1"

text \<open>\<^verbatim>\<open>set_bit(value, bit, set) = set ? (value | (1 << bit)) : (value & ~(1 << bit))\<close>\<close>

definition set_bit_u8 :: "u8 \<Rightarrow> nat \<Rightarrow> bool \<Rightarrow> u8" where
  "set_bit_u8 v b s = (if s then v OR push_bit b 1 else v AND NOT (push_bit b 1))"

text \<open>\<^verbatim>\<open>sign_extend_8(value) = static_cast<s16>(static_cast<s8>(value))\<close>, kept as the
  16-bit pattern of the signed value.\<close>

definition sign_extend_8 :: "u8 \<Rightarrow> u16" where
  "sign_extend_8 v = scast v"

section \<open>Scheduler (core/scheduler/scheduler.hpp, scheduler.cpp)\<close>

datatype EventType =
    Ev_VBLANK
  | Ev_HBLANK
  | Ev_HBLANK_EXIT
  | Ev_OAM_SCAN
  | Ev_LCD_TRANSFER
  | Ev_TIMER_OVERFLOW
  | Ev_SERIAL_TRANSFER
  | Ev_APU_CHANNEL_1
  | Ev_APU_CHANNEL_2
  | Ev_APU_CHANNEL_3
  | Ev_APU_CHANNEL_4
  | Ev_APU_FRAME_SEQUENCER
  | Ev_DMA_TRANSFER
  | Ev_JOYPAD_INTERRUPT

text \<open>A scheduled event: its kind, the absolute cycle at which it fires, and the callback
  taken by value when it is scheduled. The callback type is a parameter: the scheduler
  stores callbacks and never inspects them.\<close>

record 'cb ScheduledEvent =
  ev_type :: EventType
  fire_at_cycle :: u64
  callback :: 'cb

text \<open>\<^verbatim>\<open>std::priority_queue<ScheduledEvent, std::vector<ScheduledEvent>, std::greater<>>\<close>
  is library code, modelled by its contract: a container whose \<^verbatim>\<open>top()\<close> is an element of
  least \<^verbatim>\<open>fire_at_cycle\<close>. The model keeps the elements in a list in non-decreasing order
  of \<^verbatim>\<open>fire_at_cycle\<close>; the order among events with the same fire cycle is one of the orders
  the library may choose.\<close>

type_synonym 'cb event_queue = "'cb ScheduledEvent list"

definition pq_empty :: "'cb event_queue \<Rightarrow> bool" where
  "pq_empty q = (q = [])"

definition pq_top :: "'cb event_queue \<Rightarrow> 'cb ScheduledEvent" where
  "pq_top q = hd q"

definition pq_pop :: "'cb event_queue \<Rightarrow> 'cb event_queue" where
  "pq_pop q = tl q"

definition pq_push :: "'cb ScheduledEvent \<Rightarrow> 'cb event_queue \<Rightarrow> 'cb event_queue" where
  "pq_push e q = insort_key fire_at_cycle e q"

record 'cb Scheduler =
  m_event_queue :: "'cb event_queue"
  m_current_cycle :: u64

definition Scheduler_init :: "'cb Scheduler" where
  "Scheduler_init = \<lparr> m_event_queue = [], m_current_cycle = 0 \<rparr>"

definition Schedule :: "EventType \<Rightarrow> u64 \<Rightarrow> 'cb \<Rightarrow> 'cb Scheduler \<Rightarrow> 'cb Scheduler" where
  "Schedule t cycles cb s =
     (let event = \<lparr> ev_type = t, fire_at_cycle = m_current_cycle s + cycles, callback = cb \<rparr>
      in s\<lparr> m_event_queue := pq_push event (m_event_queue s) \<rparr>)"

text \<open>The loop of \<^verbatim>\<open>Deschedule\<close>: while the old queue is not empty, take its top, pop it,
  and push it on the new queue unless it has the given kind. The pair returned is the
  (emptied) old queue and the new queue.\<close>

function Deschedule_loop ::
  "EventType \<Rightarrow> 'cb event_queue \<Rightarrow> 'cb event_queue \<Rightarrow> 'cb event_queue \<times> 'cb event_queue" where
  "Deschedule_loop t q new_queue =
     (if \<not> pq_empty q then
        (let event = pq_top q;
             q' = pq_pop q;
             new_queue' = (if ev_type event \<noteq> t then pq_push event new_queue else new_queue)
         in Deschedule_loop t q' new_queue')
      else (q, new_queue))"
  by pat_completeness auto
termination
  by (relation "measure (\<lambda>(t, q, n). length q)") (auto simp: pq_empty_def pq_pop_def)

declare Deschedule_loop.simps [simp del]

definition Deschedule :: "EventType \<Rightarrow> 'cb Scheduler \<Rightarrow> 'cb Scheduler" where
  "Deschedule t s =
     (let (old_queue, new_queue) = Deschedule_loop t (m_event_queue s) []
      in s\<lparr> m_event_queue := new_queue \<rparr>)"

definition Advance :: "u64 \<Rightarrow> 'cb Scheduler \<Rightarrow> 'cb Scheduler" where
  "Advance cycles s = s\<lparr> m_current_cycle := m_current_cycle s + cycles \<rparr>"

text \<open>\<^verbatim>\<open>ProcessEvents\<close>, for callbacks that act on a state of the caller's and leave the
  scheduler alone (no callback of this repository schedules an event).\<close>

function ProcessEvents_loop ::
  "u64 \<Rightarrow> ('w \<Rightarrow> 'w) event_queue \<Rightarrow> 'w \<Rightarrow> ('w \<Rightarrow> 'w) event_queue \<times> 'w" where
  "ProcessEvents_loop now q w =
     (if \<not> pq_empty q then
        (let next_event = pq_top q in
         if fire_at_cycle next_event \<le> now
         then ProcessEvents_loop now (pq_pop q) (callback next_event w)
         else (q, w))
      else (q, w))"
  by pat_completeness auto
termination
  by (relation "measure (\<lambda>(n, q, w). length q)") (auto simp: pq_empty_def pq_pop_def)

declare ProcessEvents_loop.simps [simp del]

definition ProcessEvents :: "('w \<Rightarrow> 'w) Scheduler \<Rightarrow> 'w \<Rightarrow> ('w \<Rightarrow> 'w) Scheduler \<times> 'w" where
  "ProcessEvents s w =
     (let (q, w') = ProcessEvents_loop (m_current_cycle s) (m_event_queue s) w
      in (s\<lparr> m_event_queue := q \<rparr>, w'))"

definition GetCyclesUntilNextEvent :: "'cb Scheduler \<Rightarrow> u64" where
  "GetCyclesUntilNextEvent s =
     (if pq_empty (m_event_queue s) then 0xFFFFFFFFFFFFFFFF
      else (let next_event = pq_top (m_event_queue s) in
            if fire_at_cycle next_event \<le> m_current_cycle s then 0
            else fire_at_cycle next_event - m_current_cycle s))"

definition Scheduler_Reset :: "'cb Scheduler \<Rightarrow> 'cb Scheduler" where
  "Scheduler_Reset s = s\<lparr> m_event_queue := [], m_current_cycle := 0 \<rparr>"

section \<open>Cartridge controllers (core/memory/mbc.hpp, mbc.cpp)\<close>

text \<open>\<^verbatim>\<open>std::vector<u8>::operator[]\<close> does not check its index. The model makes the check
  explicit: \<open>None\<close> is an access outside the vector (undefined behaviour in the source).\<close>

definition vec_at :: "'a list \<Rightarrow> nat \<Rightarrow> 'a option" where
  "vec_at xs i = (if i < length xs then Some (xs ! i) else None)"

text \<open>The base class holds the ROM, the RAM and the RAM-enable latch; each controller adds
  its bank registers.\<close>

record MBC_base =
  m_rom :: "u8 list"
  m_ram :: "u8 list"
  m_ram_enabled :: bool

record MBC1_state = MBC_base +
  mbc1_rom_bank :: u8
  mbc1_ram_bank :: u8
  mbc1_banking_mode :: bool

record MBC3_state = MBC_base +
  mbc3_rom_bank :: u8
  mbc3_ram_bank :: u8
  m_has_rtc :: bool
  m_rtc_seconds :: u8
  m_rtc_minutes :: u8
  m_rtc_hours :: u8
  m_rtc_days_low :: u8
  m_rtc_days_high :: u8
  m_rtc_latch_data :: u8
  m_rtc_latched :: bool

record MBC5_state = MBC_base +
  mbc5_rom_bank :: u16
  mbc5_ram_bank :: u8

datatype MBC = MBC0 MBC_base | MBC1 MBC1_state | MBC3 MBC3_state | MBC5 MBC5_state

definition MBC0_new :: "u8 list \<Rightarrow> MBC_base" where
  "MBC0_new rom_data = \<lparr> m_rom = rom_data, m_ram = [], m_ram_enabled = False \<rparr>"

definition MBC1_new :: "u8 list \<Rightarrow> MBC1_state" where
  "MBC1_new rom_data =
     \<lparr> m_rom = rom_data, m_ram = replicate (32 * 1024) 0, m_ram_enabled = False,
       mbc1_rom_bank = 1, mbc1_ram_bank = 0, mbc1_banking_mode = False \<rparr>"

definition MBC3_new :: "u8 list \<Rightarrow> bool \<Rightarrow> MBC3_state" where
  "MBC3_new rom_data has_rtc =
     \<lparr> m_rom = rom_data, m_ram = replicate (32 * 1024) 0, m_ram_enabled = False,
       mbc3_rom_bank = 1, mbc3_ram_bank = 0, m_has_rtc = has_rtc,
       m_rtc_seconds = 0, m_rtc_minutes = 0, m_rtc_hours = 0, m_rtc_days_low = 0,
       m_rtc_days_high = 0, m_rtc_latch_data = 0, m_rtc_latched = False \<rparr>"

definition MBC5_new :: "u8 list \<Rightarrow> MBC5_state" where
  "MBC5_new rom_data =
     \<lparr> m_rom = rom_data, m_ram = replicate (128 * 1024) 0, m_ram_enabled = False,
       mbc5_rom_bank = 1, mbc5_ram_bank = 0 \<rparr>"

text \<open>\<^verbatim>\<open>MBC::Create\<close>: \<open>None\<close> is the null pointer returned for an unsupported type.\<close>

definition MBC_Create :: "u8 \<Rightarrow> u8 list \<Rightarrow> MBC option" where
  "MBC_Create cartridge_type rom_data =
     (if cartridge_type = 0x00 then Some (MBC0 (MBC0_new rom_data))
      else if cartridge_type \<in> {0x01, 0x02, 0x03} then Some (MBC1 (MBC1_new rom_data))
      else if cartridge_type \<in> {0x0F, 0x10, 0x11, 0x12, 0x13}
        then Some (MBC3 (MBC3_new rom_data (cartridge_type = 0x0F \<or> cartridge_type = 0x10)))
      else if cartridge_type \<in> {0x19, 0x1A, 0x1B, 0x1C, 0x1D, 0x1E}
        then Some (MBC5 (MBC5_new rom_data))
      else None)"

subsection \<open>MBC0\<close>

definition MBC0_Read :: "MBC_base \<Rightarrow> u16 \<Rightarrow> u8 option" where
  "MBC0_Read c address =
     (if unat address < length (m_rom c) then vec_at (m_rom c) (unat address) else Some 0xFF)"

definition MBC0_ReadRAM :: "MBC_base \<Rightarrow> u16 \<Rightarrow> u8" where
  "MBC0_ReadRAM c address = 0xFF"

subsection \<open>MBC1\<close>

definition MBC1_GetROMBankOffset :: "MBC1_state \<Rightarrow> u32" where
  "MBC1_GetROMBankOffset c =
     (if \<not> mbc1_banking_mode c then
        (let bank = mbc1_rom_bank c AND 0x1F;
             bank = (if bank = 0 then 1 else bank)
         in ucast bank * 0x4000)
      else
        (let bank = mbc1_rom_bank c AND 0x1F;
             bank = (if bank = 0 then 1 else bank)
         in ucast bank * 0x4000))"

definition MBC1_GetRAMBankOffset :: "MBC1_state \<Rightarrow> u32" where
  "MBC1_GetRAMBankOffset c =
     (if mbc1_banking_mode c then ucast (mbc1_ram_bank c AND 0x03) * 0x2000 else 0)"

definition MBC1_Read :: "MBC1_state \<Rightarrow> u16 \<Rightarrow> u8 option" where
  "MBC1_Read c address =
     (if address \<le> 0x3FFF then vec_at (m_rom c) (unat address)
      else if address \<le> 0x7FFF then
        (let offset = MBC1_GetROMBankOffset c + (ucast address - 0x4000) in
         if unat offset < length (m_rom c) then vec_at (m_rom c) (unat offset) else Some 0xFF)
      else Some 0xFF)"

definition MBC1_Write :: "u16 \<Rightarrow> u8 \<Rightarrow> MBC1_state \<Rightarrow> MBC1_state" where
  "MBC1_Write address v c =
     (if address \<le> 0x1FFF then c\<lparr> m_ram_enabled := (v AND 0x0F = 0x0A) \<rparr>
      else if address \<le> 0x3FFF then
        (let bank = v AND 0x1F in c\<lparr> mbc1_rom_bank := (if bank = 0 then 1 else bank) \<rparr>)
      else if address \<le> 0x5FFF then c\<lparr> mbc1_ram_bank := v AND 0x03 \<rparr>
      else if address \<le> 0x7FFF then c\<lparr> mbc1_banking_mode := (v AND 0x01 \<noteq> 0) \<rparr>
      else c)"

definition MBC1_ReadRAM :: "MBC1_state \<Rightarrow> u16 \<Rightarrow> u8" where
  "MBC1_ReadRAM c address =
     (if \<not> m_ram_enabled c then 0xFF
      else (let offset = MBC1_GetRAMBankOffset c + (ucast address - 0xA000) in
            if unat offset < length (m_ram c) then m_ram c ! unat offset else 0xFF))"

definition MBC1_WriteRAM :: "u16 \<Rightarrow> u8 \<Rightarrow> MBC1_state \<Rightarrow> MBC1_state" where
  "MBC1_WriteRAM address v c =
     (if \<not> m_ram_enabled c then c
      else (let offset = MBC1_GetRAMBankOffset c + (ucast address - 0xA000) in
            if unat offset < length (m_ram c) then c\<lparr> m_ram := (m_ram c)[unat offset := v] \<rparr>
            else c))"

subsection \<open>MBC3\<close>

definition MBC3_GetROMBankOffset :: "MBC3_state \<Rightarrow> u32" where
  "MBC3_GetROMBankOffset c =
     (let bank = mbc3_rom_bank c AND 0x7F;
          bank = (if bank = 0 then 1 else bank)
      in ucast bank * 0x4000)"

definition MBC3_GetRAMBankOffset :: "MBC3_state \<Rightarrow> u32" where
  "MBC3_GetRAMBankOffset c = ucast (mbc3_ram_bank c AND 0x03) * 0x2000"

definition MBC3_Read :: "MBC3_state \<Rightarrow> u16 \<Rightarrow> u8 option" where
  "MBC3_Read c address =
     (if address \<le> 0x3FFF then vec_at (m_rom c) (unat address)
      else if address \<le> 0x7FFF then
        (let offset = MBC3_GetROMBankOffset c + (ucast address - 0x4000) in
         if unat offset < length (m_rom c) then vec_at (m_rom c) (unat offset) else Some 0xFF)
      else Some 0xFF)"

definition MBC3_Write :: "u16 \<Rightarrow> u8 \<Rightarrow> MBC3_state \<Rightarrow> MBC3_state" where
  "MBC3_Write address v c =
     (if address \<le> 0x1FFF then c\<lparr> m_ram_enabled := (v AND 0x0F = 0x0A) \<rparr>
      else if address \<le> 0x3FFF then
        (let bank = v AND 0x7F in c\<lparr> mbc3_rom_bank := (if bank = 0 then 1 else bank) \<rparr>)
      else if address \<le> 0x5FFF then c\<lparr> mbc3_ram_bank := v \<rparr>
      else if address \<le> 0x7FFF then
        (let c' = (if m_rtc_latch_data c = 0x00 \<and> v = 0x01 then c\<lparr> m_rtc_latched := True \<rparr> else c)
         in c'\<lparr> m_rtc_latch_data := v \<rparr>)
      else c)"

definition MBC3_ReadRAM :: "MBC3_state \<Rightarrow> u16 \<Rightarrow> u8" where
  "MBC3_ReadRAM c address =
     (if \<not> m_ram_enabled c then 0xFF
      else if mbc3_ram_bank c \<le> 0x03 then
        (let offset = MBC3_GetRAMBankOffset c + (ucast address - 0xA000) in
         if unat offset < length (m_ram c) then m_ram c ! unat offset else 0xFF)
      else if m_has_rtc c \<and> mbc3_ram_bank c \<ge> 0x08 \<and> mbc3_ram_bank c \<le> 0x0C then
        (if mbc3_ram_bank c = 0x08 then m_rtc_seconds c
         else if mbc3_ram_bank c = 0x09 then m_rtc_minutes c
         else if mbc3_ram_bank c = 0x0A then m_rtc_hours c
         else if mbc3_ram_bank c = 0x0B then m_rtc_days_low c
         else if mbc3_ram_bank c = 0x0C then m_rtc_days_high c
         else 0xFF)
      else 0xFF)"

definition MBC3_WriteRAM :: "u16 \<Rightarrow> u8 \<Rightarrow> MBC3_state \<Rightarrow> MBC3_state" where
  "MBC3_WriteRAM address v c =
     (if \<not> m_ram_enabled c then c
      else if mbc3_ram_bank c \<le> 0x03 then
        (let offset = MBC3_GetRAMBankOffset c + (ucast address - 0xA000) in
         if unat offset < length (m_ram c) then c\<lparr> m_ram := (m_ram c)[unat offset := v] \<rparr>
         else c)
      else if m_has_rtc c \<and> mbc3_ram_bank c \<ge> 0x08 \<and> mbc3_ram_bank c \<le> 0x0C then
        (if mbc3_ram_bank c = 0x08 then c\<lparr> m_rtc_seconds := v \<rparr>
         else if mbc3_ram_bank c = 0x09 then c\<lparr> m_rtc_minutes := v \<rparr>
         else if mbc3_ram_bank c = 0x0A then c\<lparr> m_rtc_hours := v \<rparr>
         else if mbc3_ram_bank c = 0x0B then c\<lparr> m_rtc_days_low := v \<rparr>
         else if mbc3_ram_bank c = 0x0C then c\<lparr> m_rtc_days_high := v \<rparr>
         else c)
      else c)"

subsection \<open>MBC5\<close>

definition MBC5_GetROMBankOffset :: "MBC5_state \<Rightarrow> u32" where
  "MBC5_GetROMBankOffset c = ucast (mbc5_rom_bank c) * 0x4000"

definition MBC5_GetRAMBankOffset :: "MBC5_state \<Rightarrow> u32" where
  "MBC5_GetRAMBankOffset c = ucast (mbc5_ram_bank c AND 0x0F) * 0x2000"

definition MBC5_Read :: "MBC5_state \<Rightarrow> u16 \<Rightarrow> u8 option" where
  "MBC5_Read c address =
     (if address \<le> 0x3FFF then vec_at (m_rom c) (unat address)
      else if address \<le> 0x7FFF then
        (let offset = MBC5_GetROMBankOffset c + (ucast address - 0x4000) in
         if unat offset < length (m_rom c) then vec_at (m_rom c) (unat offset) else Some 0xFF)
      else Some 0xFF)"

definition MBC5_Write :: "u16 \<Rightarrow> u8 \<Rightarrow> MBC5_state \<Rightarrow> MBC5_state" where
  "MBC5_Write address v c =
     (if address \<le> 0x1FFF then c\<lparr> m_ram_enabled := (v AND 0x0F = 0x0A) \<rparr>
      else if address \<le> 0x2FFF then c\<lparr> mbc5_rom_bank := (mbc5_rom_bank c AND 0x100) OR ucast v \<rparr>
      else if address \<le> 0x3FFF then
        c\<lparr> mbc5_rom_bank := (mbc5_rom_bank c AND 0x0FF) OR push_bit 8 (ucast (v AND 0x01)) \<rparr>
      else if address \<le> 0x5FFF then c\<lparr> mbc5_ram_bank := v AND 0x0F \<rparr>
      else c)"

definition MBC5_ReadRAM :: "MBC5_state \<Rightarrow> u16 \<Rightarrow> u8" where
  "MBC5_ReadRAM c address =
     (if \<not> m_ram_enabled c then 0xFF
      else (let offset = MBC5_GetRAMBankOffset c + (ucast address - 0xA000) in
            if unat offset < length (m_ram c) then m_ram c ! unat offset else 0xFF))"

definition MBC5_WriteRAM :: "u16 \<Rightarrow> u8 \<Rightarrow> MBC5_state \<Rightarrow> MBC5_state" where
  "MBC5_WriteRAM address v c =
     (if \<not> m_ram_enabled c then c
      else (let offset = MBC5_GetRAMBankOffset c + (ucast address - 0xA000) in
            if unat offset < length (m_ram c) then c\<lparr> m_ram := (m_ram c)[unat offset := v] \<rparr>
            else c))"

subsection \<open>The virtual interface\<close>

fun MBC_Read :: "MBC \<Rightarrow> u16 \<Rightarrow> u8 option" where
  "MBC_Read (MBC0 c) address = MBC0_Read c address"
| "MBC_Read (MBC1 c) address = MBC1_Read c address"
| "MBC_Read (MBC3 c) address = MBC3_Read c address"
| "MBC_Read (MBC5 c) address = MBC5_Read c address"

fun MBC_Write :: "u16 \<Rightarrow> u8 \<Rightarrow> MBC \<Rightarrow> MBC" where
  "MBC_Write address v (MBC0 c) = MBC0 c"
| "MBC_Write address v (MBC1 c) = MBC1 (MBC1_Write address v c)"
| "MBC_Write address v (MBC3 c) = MBC3 (MBC3_Write address v c)"
| "MBC_Write address v (MBC5 c) = MBC5 (MBC5_Write address v c)"

fun MBC_ReadRAM :: "MBC \<Rightarrow> u16 \<Rightarrow> u8" where
  "MBC_ReadRAM (MBC0 c) address = MBC0_ReadRAM c address"
| "MBC_ReadRAM (MBC1 c) address = MBC1_ReadRAM c address"
| "MBC_ReadRAM (MBC3 c) address = MBC3_ReadRAM c address"
| "MBC_ReadRAM (MBC5 c) address = MBC5_ReadRAM c address"

fun MBC_WriteRAM :: "u16 \<Rightarrow> u8 \<Rightarrow> MBC \<Rightarrow> MBC" where
  "MBC_WriteRAM address v (MBC0 c) = MBC0 c"
| "MBC_WriteRAM address v (MBC1 c) = MBC1 (MBC1_WriteRAM address v c)"
| "MBC_WriteRAM address v (MBC3 c) = MBC3 (MBC3_WriteRAM address v c)"
| "MBC_WriteRAM address v (MBC5 c) = MBC5 (MBC5_WriteRAM address v c)"

section \<open>State of the picture unit and of the timer (core/ppu/ppu.hpp, core/timer/timer.hpp)\<close>

text \<open>The memory bus calls back into the picture unit and the timer through its I/O
  handlers, so their state is declared before the bus.\<close>

datatype Mode = HBLANK | VBLANK | OAM_SCAN | DRAWING

fun Mode_u8 :: "Mode \<Rightarrow> u8" where
  "Mode_u8 HBLANK = 0"
| "Mode_u8 VBLANK = 1"
| "Mode_u8 OAM_SCAN = 2"
| "Mode_u8 DRAWING = 3"

record Sprite =
  spr_y :: u8
  spr_x :: u8
  spr_tile :: u8
  spr_flags :: u8

record PPU =
  m_mode :: Mode
  m_cycle_counter :: u32
  m_scanline :: u8
  m_frame_ready :: bool
  m_framebuffer :: "u32 list"
  m_sprite_buffer :: "Sprite list"
  m_sprite_count :: u8
  m_lcdc :: u8
  m_stat :: u8
  m_scy :: u8
  m_scx :: u8
  m_lyc :: u8
  m_bgp :: u8
  m_obp0 :: u8
  m_obp1 :: u8
  m_wy :: u8
  m_wx :: u8

record Timer =
  m_div_counter :: u16
  m_tima :: u8
  m_tma :: u8
  m_tac :: u8
  m_timer_counter :: u32

section \<open>Memory bus (core/memory/memory.hpp, memory.cpp)\<close>

abbreviation (input) WRAM_SIZE :: nat where "WRAM_SIZE \<equiv> 8192"
abbreviation (input) VRAM_SIZE :: nat where "VRAM_SIZE \<equiv> 8192"
abbreviation (input) OAM_SIZE :: nat where "OAM_SIZE \<equiv> 160"
abbreviation (input) HRAM_SIZE :: nat where "HRAM_SIZE \<equiv> 127"
abbreviation (input) IO_SIZE :: nat where "IO_SIZE \<equiv> 128"
abbreviation (input) PAGE_SIZE :: nat where "PAGE_SIZE \<equiv> 256"
abbreviation (input) PAGE_COUNT :: nat where "PAGE_COUNT \<equiv> 256"

text \<open>A page-table entry is a pointer into \<^verbatim>\<open>m_vram\<close> or \<^verbatim>\<open>m_wram\<close> (the array and the
  offset of the page's first byte in it), or null (\<open>None\<close>): the slow path.\<close>

datatype Region = R_VRAM | R_WRAM

type_synonym page_ptr = "Region \<times> nat"

text \<open>An I/O handler is a pair of closures over the picture unit or the timer. The closures
  registered in this repository are named by the register they serve; \<open>None\<close> in a
  handler table is an empty \<^verbatim>\<open>std::function\<close>.\<close>

datatype IOHandler =
    IO_DIV | IO_TIMA | IO_TMA | IO_TAC
  | IO_LCDC | IO_STAT | IO_SCY | IO_SCX | IO_LY | IO_LYC
  | IO_BGP | IO_OBP0 | IO_OBP1 | IO_WY | IO_WX

record Memory =
  m_wram :: "u8 list"
  m_vram :: "u8 list"
  m_oam :: "u8 list"
  m_hram :: "u8 list"
  m_io :: "u8 list"
  m_ie_register :: u8
  m_read_page_table :: "page_ptr option list"
  m_write_page_table :: "page_ptr option list"
  m_mbc :: "MBC option"
  m_io_read_handlers :: "IOHandler option list"
  m_io_write_handlers :: "IOHandler option list"

text \<open>The bus with the two components its handlers reach.\<close>

record Bus =
  memory :: Memory
  ppu :: PPU
  timer :: Timer

text \<open>The three loops of \<^verbatim>\<open>InitializePageTables\<close>; each assigns the same pointer to the
  read table and to the write table.\<close>

definition InitializePageTables :: "Memory \<Rightarrow> Memory" where
  "InitializePageTables m =
     (let rt = replicate PAGE_COUNT None;
          wt = replicate PAGE_COUNT None;
          (rt, wt) = fold (\<lambda>i (rt, wt).
                        (let page_index = (0x8000 + i * PAGE_SIZE) div PAGE_SIZE in
                         (rt[page_index := Some (R_VRAM, i * PAGE_SIZE)],
                          wt[page_index := Some (R_VRAM, i * PAGE_SIZE)])))
                      [0..<32] (rt, wt);
          (rt, wt) = fold (\<lambda>i (rt, wt).
                        (let page_index = (0xC000 + i * PAGE_SIZE) div PAGE_SIZE in
                         (rt[page_index := Some (R_WRAM, i * PAGE_SIZE)],
                          wt[page_index := Some (R_WRAM, i * PAGE_SIZE)])))
                      [0..<32] (rt, wt);
          (rt, wt) = fold (\<lambda>i (rt, wt).
                        (let page_index = (0xE000 + i * PAGE_SIZE) div PAGE_SIZE;
                             wram_offset = i * PAGE_SIZE in
                         if wram_offset < WRAM_SIZE
                         then (rt[page_index := Some (R_WRAM, wram_offset)],
                               wt[page_index := Some (R_WRAM, wram_offset)])
                         else (rt, wt)))
                      [0..<30] (rt, wt)
      in m\<lparr> m_read_page_table := rt, m_write_page_table := wt \<rparr>)"

definition Memory_Reset :: "Memory \<Rightarrow> Memory" where
  "Memory_Reset m =
     InitializePageTables
       (m\<lparr> m_wram := replicate WRAM_SIZE 0,
           m_vram := replicate VRAM_SIZE 0,
           m_oam := replicate OAM_SIZE 0,
           m_hram := replicate HRAM_SIZE 0,
           m_io := replicate IO_SIZE 0,
           m_ie_register := 0 \<rparr>)"

text \<open>The constructor: no cartridge, no handler, then \<^verbatim>\<open>Reset()\<close>.\<close>

definition Memory_new :: Memory where
  "Memory_new =
     Memory_Reset
       \<lparr> m_wram = [], m_vram = [], m_oam = [], m_hram = [], m_io = [],
         m_ie_register = 0, m_read_page_table = [], m_write_page_table = [],
         m_mbc = None,
         m_io_read_handlers = replicate IO_SIZE None,
         m_io_write_handlers = replicate IO_SIZE None \<rparr>"

text \<open>Dereferencing a page pointer at an offset.\<close>

fun page_load :: "Memory \<Rightarrow> page_ptr \<Rightarrow> nat \<Rightarrow> u8" where
  "page_load m (R_VRAM, base) offset = m_vram m ! (base + offset)"
| "page_load m (R_WRAM, base) offset = m_wram m ! (base + offset)"

fun page_store :: "page_ptr \<Rightarrow> nat \<Rightarrow> u8 \<Rightarrow> Memory \<Rightarrow> Memory" where
  "page_store (R_VRAM, base) offset v m = m\<lparr> m_vram := (m_vram m)[base + offset := v] \<rparr>"
| "page_store (R_WRAM, base) offset v m = m\<lparr> m_wram := (m_wram m)[base + offset := v] \<rparr>"

text \<open>\<^verbatim>\<open>Timer::IsTimerEnabled\<close> (used by the TAC write handler).\<close>

definition IsTimerEnabled :: "Timer \<Rightarrow> bool" where
  "IsTimerEnabled t = (m_tac t AND 0x04 \<noteq> 0)"

text \<open>The read closures registered by \<^verbatim>\<open>Timer::RegisterIOHandlers\<close> and
  \<^verbatim>\<open>PPU::RegisterIOHandlers\<close>.\<close>

fun io_read_handler :: "IOHandler \<Rightarrow> Bus \<Rightarrow> u16 \<Rightarrow> u8" where
  "io_read_handler IO_DIV b a = ucast (drop_bit 8 (m_div_counter (timer b)))"
| "io_read_handler IO_TIMA b a = m_tima (timer b)"
| "io_read_handler IO_TMA b a = m_tma (timer b)"
| "io_read_handler IO_TAC b a = m_tac (timer b) OR 0xF8"
| "io_read_handler IO_LCDC b a = m_lcdc (ppu b)"
| "io_read_handler IO_STAT b a = m_stat (ppu b)"
| "io_read_handler IO_SCY b a = m_scy (ppu b)"
| "io_read_handler IO_SCX b a = m_scx (ppu b)"
| "io_read_handler IO_LY b a = m_scanline (ppu b)"
| "io_read_handler IO_LYC b a = m_lyc (ppu b)"
| "io_read_handler IO_BGP b a = m_bgp (ppu b)"
| "io_read_handler IO_OBP0 b a = m_obp0 (ppu b)"
| "io_read_handler IO_OBP1 b a = m_obp1 (ppu b)"
| "io_read_handler IO_WY b a = m_wy (ppu b)"
| "io_read_handler IO_WX b a = m_wx (ppu b)"

text \<open>The write closures.\<close>

fun io_write_handler :: "IOHandler \<Rightarrow> u16 \<Rightarrow> u8 \<Rightarrow> Bus \<Rightarrow> Bus" where
  "io_write_handler IO_DIV a v b = b\<lparr> timer := (timer b)\<lparr> m_div_counter := 0 \<rparr> \<rparr>"
| "io_write_handler IO_TIMA a v b = b\<lparr> timer := (timer b)\<lparr> m_tima := v, m_timer_counter := 0 \<rparr> \<rparr>"
| "io_write_handler IO_TMA a v b = b\<lparr> timer := (timer b)\<lparr> m_tma := v \<rparr> \<rparr>"
| "io_write_handler IO_TAC a v b =
     (let was_enabled = IsTimerEnabled (timer b);
          t = (timer b)\<lparr> m_tac := v AND 0x07 \<rparr>;
          t = (if was_enabled \<noteq> IsTimerEnabled t then t\<lparr> m_timer_counter := 0 \<rparr> else t)
      in b\<lparr> timer := t \<rparr>)"
| "io_write_handler IO_LCDC a v b = b\<lparr> ppu := (ppu b)\<lparr> m_lcdc := v \<rparr> \<rparr>"
| "io_write_handler IO_STAT a v b =
     b\<lparr> ppu := (ppu b)\<lparr> m_stat := (v AND 0xF8) OR (m_stat (ppu b) AND 0x07) \<rparr> \<rparr>"
| "io_write_handler IO_SCY a v b = b\<lparr> ppu := (ppu b)\<lparr> m_scy := v \<rparr> \<rparr>"
| "io_write_handler IO_SCX a v b = b\<lparr> ppu := (ppu b)\<lparr> m_scx := v \<rparr> \<rparr>"
| "io_write_handler IO_LY a v b = b"
| "io_write_handler IO_LYC a v b = b\<lparr> ppu := (ppu b)\<lparr> m_lyc := v \<rparr> \<rparr>"
| "io_write_handler IO_BGP a v b = b\<lparr> ppu := (ppu b)\<lparr> m_bgp := v \<rparr> \<rparr>"
| "io_write_handler IO_OBP0 a v b = b\<lparr> ppu := (ppu b)\<lparr> m_obp0 := v \<rparr> \<rparr>"
| "io_write_handler IO_OBP1 a v b = b\<lparr> ppu := (ppu b)\<lparr> m_obp1 := v \<rparr> \<rparr>"
| "io_write_handler IO_WY a v b = b\<lparr> ppu := (ppu b)\<lparr> m_wy := v \<rparr> \<rparr>"
| "io_write_handler IO_WX a v b = b\<lparr> ppu := (ppu b)\<lparr> m_wx := v \<rparr> \<rparr>"

definition ReadIO :: "Bus \<Rightarrow> u16 \<Rightarrow> u8" where
  "ReadIO b address =
     (let offset = unat (address - 0xFF00) in
      case m_io_read_handlers (memory b) ! offset of
        Some h \<Rightarrow> io_read_handler h b address
      | None \<Rightarrow> m_io (memory b) ! offset)"

definition WriteIO :: "u16 \<Rightarrow> u8 \<Rightarrow> Bus \<Rightarrow> Bus" where
  "WriteIO address v b =
     (let offset = unat (address - 0xFF00) in
      case m_io_write_handlers (memory b) ! offset of
        Some h \<Rightarrow> io_write_handler h address v b
      | None \<Rightarrow> b\<lparr> memory := (memory b)\<lparr> m_io := (m_io (memory b))[offset := v] \<rparr> \<rparr>)"

text \<open>\<^verbatim>\<open>Memory::Read\<close>. \<open>None\<close> is the one fault a read can run into: the cartridge
  controller indexing its ROM vector out of range.\<close>

definition Memory_Read :: "Bus \<Rightarrow> u16 \<Rightarrow> u8 option" where
  "Memory_Read b address =
     (let m = memory b;
          page = unat address div PAGE_SIZE;
          offset = unat address mod PAGE_SIZE
      in case m_read_page_table m ! page of
           Some page_ptr \<Rightarrow> Some (page_load m page_ptr offset)
         | None \<Rightarrow>
            (if 0x0000 \<le> address \<and> address \<le> 0x7FFF then
               (case m_mbc m of Some c \<Rightarrow> MBC_Read c address | None \<Rightarrow> Some 0xFF)
             else if 0xA000 \<le> address \<and> address \<le> 0xBFFF then
               (case m_mbc m of Some c \<Rightarrow> Some (MBC_ReadRAM c address) | None \<Rightarrow> Some 0xFF)
             else if 0xFE00 \<le> address \<and> address \<le> 0xFE9F then
               Some (m_oam m ! unat (address - 0xFE00))
             else if 0xFEA0 \<le> address \<and> address \<le> 0xFEFF then Some 0xFF
             else if 0xFF00 \<le> address \<and> address \<le> 0xFF7F then Some (ReadIO b address)
             else if 0xFF80 \<le> address \<and> address \<le> 0xFFFE then
               Some (m_hram m ! unat (address - 0xFF80))
             else if address = 0xFFFF then Some (m_ie_register m)
             else Some 0xFF))"

definition Memory_Write :: "u16 \<Rightarrow> u8 \<Rightarrow> Bus \<Rightarrow> Bus" where
  "Memory_Write address v b =
     (let m = memory b;
          page = unat address div PAGE_SIZE;
          offset = unat address mod PAGE_SIZE
      in case m_write_page_table m ! page of
           Some page_ptr \<Rightarrow> b\<lparr> memory := page_store page_ptr offset v m \<rparr>
         | None \<Rightarrow>
            (if 0x0000 \<le> address \<and> address \<le> 0x7FFF then
               (case m_mbc m of
                  Some c \<Rightarrow> b\<lparr> memory := m\<lparr> m_mbc := Some (MBC_Write address v c) \<rparr> \<rparr>
                | None \<Rightarrow> b)
             else if 0xA000 \<le> address \<and> address \<le> 0xBFFF then
               (case m_mbc m of
                  Some c \<Rightarrow> b\<lparr> memory := m\<lparr> m_mbc := Some (MBC_WriteRAM address v c) \<rparr> \<rparr>
                | None \<Rightarrow> b)
             else if 0xFE00 \<le> address \<and> address \<le> 0xFE9F then
               b\<lparr> memory := m\<lparr> m_oam := (m_oam m)[unat (address - 0xFE00) := v] \<rparr> \<rparr>
             else if 0xFEA0 \<le> address \<and> address \<le> 0xFEFF then b
             else if 0xFF00 \<le> address \<and> address \<le> 0xFF7F then WriteIO address v b
             else if 0xFF80 \<le> address \<and> address \<le> 0xFFFE then
               b\<lparr> memory := m\<lparr> m_hram := (m_hram m)[unat (address - 0xFF80) := v] \<rparr> \<rparr>
             else if address = 0xFFFF then b\<lparr> memory := m\<lparr> m_ie_register := v \<rparr> \<rparr>
             else b))"

text \<open>16-bit accesses: two 8-bit accesses, low byte first.\<close>

definition Memory_Read16 :: "Bus \<Rightarrow> u16 \<Rightarrow> u16 option" where
  "Memory_Read16 b address =
     do {
       low \<leftarrow> Memory_Read b address;
       high \<leftarrow> Memory_Read b (address + 1);
       Some (push_bit 8 (ucast high) OR ucast low)
     }"

definition Memory_Write16 :: "u16 \<Rightarrow> u16 \<Rightarrow> Bus \<Rightarrow> Bus" where
  "Memory_Write16 address v b =
     (let b = Memory_Write address (ucast (v AND 0xFF)) b
      in Memory_Write (address + 1) (ucast (drop_bit 8 v AND 0xFF)) b)"

text \<open>\<^verbatim>\<open>Memory::LoadROM\<close>: the flag returned and the memory after. A null data pointer is
  not modelled (the ROM is a byte list). The controller is assigned before it is tested,
  so a refused cartridge type leaves the bus without a controller.\<close>

definition Memory_LoadROM :: "u8 list \<Rightarrow> Memory \<Rightarrow> bool \<times> Memory" where
  "Memory_LoadROM rom_data m =
     (if length rom_data < 0x150 then (False, m)
      else (let cartridge_type = rom_data ! 0x0147;
                m = m\<lparr> m_mbc := MBC_Create cartridge_type rom_data \<rparr>
            in if m_mbc m = None then (False, m) else (True, m)))"

definition RegisterIOHandler :: "u16 \<Rightarrow> IOHandler \<Rightarrow> Memory \<Rightarrow> Memory" where
  "RegisterIOHandler address h m =
     (if address < 0xFF00 \<or> address > 0xFF7F then m
      else (let offset = unat (address - 0xFF00) in
            m\<lparr> m_io_read_handlers := (m_io_read_handlers m)[offset := Some h],
               m_io_write_handlers := (m_io_write_handlers m)[offset := Some h] \<rparr>))"

definition Memory_RequestInterrupt :: "u8 \<Rightarrow> Memory \<Rightarrow> Memory" where
  "Memory_RequestInterrupt interrupt_bit m =
     m\<lparr> m_io := (m_io m)[0x0F := (m_io m ! 0x0F) OR interrupt_bit] \<rparr>"

definition Timer_RegisterIOHandlers :: "Memory \<Rightarrow> Memory" where
  "Timer_RegisterIOHandlers m =
     (RegisterIOHandler 0xFF07 IO_TAC \<circ> RegisterIOHandler 0xFF06 IO_TMA \<circ>
      RegisterIOHandler 0xFF05 IO_TIMA \<circ> RegisterIOHandler 0xFF04 IO_DIV) m"

definition PPU_RegisterIOHandlers :: "Memory \<Rightarrow> Memory" where
  "PPU_RegisterIOHandlers m =
     (RegisterIOHandler 0xFF4B IO_WX \<circ> RegisterIOHandler 0xFF4A IO_WY \<circ>
      RegisterIOHandler 0xFF49 IO_OBP1 \<circ> RegisterIOHandler 0xFF48 IO_OBP0 \<circ>
      RegisterIOHandler 0xFF47 IO_BGP \<circ> RegisterIOHandler 0xFF45 IO_LYC \<circ>
      RegisterIOHandler 0xFF44 IO_LY \<circ> RegisterIOHandler 0xFF43 IO_SCX \<circ>
      RegisterIOHandler 0xFF42 IO_SCY \<circ> RegisterIOHandler 0xFF41 IO_STAT \<circ>
      RegisterIOHandler 0xFF40 IO_LCDC) m"

section \<open>Timer (core/timer/timer.cpp)\<close>

definition Timer_Reset :: "Timer \<Rightarrow> Timer" where
  "Timer_Reset t =
     t\<lparr> m_div_counter := 0, m_tima := 0, m_tma := 0, m_tac := 0, m_timer_counter := 0 \<rparr>"

definition Timer_new :: Timer where
  "Timer_new =
     Timer_Reset \<lparr> m_div_counter = 0, m_tima = 0, m_tma = 0, m_tac = 0, m_timer_counter = 0 \<rparr>"

text \<open>\<^verbatim>\<open>m_div_counter += cycles\<close> on a 16-bit counter: the sum is truncated to 16 bits.\<close>

definition UpdateDIV :: "u32 \<Rightarrow> Timer \<Rightarrow> Timer" where
  "UpdateDIV cycles t = t\<lparr> m_div_counter := m_div_counter t + ucast cycles \<rparr>"

definition GetTimerFrequency :: "Timer \<Rightarrow> u32" where
  "GetTimerFrequency t =
     (let sel = m_tac t AND 0x03 in
      if sel = 0 then 1024
      else if sel = 1 then 16
      else if sel = 2 then 64
      else if sel = 3 then 256
      else 1024)"

lemma GetTimerFrequency_cases:
  "GetTimerFrequency t \<in> {1024, 16, 64, 256}"
  by (simp add: GetTimerFrequency_def Let_def)

lemma GetTimerFrequency_pos: "0 < unat (GetTimerFrequency t)"
  using GetTimerFrequency_cases [of t] by auto

text \<open>The body of the loop of \<^verbatim>\<open>UpdateTIMA\<close>, one iteration.\<close>

definition UpdateTIMA_body :: "u32 \<Rightarrow> Bus \<Rightarrow> Bus" where
  "UpdateTIMA_body frequency b =
     (let t = timer b;
          t = t\<lparr> m_timer_counter := m_timer_counter t - frequency \<rparr>;
          t = t\<lparr> m_tima := m_tima t + 1 \<rparr>
      in if m_tima t = 0
         then b\<lparr> timer := t\<lparr> m_tima := m_tma t \<rparr>,
                 memory := Memory_RequestInterrupt 0x04 (memory b) \<rparr>
         else b\<lparr> timer := t \<rparr>)"

lemma UpdateTIMA_body_tac [simp]:
  "m_tac (timer (UpdateTIMA_body f b)) = m_tac (timer b)"
  by (simp add: UpdateTIMA_body_def Let_def)

lemma UpdateTIMA_body_counter [simp]:
  "m_timer_counter (timer (UpdateTIMA_body f b)) = m_timer_counter (timer b) - f"
  by (simp add: UpdateTIMA_body_def Let_def)

lemma GetTimerFrequency_body [simp]:
  "GetTimerFrequency (timer (UpdateTIMA_body f b)) = GetTimerFrequency (timer b)"
  by (simp add: GetTimerFrequency_def)

text \<open>The loop \<^verbatim>\<open>while (m_timer_counter >= frequency)\<close>. The source computes
  \<^verbatim>\<open>frequency = GetTimerFrequency()\<close> once, before the loop; it depends on \<^verbatim>\<open>m_tac\<close> only,
  which the loop does not change, so the model reads it in each iteration (that it is
  never zero is what makes the loop end).\<close>

function UpdateTIMA_loop :: "Bus \<Rightarrow> Bus" where
  "UpdateTIMA_loop b =
     (let frequency = GetTimerFrequency (timer b) in
      if m_timer_counter (timer b) \<ge> frequency
      then UpdateTIMA_loop (UpdateTIMA_body frequency b)
      else b)"
  by pat_completeness auto
termination
proof (relation "measure (\<lambda>b. unat (m_timer_counter (timer b)))")
  show "wf (measure (\<lambda>b. unat (m_timer_counter (timer b))))" by simp
next
  fix b :: Bus and x :: u32
  assume x: "x = GetTimerFrequency (timer b)" and le: "x \<le> m_timer_counter (timer b)"
  have "0 < unat x" using x GetTimerFrequency_pos by simp
  moreover have "unat (m_timer_counter (timer b) - x) = unat (m_timer_counter (timer b)) - unat x"
    using le by (simp add: unat_sub)
  moreover have "unat x \<le> unat (m_timer_counter (timer b))"
    using le by (simp add: word_le_nat_alt)
  ultimately show "(UpdateTIMA_body x b, b) \<in> measure (\<lambda>b. unat (m_timer_counter (timer b)))"
    by simp
qed

declare UpdateTIMA_loop.simps [simp del]

definition UpdateTIMA :: "u32 \<Rightarrow> Bus \<Rightarrow> Bus" where
  "UpdateTIMA cycles b =
     UpdateTIMA_loop
       (b\<lparr> timer := (timer b)\<lparr> m_timer_counter := m_timer_counter (timer b) + cycles \<rparr> \<rparr>)"

definition Timer_Step :: "u32 \<Rightarrow> Bus \<Rightarrow> Bus" where
  "Timer_Step cycles b =
     (let b = b\<lparr> timer := UpdateDIV cycles (timer b) \<rparr>
      in if IsTimerEnabled (timer b) then UpdateTIMA cycles b else b)"

section \<open>Picture unit (core/ppu/ppu.cpp)\<close>

abbreviation (input) SCREEN_WIDTH :: nat where "SCREEN_WIDTH \<equiv> 160"
abbreviation (input) SCREEN_HEIGHT :: nat where "SCREEN_HEIGHT \<equiv> 144"
abbreviation (input) CYCLES_PER_SCANLINE :: u32 where "CYCLES_PER_SCANLINE \<equiv> 456"
abbreviation (input) OAM_SCAN_CYCLES :: u32 where "OAM_SCAN_CYCLES \<equiv> 80"
abbreviation (input) DRAWING_CYCLES :: u32 where "DRAWING_CYCLES \<equiv> 172"
abbreviation (input) HBLANK_CYCLES :: u32 where "HBLANK_CYCLES \<equiv> 204"
abbreviation (input) SCANLINES_PER_FRAME :: nat where "SCANLINES_PER_FRAME \<equiv> 154"

abbreviation (input) LCDC_BG_ENABLE :: u8 where "LCDC_BG_ENABLE \<equiv> 0x01"
abbreviation (input) LCDC_OBJ_ENABLE :: u8 where "LCDC_OBJ_ENABLE \<equiv> 0x02"
abbreviation (input) LCDC_OBJ_SIZE :: u8 where "LCDC_OBJ_SIZE \<equiv> 0x04"
abbreviation (input) LCDC_BG_TILE_MAP :: u8 where "LCDC_BG_TILE_MAP \<equiv> 0x08"
abbreviation (input) LCDC_BG_TILE_DATA :: u8 where "LCDC_BG_TILE_DATA \<equiv> 0x10"
abbreviation (input) LCDC_WIN_ENABLE :: u8 where "LCDC_WIN_ENABLE \<equiv> 0x20"
abbreviation (input) LCDC_WIN_TILE_MAP :: u8 where "LCDC_WIN_TILE_MAP \<equiv> 0x40"
abbreviation (input) LCDC_LCD_ENABLE :: u8 where "LCDC_LCD_ENABLE \<equiv> 0x80"

abbreviation (input) STAT_LYC_EQUAL :: u8 where "STAT_LYC_EQUAL \<equiv> 0x04"
abbreviation (input) STAT_HBLANK_INT :: u8 where "STAT_HBLANK_INT \<equiv> 0x08"
abbreviation (input) STAT_VBLANK_INT :: u8 where "STAT_VBLANK_INT \<equiv> 0x10"
abbreviation (input) STAT_OAM_INT :: u8 where "STAT_OAM_INT \<equiv> 0x20"
abbreviation (input) STAT_LYC_INT :: u8 where "STAT_LYC_INT \<equiv> 0x40"

definition Sprite_priority :: "Sprite \<Rightarrow> bool" where
  "Sprite_priority sp = (spr_flags sp AND 0x80 = 0)"

definition Sprite_y_flip :: "Sprite \<Rightarrow> bool" where
  "Sprite_y_flip sp = (spr_flags sp AND 0x40 \<noteq> 0)"

definition Sprite_x_flip :: "Sprite \<Rightarrow> bool" where
  "Sprite_x_flip sp = (spr_flags sp AND 0x20 \<noteq> 0)"

definition Sprite_palette :: "Sprite \<Rightarrow> u8" where
  "Sprite_palette sp = (if spr_flags sp AND 0x10 \<noteq> 0 then 1 else 0)"

definition PPU_Reset :: "PPU \<Rightarrow> PPU" where
  "PPU_Reset p =
     p\<lparr> m_framebuffer := replicate (SCREEN_WIDTH * SCREEN_HEIGHT) 0xFFFFFFFF,
        m_mode := OAM_SCAN, m_cycle_counter := 0, m_scanline := 0,
        m_frame_ready := False, m_sprite_count := 0 \<rparr>"

text \<open>The constructor's member initialisers, then \<^verbatim>\<open>Reset()\<close>. (The handlers it registers
  live in the memory: \<open>PPU_RegisterIOHandlers\<close>.) The sprite buffer has no initialiser in
  the source; the model fills it with zero sprites, and it is never read beyond
  \<open>m_sprite_count\<close>.\<close>

definition PPU_new :: PPU where
  "PPU_new =
     PPU_Reset
       \<lparr> m_mode = OAM_SCAN, m_cycle_counter = 0, m_scanline = 0, m_frame_ready = False,
         m_framebuffer = replicate (SCREEN_WIDTH * SCREEN_HEIGHT) 0,
         m_sprite_buffer = replicate 10 \<lparr> spr_y = 0, spr_x = 0, spr_tile = 0, spr_flags = 0 \<rparr>,
         m_sprite_count = 0, m_lcdc = 0x91, m_stat = 0x00, m_scy = 0, m_scx = 0, m_lyc = 0,
         m_bgp = 0xFC, m_obp0 = 0xFF, m_obp1 = 0xFF, m_wy = 0, m_wx = 0 \<rparr>"

text \<open>\<^verbatim>\<open>m_memory.Write(0xFF0F, m_memory.Read(0xFF0F) | bits)\<close>, as the picture unit raises
  an interrupt.\<close>

definition raise_IF :: "u8 \<Rightarrow> Bus \<Rightarrow> Bus option" where
  "raise_IF bits b =
     do { v \<leftarrow> Memory_Read b 0xFF0F; Some (Memory_Write 0xFF0F (v OR bits) b) }"

definition SetMode :: "Mode \<Rightarrow> Bus \<Rightarrow> Bus option" where
  "SetMode mode b =
     (let p = ppu b;
          p = p\<lparr> m_mode := mode \<rparr>;
          p = p\<lparr> m_stat := (m_stat p AND 0xFC) OR Mode_u8 mode \<rparr>;
          b = b\<lparr> ppu := p \<rparr>;
          b = Memory_Write 0xFF41 (m_stat (ppu b)) b;
          request_stat_int =
            (case mode of
               HBLANK \<Rightarrow> m_stat (ppu b) AND STAT_HBLANK_INT \<noteq> 0
             | VBLANK \<Rightarrow> m_stat (ppu b) AND STAT_VBLANK_INT \<noteq> 0
             | OAM_SCAN \<Rightarrow> m_stat (ppu b) AND STAT_OAM_INT \<noteq> 0
             | DRAWING \<Rightarrow> False)
      in if request_stat_int then raise_IF 0x02 b else Some b)"

definition UpdateStatRegister :: "Bus \<Rightarrow> Bus option" where
  "UpdateStatRegister b =
     (let p = ppu b;
          lyc_equal = (m_scanline p = m_lyc p)
      in do {
           b \<leftarrow> (if lyc_equal then
                   (let b = b\<lparr> ppu := p\<lparr> m_stat := m_stat p OR STAT_LYC_EQUAL \<rparr> \<rparr> in
                    if m_stat (ppu b) AND STAT_LYC_INT \<noteq> 0 then raise_IF 0x02 b else Some b)
                 else Some (b\<lparr> ppu := p\<lparr> m_stat := m_stat p AND NOT STAT_LYC_EQUAL \<rparr> \<rparr>));
           Some (Memory_Write 0xFF41 (m_stat (ppu b)) b)
         })"

text \<open>\<^verbatim>\<open>ScanOAM\<close>: the loop \<^verbatim>\<open>for (i = 0; i < 40 && m_sprite_count < 10; i++)\<close> over the OAM
  array.\<close>

function ScanOAM_loop :: "u8 list \<Rightarrow> nat \<Rightarrow> nat \<Rightarrow> PPU \<Rightarrow> PPU" where
  "ScanOAM_loop oam sprite_height i p =
     (if i < 40 \<and> m_sprite_count p < 10 then
        (let sprite = \<lparr> spr_y = oam ! (i * 4 + 0), spr_x = oam ! (i * 4 + 1),
                        spr_tile = oam ! (i * 4 + 2), spr_flags = oam ! (i * 4 + 3) \<rparr>;
             sprite_y = int (unat (spr_y sprite)) - 16;
             scanline = int (unat (m_scanline p));
             p = (if scanline \<ge> sprite_y \<and> scanline < sprite_y + int sprite_height
                  then p\<lparr> m_sprite_buffer := (m_sprite_buffer p)[unat (m_sprite_count p) := sprite],
                          m_sprite_count := m_sprite_count p + 1 \<rparr>
                  else p)
         in ScanOAM_loop oam sprite_height (i + 1) p)
      else p)"
  by pat_completeness auto
termination
  by (relation "measure (\<lambda>(oam, h, i, p). 40 - i)") auto

declare ScanOAM_loop.simps [simp del]

definition ScanOAM :: "Bus \<Rightarrow> Bus" where
  "ScanOAM b =
     (let p = (ppu b)\<lparr> m_sprite_count := 0 \<rparr>;
          oam = m_oam (memory b);
          sprite_height = (if m_lcdc p AND LCDC_OBJ_SIZE \<noteq> 0 then 16 else 8)
      in b\<lparr> ppu := ScanOAM_loop oam sprite_height 0 p \<rparr>)"

text \<open>Pixel decoding. \<^verbatim>\<open>tile_data_addr\<close> and the row address are 16-bit values; \<^verbatim>\<open>x\<close> and
  \<^verbatim>\<open>y\<close> are bytes.\<close>

definition GetTilePixel :: "u8 list \<Rightarrow> u16 \<Rightarrow> u8 \<Rightarrow> u8 \<Rightarrow> u8" where
  "GetTilePixel vram tile_data_addr x y =
     (let addr = tile_data_addr + ucast y * 2;
          byte1 = vram ! unat addr;
          byte2 = vram ! (unat addr + 1);
          n = unat (7 - x)
      in push_bit 1 (drop_bit n byte2 AND 1) OR (drop_bit n byte1 AND 1))"

definition GetColor :: "u8 \<Rightarrow> u8 \<Rightarrow> u32" where
  "GetColor palette color_id =
     (let color = drop_bit (unat color_id * 2) palette AND 0x03
      in [0xFFFFFFFF, 0xFFAAAAAA, 0xFF555555, 0xFF000000] ! unat color)"

text \<open>The tile-data address of a tile index, in either addressing mode.\<close>

definition tile_address :: "bool \<Rightarrow> u16 \<Rightarrow> u8 \<Rightarrow> u16" where
  "tile_address signed_addressing tile_data_base tile_index =
     (if signed_addressing
      then tile_data_base + word_of_int ((sint tile_index + 128) * 16)
      else tile_data_base + ucast tile_index * 16)"

definition RenderBackground :: "u8 list \<Rightarrow> u8 \<Rightarrow> PPU \<Rightarrow> PPU" where
  "RenderBackground vram scanline p =
     (let tile_map_base = (if m_lcdc p AND LCDC_BG_TILE_MAP \<noteq> 0 then 0x1C00 else 0x1800 :: u16);
          signed_addressing = (m_lcdc p AND LCDC_BG_TILE_DATA = 0);
          tile_data_base = (if signed_addressing then 0x1000 else 0x0000 :: u16);
          y = scanline + m_scy p;
          tile_y = y div 8;
          pixel_y = y mod 8
      in fold (\<lambda>x p.
           (let scroll_x = (word_of_nat x :: u8) + m_scx p;
                tile_x = scroll_x div 8;
                pixel_x = scroll_x mod 8;
                tile_map_addr = tile_map_base + ucast tile_y * 32 + ucast tile_x;
                tile_index = vram ! unat tile_map_addr;
                tile_addr = tile_address signed_addressing tile_data_base tile_index;
                color_id = GetTilePixel vram tile_addr pixel_x pixel_y;
                color = GetColor (m_bgp p) color_id
            in p\<lparr> m_framebuffer := (m_framebuffer p)[unat scanline * SCREEN_WIDTH + x := color] \<rparr>))
         [0..<SCREEN_WIDTH] p)"

definition RenderWindow :: "u8 list \<Rightarrow> u8 \<Rightarrow> PPU \<Rightarrow> PPU" where
  "RenderWindow vram scanline p =
     (if scanline < m_wy p then p
      else
       (let tile_map_base = (if m_lcdc p AND LCDC_WIN_TILE_MAP \<noteq> 0 then 0x1C00 else 0x1800 :: u16);
            signed_addressing = (m_lcdc p AND LCDC_BG_TILE_DATA = 0);
            tile_data_base = (if signed_addressing then 0x1000 else 0x0000 :: u16);
            window_y = scanline - m_wy p;
            tile_y = window_y div 8;
            pixel_y = window_y mod 8
        in fold (\<lambda>x p.
             (let window_x = int x - (int (unat (m_wx p)) - 7) in
              if window_x < 0 then p
              else
               (let tile_x = (word_of_int (window_x div 8) :: u8);
                    pixel_x = (word_of_int (window_x mod 8) :: u8);
                    tile_map_addr = tile_map_base + ucast tile_y * 32 + ucast tile_x;
                    tile_index = vram ! unat tile_map_addr;
                    tile_addr = tile_address signed_addressing tile_data_base tile_index;
                    color_id = GetTilePixel vram tile_addr pixel_x pixel_y;
                    color = GetColor (m_bgp p) color_id
                in p\<lparr> m_framebuffer := (m_framebuffer p)[unat scanline * SCREEN_WIDTH + x := color] \<rparr>)))
           [0..<SCREEN_WIDTH] p))"

text \<open>One sprite of \<^verbatim>\<open>RenderSprites\<close>: its eight pixels.\<close>

definition RenderSprite :: "u8 list \<Rightarrow> u8 \<Rightarrow> u8 \<Rightarrow> Sprite \<Rightarrow> PPU \<Rightarrow> PPU" where
  "RenderSprite vram scanline sprite_height sprite p =
     (let sprite_y = int (unat (spr_y sprite)) - 16;
          sprite_x = int (unat (spr_x sprite)) - 8;
          y_offset = (word_of_int (int (unat scanline) - sprite_y) :: u8);
          y_offset = (if Sprite_y_flip sprite then sprite_height - 1 - y_offset else y_offset);
          tile_index = spr_tile sprite;
          tile_index = (if sprite_height = 16 then tile_index AND 0xFE else tile_index);
          tile_addr = (ucast tile_index * 16 :: u16);
          palette = (if Sprite_palette sprite \<noteq> 0 then m_obp1 p else m_obp0 p)
      in fold (\<lambda>x p.
           (let screen_x = sprite_x + int x in
            if screen_x < 0 \<or> screen_x \<ge> int SCREEN_WIDTH then p
            else
             (let pixel_x = (if Sprite_x_flip sprite then 7 - word_of_nat x else word_of_nat x :: u8);
                  color_id = GetTilePixel vram tile_addr pixel_x y_offset;
                  idx = unat scanline * SCREEN_WIDTH + nat screen_x
              in if color_id = 0 then p
                 else if \<not> Sprite_priority sprite \<and> m_framebuffer p ! idx \<noteq> GetColor (m_bgp p) 0
                 then p
                 else p\<lparr> m_framebuffer := (m_framebuffer p)[idx := GetColor palette color_id] \<rparr>)))
         [0..<8] p)"

text \<open>\<^verbatim>\<open>for (s8 i = m_sprite_count - 1; i >= 0; i--)\<close>: the buffered sprites, last first.\<close>

definition RenderSprites :: "u8 list \<Rightarrow> u8 \<Rightarrow> PPU \<Rightarrow> PPU" where
  "RenderSprites vram scanline p =
     (if m_sprite_count p = 0 then p
      else
       (let sprite_height = (if m_lcdc p AND LCDC_OBJ_SIZE \<noteq> 0 then 16 else 8 :: u8)
        in fold (\<lambda>i p. RenderSprite vram scanline sprite_height (m_sprite_buffer p ! i) p)
             (rev [0..<unat (m_sprite_count p)]) p))"

definition RenderScanline :: "Bus \<Rightarrow> Bus" where
  "RenderScanline b =
     (let p = ppu b; vram = m_vram (memory b) in
      if unat (m_scanline p) \<ge> SCREEN_HEIGHT then b
      else
       (let p = (if m_lcdc p AND LCDC_BG_ENABLE \<noteq> 0 then RenderBackground vram (m_scanline p) p else p);
            p = (if m_lcdc p AND LCDC_WIN_ENABLE \<noteq> 0 then RenderWindow vram (m_scanline p) p else p);
            p = (if m_lcdc p AND LCDC_OBJ_ENABLE \<noteq> 0 then RenderSprites vram (m_scanline p) p else p)
        in b\<lparr> ppu := p \<rparr>))"

text \<open>\<^verbatim>\<open>PPU::Step\<close>. One call makes at most one mode transition.\<close>

definition PPU_Step :: "u32 \<Rightarrow> Bus \<Rightarrow> Bus option" where
  "PPU_Step cycles b =
     (if m_lcdc (ppu b) AND LCDC_LCD_ENABLE = 0 then Some b
      else
       (let b = b\<lparr> ppu := (ppu b)\<lparr> m_cycle_counter := m_cycle_counter (ppu b) + cycles \<rparr> \<rparr> in
        case m_mode (ppu b) of
          OAM_SCAN \<Rightarrow>
            (if m_cycle_counter (ppu b) \<ge> OAM_SCAN_CYCLES then
               (let b = b\<lparr> ppu := (ppu b)\<lparr> m_cycle_counter := m_cycle_counter (ppu b) - OAM_SCAN_CYCLES \<rparr> \<rparr>;
                    b = ScanOAM b
                in SetMode DRAWING b)
             else Some b)
        | DRAWING \<Rightarrow>
            (if m_cycle_counter (ppu b) \<ge> DRAWING_CYCLES then
               (let b = b\<lparr> ppu := (ppu b)\<lparr> m_cycle_counter := m_cycle_counter (ppu b) - DRAWING_CYCLES \<rparr> \<rparr>;
                    b = RenderScanline b
                in SetMode HBLANK b)
             else Some b)
        | HBLANK \<Rightarrow>
            (if m_cycle_counter (ppu b) \<ge> HBLANK_CYCLES then
               (let b = b\<lparr> ppu := (ppu b)\<lparr> m_cycle_counter := m_cycle_counter (ppu b) - HBLANK_CYCLES \<rparr> \<rparr>;
                    b = b\<lparr> ppu := (ppu b)\<lparr> m_scanline := m_scanline (ppu b) + 1 \<rparr> \<rparr>;
                    b = Memory_Write 0xFF44 (m_scanline (ppu b)) b
                in do {
                     b \<leftarrow> UpdateStatRegister b;
                     if unat (m_scanline (ppu b)) \<ge> SCREEN_HEIGHT then
                       do {
                         b \<leftarrow> SetMode VBLANK b;
                         raise_IF 0x01 (b\<lparr> ppu := (ppu b)\<lparr> m_frame_ready := True \<rparr> \<rparr>)
                       }
                     else SetMode OAM_SCAN b
                   })
             else Some b)
        | VBLANK \<Rightarrow>
            (if m_cycle_counter (ppu b) \<ge> CYCLES_PER_SCANLINE then
               (let b = b\<lparr> ppu := (ppu b)\<lparr> m_cycle_counter := m_cycle_counter (ppu b) - CYCLES_PER_SCANLINE \<rparr> \<rparr>;
                    b = b\<lparr> ppu := (ppu b)\<lparr> m_scanline := m_scanline (ppu b) + 1 \<rparr> \<rparr>;
                    b = Memory_Write 0xFF44 (m_scanline (ppu b)) b
                in do {
                     b \<leftarrow> UpdateStatRegister b;
                     if unat (m_scanline (ppu b)) \<ge> SCANLINES_PER_FRAME then
                       (let b = b\<lparr> ppu := (ppu b)\<lparr> m_scanline := 0 \<rparr> \<rparr>;
                            b = Memory_Write 0xFF44 (m_scanline (ppu b)) b
                        in SetMode OAM_SCAN b)
                     else Some b
                   })
             else Some b)))"

section \<open>Processor (core/cpu/cpu.hpp, cpu.cpp, instructions.cpp)\<close>

abbreviation (input) FLAG_C :: u8 where "FLAG_C \<equiv> 0x10"
abbreviation (input) FLAG_H :: u8 where "FLAG_H \<equiv> 0x20"
abbreviation (input) FLAG_N :: u8 where "FLAG_N \<equiv> 0x40"
abbreviation (input) FLAG_Z :: u8 where "FLAG_Z \<equiv> 0x80"

text \<open>The register file. The source overlays each 16-bit pair on two bytes (low byte
  first); the model stores the bytes and computes the pairs.\<close>

record Registers =
  reg_f :: u8
  reg_a :: u8
  reg_c :: u8
  reg_b :: u8
  reg_e :: u8
  reg_d :: u8
  reg_l :: u8
  reg_h :: u8
  reg_sp :: u16
  reg_pc :: u16

record CPU =
  m_regs :: Registers
  m_ime :: bool
  m_halted :: bool
  m_stopped :: bool
  m_cycles :: u32

text \<open>References to registers (\<^verbatim>\<open>u8&\<close>, \<^verbatim>\<open>u16&\<close> parameters) are names of registers.\<close>

datatype Reg8 = R_A | R_F | R_B | R_C | R_D | R_E | R_H | R_L
datatype Reg16 = R_AF | R_BC | R_DE | R_HL | R_SP

definition pair16 :: "u8 \<Rightarrow> u8 \<Rightarrow> u16" where
  "pair16 hi lo = push_bit 8 (ucast hi) OR ucast lo"

definition hi8 :: "u16 \<Rightarrow> u8" where
  "hi8 v = ucast (drop_bit 8 v)"

definition lo8 :: "u16 \<Rightarrow> u8" where
  "lo8 v = ucast v"

fun get_r8 :: "Reg8 \<Rightarrow> CPU \<Rightarrow> u8" where
  "get_r8 R_A c = reg_a (m_regs c)"
| "get_r8 R_F c = reg_f (m_regs c)"
| "get_r8 R_B c = reg_b (m_regs c)"
| "get_r8 R_C c = reg_c (m_regs c)"
| "get_r8 R_D c = reg_d (m_regs c)"
| "get_r8 R_E c = reg_e (m_regs c)"
| "get_r8 R_H c = reg_h (m_regs c)"
| "get_r8 R_L c = reg_l (m_regs c)"

fun set_r8 :: "Reg8 \<Rightarrow> u8 \<Rightarrow> CPU \<Rightarrow> CPU" where
  "set_r8 R_A v c = c\<lparr> m_regs := (m_regs c)\<lparr> reg_a := v \<rparr> \<rparr>"
| "set_r8 R_F v c = c\<lparr> m_regs := (m_regs c)\<lparr> reg_f := v \<rparr> \<rparr>"
| "set_r8 R_B v c = c\<lparr> m_regs := (m_regs c)\<lparr> reg_b := v \<rparr> \<rparr>"
| "set_r8 R_C v c = c\<lparr> m_regs := (m_regs c)\<lparr> reg_c := v \<rparr> \<rparr>"
| "set_r8 R_D v c = c\<lparr> m_regs := (m_regs c)\<lparr> reg_d := v \<rparr> \<rparr>"
| "set_r8 R_E v c = c\<lparr> m_regs := (m_regs c)\<lparr> reg_e := v \<rparr> \<rparr>"
| "set_r8 R_H v c = c\<lparr> m_regs := (m_regs c)\<lparr> reg_h := v \<rparr> \<rparr>"
| "set_r8 R_L v c = c\<lparr> m_regs := (m_regs c)\<lparr> reg_l := v \<rparr> \<rparr>"

fun get_r16 :: "Reg16 \<Rightarrow> CPU \<Rightarrow> u16" where
  "get_r16 R_AF c = pair16 (reg_a (m_regs c)) (reg_f (m_regs c))"
| "get_r16 R_BC c = pair16 (reg_b (m_regs c)) (reg_c (m_regs c))"
| "get_r16 R_DE c = pair16 (reg_d (m_regs c)) (reg_e (m_regs c))"
| "get_r16 R_HL c = pair16 (reg_h (m_regs c)) (reg_l (m_regs c))"
| "get_r16 R_SP c = reg_sp (m_regs c)"

fun set_r16 :: "Reg16 \<Rightarrow> u16 \<Rightarrow> CPU \<Rightarrow> CPU" where
  "set_r16 R_AF v c = c\<lparr> m_regs := (m_regs c)\<lparr> reg_a := hi8 v, reg_f := lo8 v \<rparr> \<rparr>"
| "set_r16 R_BC v c = c\<lparr> m_regs := (m_regs c)\<lparr> reg_b := hi8 v, reg_c := lo8 v \<rparr> \<rparr>"
| "set_r16 R_DE v c = c\<lparr> m_regs := (m_regs c)\<lparr> reg_d := hi8 v, reg_e := lo8 v \<rparr> \<rparr>"
| "set_r16 R_HL v c = c\<lparr> m_regs := (m_regs c)\<lparr> reg_h := hi8 v, reg_l := lo8 v \<rparr> \<rparr>"
| "set_r16 R_SP v c = c\<lparr> m_regs := (m_regs c)\<lparr> reg_sp := v \<rparr> \<rparr>"

definition get_pc :: "CPU \<Rightarrow> u16" where
  "get_pc c = reg_pc (m_regs c)"

definition set_pc :: "u16 \<Rightarrow> CPU \<Rightarrow> CPU" where
  "set_pc v c = c\<lparr> m_regs := (m_regs c)\<lparr> reg_pc := v \<rparr> \<rparr>"

definition add_cycles :: "u32 \<Rightarrow> CPU \<Rightarrow> CPU" where
  "add_cycles n c = c\<lparr> m_cycles := m_cycles c + n \<rparr>"

definition CPU_Reset :: "CPU \<Rightarrow> CPU" where
  "CPU_Reset c =
     (let c = set_r16 R_AF 0x01B0 c;
          c = set_r16 R_BC 0x0013 c;
          c = set_r16 R_DE 0x00D8 c;
          c = set_r16 R_HL 0x014D c;
          c = set_r16 R_SP 0xFFFE c;
          c = set_pc 0x0100 c
      in c\<lparr> m_ime := False, m_halted := False, m_stopped := False, m_cycles := 0 \<rparr>)"

definition CPU_new :: CPU where
  "CPU_new =
     CPU_Reset
       \<lparr> m_regs = \<lparr> reg_f = 0, reg_a = 0, reg_c = 0, reg_b = 0, reg_e = 0, reg_d = 0,
                    reg_l = 0, reg_h = 0, reg_sp = 0, reg_pc = 0 \<rparr>,
         m_ime = False, m_halted = False, m_stopped = False, m_cycles = 0 \<rparr>"

subsection \<open>Flag and memory helpers\<close>

definition GetFlag :: "u8 \<Rightarrow> CPU \<Rightarrow> bool" where
  "GetFlag flag c = (reg_f (m_regs c) AND flag \<noteq> 0)"

definition SetFlag :: "u8 \<Rightarrow> bool \<Rightarrow> CPU \<Rightarrow> CPU" where
  "SetFlag flag v c =
     (if v then set_r8 R_F (reg_f (m_regs c) OR flag) c
      else set_r8 R_F (reg_f (m_regs c) AND NOT flag) c)"

definition SetFlags :: "bool \<Rightarrow> bool \<Rightarrow> bool \<Rightarrow> bool \<Rightarrow> CPU \<Rightarrow> CPU" where
  "SetFlags z n h cy c =
     set_r8 R_F ((if z then FLAG_Z else 0) OR (if n then FLAG_N else 0) OR
                 (if h then FLAG_H else 0) OR (if cy then FLAG_C else 0)) c"

text \<open>An operation on the processor and the bus; \<open>None\<close> is the fault of a ROM read
  outside the ROM vector.\<close>

type_synonym cpu_op = "CPU \<times> Bus \<Rightarrow> (CPU \<times> Bus) option"

definition pure_op :: "(CPU \<Rightarrow> CPU) \<Rightarrow> cpu_op" where
  "pure_op f s = (case s of (c, b) \<Rightarrow> Some (f c, b))"

definition ReadByte :: "u16 \<Rightarrow> CPU \<times> Bus \<Rightarrow> (u8 \<times> CPU \<times> Bus) option" where
  "ReadByte address s =
     (case s of (c, b) \<Rightarrow>
        do { v \<leftarrow> Memory_Read b address; Some (v, add_cycles 4 c, b) })"

definition WriteByte :: "u16 \<Rightarrow> u8 \<Rightarrow> CPU \<times> Bus \<Rightarrow> CPU \<times> Bus" where
  "WriteByte address v s = (case s of (c, b) \<Rightarrow> (add_cycles 4 c, Memory_Write address v b))"

definition ReadWord :: "u16 \<Rightarrow> CPU \<times> Bus \<Rightarrow> (u16 \<times> CPU \<times> Bus) option" where
  "ReadWord address s =
     (case s of (c, b) \<Rightarrow>
        do { v \<leftarrow> Memory_Read16 b address; Some (v, add_cycles 8 c, b) })"

definition WriteWord :: "u16 \<Rightarrow> u16 \<Rightarrow> CPU \<times> Bus \<Rightarrow> CPU \<times> Bus" where
  "WriteWord address v s = (case s of (c, b) \<Rightarrow> (add_cycles 8 c, Memory_Write16 address v b))"

definition FetchByte :: "CPU \<times> Bus \<Rightarrow> (u8 \<times> CPU \<times> Bus) option" where
  "FetchByte s =
     (case s of (c, b) \<Rightarrow> ReadByte (get_pc c) (set_pc (get_pc c + 1) c, b))"

definition FetchWord :: "CPU \<times> Bus \<Rightarrow> (u16 \<times> CPU \<times> Bus) option" where
  "FetchWord s =
     (case s of (c, b) \<Rightarrow>
        do { (v, c, b) \<leftarrow> ReadWord (get_pc c) (c, b);
             Some (v, set_pc (get_pc c + 2) c, b) })"

definition Push :: "u16 \<Rightarrow> CPU \<times> Bus \<Rightarrow> CPU \<times> Bus" where
  "Push v s =
     (case s of (c, b) \<Rightarrow>
        (let c = set_r16 R_SP (get_r16 R_SP c - 2) c in WriteWord (get_r16 R_SP c) v (c, b)))"

definition Pop :: "CPU \<times> Bus \<Rightarrow> (u16 \<times> CPU \<times> Bus) option" where
  "Pop s =
     (case s of (c, b) \<Rightarrow>
        do { (v, c, b) \<leftarrow> ReadWord (get_r16 R_SP c) (c, b);
             Some (v, set_r16 R_SP (get_r16 R_SP c + 2) c, b) })"

subsection \<open>8-bit loads\<close>

definition OP_LD_r_r :: "Reg8 \<Rightarrow> u8 \<Rightarrow> cpu_op" where
  "OP_LD_r_r dest src = pure_op (\<lambda>c. add_cycles 4 (set_r8 dest src c))"

definition OP_LD_r_n :: "Reg8 \<Rightarrow> cpu_op" where
  "OP_LD_r_n r s = do { (v, c, b) \<leftarrow> FetchByte s; Some (add_cycles 4 (set_r8 r v c), b) }"

definition OP_LD_r_HL :: "Reg8 \<Rightarrow> cpu_op" where
  "OP_LD_r_HL r s =
     (case s of (c, b) \<Rightarrow>
        do { (v, c, b) \<leftarrow> ReadByte (get_r16 R_HL c) (c, b); Some (set_r8 r v c, b) })"

definition OP_LD_HL_r :: "u8 \<Rightarrow> cpu_op" where
  "OP_LD_HL_r v s = (case s of (c, b) \<Rightarrow> Some (WriteByte (get_r16 R_HL c) v (c, b)))"

definition OP_LD_HL_n :: cpu_op where
  "OP_LD_HL_n s =
     do { (v, c, b) \<leftarrow> FetchByte s;
          (c, b) \<leftarrow> Some (WriteByte (get_r16 R_HL c) v (c, b));
          Some (add_cycles 4 c, b) }"

definition OP_LD_A_BC :: cpu_op where
  "OP_LD_A_BC s =
     (case s of (c, b) \<Rightarrow>
        do { (v, c, b) \<leftarrow> ReadByte (get_r16 R_BC c) (c, b); Some (set_r8 R_A v c, b) })"

definition OP_LD_A_DE :: cpu_op where
  "OP_LD_A_DE s =
     (case s of (c, b) \<Rightarrow>
        do { (v, c, b) \<leftarrow> ReadByte (get_r16 R_DE c) (c, b); Some (set_r8 R_A v c, b) })"

definition OP_LD_A_nn :: cpu_op where
  "OP_LD_A_nn s =
     do { (address, c, b) \<leftarrow> FetchWord s;
          (v, c, b) \<leftarrow> ReadByte address (c, b);
          Some (set_r8 R_A v c, b) }"

definition OP_LD_BC_A :: cpu_op where
  "OP_LD_BC_A s = (case s of (c, b) \<Rightarrow> Some (WriteByte (get_r16 R_BC c) (get_r8 R_A c) (c, b)))"

definition OP_LD_DE_A :: cpu_op where
  "OP_LD_DE_A s = (case s of (c, b) \<Rightarrow> Some (WriteByte (get_r16 R_DE c) (get_r8 R_A c) (c, b)))"

definition OP_LD_nn_A :: cpu_op where
  "OP_LD_nn_A s =
     do { (address, c, b) \<leftarrow> FetchWord s; Some (WriteByte address (get_r8 R_A c) (c, b)) }"

definition OP_LDH_A_n :: cpu_op where
  "OP_LDH_A_n s =
     do { (offset, c, b) \<leftarrow> FetchByte s;
          (v, c, b) \<leftarrow> ReadByte (0xFF00 + ucast offset) (c, b);
          Some (set_r8 R_A v c, b) }"

definition OP_LDH_n_A :: cpu_op where
  "OP_LDH_n_A s =
     do { (offset, c, b) \<leftarrow> FetchByte s;
          Some (WriteByte (0xFF00 + ucast offset) (get_r8 R_A c) (c, b)) }"

definition OP_LD_A_C :: cpu_op where
  "OP_LD_A_C s =
     (case s of (c, b) \<Rightarrow>
        do { (v, c, b) \<leftarrow> ReadByte (0xFF00 + ucast (get_r8 R_C c)) (c, b);
             Some (set_r8 R_A v c, b) })"

definition OP_LD_C_A :: cpu_op where
  "OP_LD_C_A s =
     (case s of (c, b) \<Rightarrow>
        Some (WriteByte (0xFF00 + ucast (get_r8 R_C c)) (get_r8 R_A c) (c, b)))"

definition OP_LDI_HL_A :: cpu_op where
  "OP_LDI_HL_A s =
     (case s of (c, b) \<Rightarrow>
        (case WriteByte (get_r16 R_HL c) (get_r8 R_A c) (c, b) of
           (c, b) \<Rightarrow> Some (set_r16 R_HL (get_r16 R_HL c + 1) c, b)))"

definition OP_LDI_A_HL :: cpu_op where
  "OP_LDI_A_HL s =
     (case s of (c, b) \<Rightarrow>
        do { (v, c, b) \<leftarrow> ReadByte (get_r16 R_HL c) (c, b);
             c \<leftarrow> Some (set_r8 R_A v c);
             Some (set_r16 R_HL (get_r16 R_HL c + 1) c, b) })"

definition OP_LDD_HL_A :: cpu_op where
  "OP_LDD_HL_A s =
     (case s of (c, b) \<Rightarrow>
        (case WriteByte (get_r16 R_HL c) (get_r8 R_A c) (c, b) of
           (c, b) \<Rightarrow> Some (set_r16 R_HL (get_r16 R_HL c - 1) c, b)))"

definition OP_LDD_A_HL :: cpu_op where
  "OP_LDD_A_HL s =
     (case s of (c, b) \<Rightarrow>
        do { (v, c, b) \<leftarrow> ReadByte (get_r16 R_HL c) (c, b);
             c \<leftarrow> Some (set_r8 R_A v c);
             Some (set_r16 R_HL (get_r16 R_HL c - 1) c, b) })"

subsection \<open>16-bit loads\<close>

definition OP_LD_rr_nn :: "Reg16 \<Rightarrow> cpu_op" where
  "OP_LD_rr_nn r s = do { (v, c, b) \<leftarrow> FetchWord s; Some (add_cycles 4 (set_r16 r v c), b) }"

definition OP_LD_SP_HL :: cpu_op where
  "OP_LD_SP_HL = pure_op (\<lambda>c. add_cycles 8 (set_r16 R_SP (get_r16 R_HL c) c))"

definition OP_PUSH :: "u16 \<Rightarrow> cpu_op" where
  "OP_PUSH v s = (case Push v s of (c, b) \<Rightarrow> Some (add_cycles 4 c, b))"

definition OP_POP :: "Reg16 \<Rightarrow> cpu_op" where
  "OP_POP r s =
     do { (v, c, b) \<leftarrow> Pop s;
          c \<leftarrow> Some (set_r16 r v c);
          Some (if r = R_AF then set_r8 R_F (get_r8 R_F c AND 0xF0) c else c, b) }"

definition OP_LD_nn_SP :: cpu_op where
  "OP_LD_nn_SP s =
     do { (address, c, b) \<leftarrow> FetchWord s;
          (c, b) \<leftarrow> Some (WriteWord address (get_r16 R_SP c) (c, b));
          Some (add_cycles 4 c, b) }"

text \<open>The flags of \<^verbatim>\<open>LD HL,SP+e\<close> and \<^verbatim>\<open>ADD SP,e\<close>; the offset is the fetched byte read
  as signed.\<close>

definition sp_offset_flags :: "u16 \<Rightarrow> u8 \<Rightarrow> CPU \<Rightarrow> CPU" where
  "sp_offset_flags spv offset c =
     (let c = SetFlag FLAG_Z False c;
          c = SetFlag FLAG_N False c;
          c = SetFlag FLAG_H (unat (spv AND 0x0F) + unat (offset AND 0x0F) > 0x0F) c
      in SetFlag FLAG_C (unat (spv AND 0xFF) + unat offset > 0xFF) c)"

definition OP_LD_HL_SP_e :: cpu_op where
  "OP_LD_HL_SP_e s =
     do { (offset, c, b) \<leftarrow> FetchByte s;
          c \<leftarrow> Some (sp_offset_flags (get_r16 R_SP c) offset c);
          Some (add_cycles 4 (set_r16 R_HL (get_r16 R_SP c + scast offset) c), b) }"

subsection \<open>8-bit arithmetic\<close>

definition OP_ADD_A_r :: "u8 \<Rightarrow> cpu_op" where
  "OP_ADD_A_r v = pure_op (\<lambda>c.
     (let a = get_r8 R_A c;
          result = (ucast a + ucast v :: u16);
          c = SetFlag FLAG_Z (result AND 0xFF = 0) c;
          c = SetFlag FLAG_N False c;
          c = SetFlag FLAG_H (unat (a AND 0x0F) + unat (v AND 0x0F) > 0x0F) c;
          c = SetFlag FLAG_C (result > 0xFF) c
      in add_cycles 4 (set_r8 R_A (ucast result) c)))"

definition OP_ADC_A_r :: "u8 \<Rightarrow> cpu_op" where
  "OP_ADC_A_r v = pure_op (\<lambda>c.
     (let a = get_r8 R_A c;
          carry = (if GetFlag FLAG_C c then 1 else 0 :: u8);
          result = (ucast a + ucast v + ucast carry :: u16);
          c = SetFlag FLAG_Z (result AND 0xFF = 0) c;
          c = SetFlag FLAG_N False c;
          c = SetFlag FLAG_H (unat (a AND 0x0F) + unat (v AND 0x0F) + unat carry > 0x0F) c;
          c = SetFlag FLAG_C (result > 0xFF) c
      in add_cycles 4 (set_r8 R_A (ucast result) c)))"

definition OP_SUB_r :: "u8 \<Rightarrow> cpu_op" where
  "OP_SUB_r v = pure_op (\<lambda>c.
     (let a = get_r8 R_A c;
          result = (ucast a - ucast v :: u16);
          c = SetFlag FLAG_Z (result AND 0xFF = 0) c;
          c = SetFlag FLAG_N True c;
          c = SetFlag FLAG_H (a AND 0x0F < v AND 0x0F) c;
          c = SetFlag FLAG_C (a < v) c
      in add_cycles 4 (set_r8 R_A (ucast result) c)))"

definition OP_SBC_A_r :: "u8 \<Rightarrow> cpu_op" where
  "OP_SBC_A_r v = pure_op (\<lambda>c.
     (let a = get_r8 R_A c;
          carry = (if GetFlag FLAG_C c then 1 else 0 :: u8);
          result = (ucast a - ucast v - ucast carry :: u16);
          c = SetFlag FLAG_Z (result AND 0xFF = 0) c;
          c = SetFlag FLAG_N True c;
          c = SetFlag FLAG_H (unat (a AND 0x0F) < unat (v AND 0x0F) + unat carry) c;
          c = SetFlag FLAG_C (unat a < unat v + unat carry) c
      in add_cycles 4 (set_r8 R_A (ucast result) c)))"

definition OP_AND_r :: "u8 \<Rightarrow> cpu_op" where
  "OP_AND_r v = pure_op (\<lambda>c.
     (let c = set_r8 R_A (get_r8 R_A c AND v) c;
          c = SetFlags (get_r8 R_A c = 0) False True False c
      in add_cycles 4 c))"

definition OP_XOR_r :: "u8 \<Rightarrow> cpu_op" where
  "OP_XOR_r v = pure_op (\<lambda>c.
     (let c = set_r8 R_A (get_r8 R_A c XOR v) c;
          c = SetFlags (get_r8 R_A c = 0) False False False c
      in add_cycles 4 c))"

definition OP_OR_r :: "u8 \<Rightarrow> cpu_op" where
  "OP_OR_r v = pure_op (\<lambda>c.
     (let c = set_r8 R_A (get_r8 R_A c OR v) c;
          c = SetFlags (get_r8 R_A c = 0) False False False c
      in add_cycles 4 c))"

definition OP_CP_r :: "u8 \<Rightarrow> cpu_op" where
  "OP_CP_r v = pure_op (\<lambda>c.
     (let a = get_r8 R_A c;
          result = (ucast a - ucast v :: u16);
          c = SetFlag FLAG_Z (result AND 0xFF = 0) c;
          c = SetFlag FLAG_N True c;
          c = SetFlag FLAG_H (a AND 0x0F < v AND 0x0F) c;
          c = SetFlag FLAG_C (a < v) c
      in add_cycles 4 c))"

definition OP_INC_r :: "Reg8 \<Rightarrow> cpu_op" where
  "OP_INC_r r = pure_op (\<lambda>c.
     (let c = set_r8 r (get_r8 r c + 1) c;
          c = SetFlag FLAG_Z (get_r8 r c = 0) c;
          c = SetFlag FLAG_N False c;
          c = SetFlag FLAG_H (get_r8 r c AND 0x0F = 0) c
      in add_cycles 4 c))"

definition OP_DEC_r :: "Reg8 \<Rightarrow> cpu_op" where
  "OP_DEC_r r = pure_op (\<lambda>c.
     (let c = set_r8 r (get_r8 r c - 1) c;
          c = SetFlag FLAG_Z (get_r8 r c = 0) c;
          c = SetFlag FLAG_N True c;
          c = SetFlag FLAG_H (get_r8 r c AND 0x0F = 0x0F) c
      in add_cycles 4 c))"

definition OP_INC_HL :: cpu_op where
  "OP_INC_HL s =
     (case s of (c, b) \<Rightarrow>
        do { (v, c, b) \<leftarrow> ReadByte (get_r16 R_HL c) (c, b);
             v \<leftarrow> Some (v + 1);
             (c, b) \<leftarrow> Some (WriteByte (get_r16 R_HL c) v (c, b));
             c \<leftarrow> Some (SetFlag FLAG_Z (v = 0) c);
             c \<leftarrow> Some (SetFlag FLAG_N False c);
             Some (SetFlag FLAG_H (v AND 0x0F = 0) c, b) })"

definition OP_DEC_HL :: cpu_op where
  "OP_DEC_HL s =
     (case s of (c, b) \<Rightarrow>
        do { (v, c, b) \<leftarrow> ReadByte (get_r16 R_HL c) (c, b);
             v \<leftarrow> Some (v - 1);
             (c, b) \<leftarrow> Some (WriteByte (get_r16 R_HL c) v (c, b));
             c \<leftarrow> Some (SetFlag FLAG_Z (v = 0) c);
             c \<leftarrow> Some (SetFlag FLAG_N True c);
             Some (SetFlag FLAG_H (v AND 0x0F = 0x0F) c, b) })"

subsection \<open>16-bit arithmetic\<close>

definition OP_ADD_HL_rr :: "u16 \<Rightarrow> cpu_op" where
  "OP_ADD_HL_rr v = pure_op (\<lambda>c.
     (let hl = get_r16 R_HL c;
          result = (ucast hl + ucast v :: u32);
          c = SetFlag FLAG_N False c;
          c = SetFlag FLAG_H (unat (hl AND 0x0FFF) + unat (v AND 0x0FFF) > 0x0FFF) c;
          c = SetFlag FLAG_C (result > 0xFFFF) c
      in add_cycles 8 (set_r16 R_HL (ucast result) c)))"

definition OP_INC_rr :: "Reg16 \<Rightarrow> cpu_op" where
  "OP_INC_rr r = pure_op (\<lambda>c. add_cycles 8 (set_r16 r (get_r16 r c + 1) c))"

definition OP_DEC_rr :: "Reg16 \<Rightarrow> cpu_op" where
  "OP_DEC_rr r = pure_op (\<lambda>c. add_cycles 8 (set_r16 r (get_r16 r c - 1) c))"

definition OP_ADD_SP_e :: cpu_op where
  "OP_ADD_SP_e s =
     do { (offset, c, b) \<leftarrow> FetchByte s;
          c \<leftarrow> Some (sp_offset_flags (get_r16 R_SP c) offset c);
          Some (add_cycles 12 (set_r16 R_SP (get_r16 R_SP c + scast offset) c), b) }"

subsection \<open>Jumps, calls and returns\<close>

definition OP_JP_nn :: cpu_op where
  "OP_JP_nn s = do { (address, c, b) \<leftarrow> FetchWord s; Some (add_cycles 4 (set_pc address c), b) }"

definition OP_JP_HL :: cpu_op where
  "OP_JP_HL = pure_op (\<lambda>c. add_cycles 4 (set_pc (get_r16 R_HL c) c))"

definition OP_JP_cc_nn :: "bool \<Rightarrow> cpu_op" where
  "OP_JP_cc_nn condition s =
     do { (address, c, b) \<leftarrow> FetchWord s;
          c \<leftarrow> Some (if condition then add_cycles 4 (set_pc address c) else c);
          Some (add_cycles 4 c, b) }"

definition OP_JR_e :: cpu_op where
  "OP_JR_e s =
     do { (offset, c, b) \<leftarrow> FetchByte s;
          Some (add_cycles 4 (set_pc (get_pc c + scast offset) c), b) }"

definition OP_JR_cc_e :: "bool \<Rightarrow> cpu_op" where
  "OP_JR_cc_e condition s =
     do { (offset, c, b) \<leftarrow> FetchByte s;
          c \<leftarrow> Some (if condition then add_cycles 4 (set_pc (get_pc c + scast offset) c) else c);
          Some (add_cycles 4 c, b) }"

definition OP_CALL_nn :: cpu_op where
  "OP_CALL_nn s =
     do { (address, c, b) \<leftarrow> FetchWord s;
          (c, b) \<leftarrow> Some (Push (get_pc c) (c, b));
          Some (add_cycles 4 (set_pc address c), b) }"

definition OP_CALL_cc_nn :: "bool \<Rightarrow> cpu_op" where
  "OP_CALL_cc_nn condition s =
     do { (address, c, b) \<leftarrow> FetchWord s;
          (c, b) \<leftarrow> Some (if condition
                          then (case Push (get_pc c) (c, b) of
                                  (c, b) \<Rightarrow> (add_cycles 4 (set_pc address c), b))
                          else (c, b));
          Some (add_cycles 4 c, b) }"

definition OP_RET :: cpu_op where
  "OP_RET s = do { (v, c, b) \<leftarrow> Pop s; Some (add_cycles 4 (set_pc v c), b) }"

definition OP_RET_cc :: "bool \<Rightarrow> cpu_op" where
  "OP_RET_cc condition s =
     do { (c, b) \<leftarrow> (if condition
                     then do { (v, c, b) \<leftarrow> Pop s; Some (add_cycles 12 (set_pc v c), b) }
                     else Some s);
          Some (add_cycles 8 c, b) }"

definition OP_RETI :: cpu_op where
  "OP_RETI s = do { (v, c, b) \<leftarrow> Pop s; Some (add_cycles 4 ((set_pc v c)\<lparr> m_ime := True \<rparr>), b) }"

definition OP_RST :: "u8 \<Rightarrow> cpu_op" where
  "OP_RST vector s =
     (case s of (c, b) \<Rightarrow>
        (case Push (get_pc c) (c, b) of
           (c, b) \<Rightarrow> Some (add_cycles 16 (set_pc (ucast vector) c), b)))"

subsection \<open>Rotates and shifts\<close>

definition OP_RLCA :: cpu_op where
  "OP_RLCA = pure_op (\<lambda>c.
     (let a = get_r8 R_A c;
          carry = (a AND 0x80 \<noteq> 0);
          c = set_r8 R_A (push_bit 1 a OR (if carry then 1 else 0)) c
      in add_cycles 4 (SetFlags False False False carry c)))"

definition OP_RLA :: cpu_op where
  "OP_RLA = pure_op (\<lambda>c.
     (let a = get_r8 R_A c;
          carry = (a AND 0x80 \<noteq> 0);
          c = set_r8 R_A (push_bit 1 a OR (if GetFlag FLAG_C c then 1 else 0)) c
      in add_cycles 4 (SetFlags False False False carry c)))"

definition OP_RRCA :: cpu_op where
  "OP_RRCA = pure_op (\<lambda>c.
     (let a = get_r8 R_A c;
          carry = (a AND 0x01 \<noteq> 0);
          c = set_r8 R_A (drop_bit 1 a OR (if carry then 0x80 else 0)) c
      in add_cycles 4 (SetFlags False False False carry c)))"

definition OP_RRA :: cpu_op where
  "OP_RRA = pure_op (\<lambda>c.
     (let a = get_r8 R_A c;
          carry = (a AND 0x01 \<noteq> 0);
          c = set_r8 R_A (drop_bit 1 a OR (if GetFlag FLAG_C c then 0x80 else 0)) c
      in add_cycles 4 (SetFlags False False False carry c)))"

text \<open>The CB-prefixed operations take a reference to a byte that is a register or, for
  \<^verbatim>\<open>(HL)\<close>, a local copy of the byte read; the model takes the byte and returns the new
  byte with the processor.\<close>

definition OP_RLC :: "u8 \<Rightarrow> CPU \<Rightarrow> u8 \<times> CPU" where
  "OP_RLC reg c =
     (let carry = (reg AND 0x80 \<noteq> 0);
          reg = push_bit 1 reg OR (if carry then 1 else 0)
      in (reg, add_cycles 8 (SetFlags (reg = 0) False False carry c)))"

definition OP_RL :: "u8 \<Rightarrow> CPU \<Rightarrow> u8 \<times> CPU" where
  "OP_RL reg c =
     (let carry = (reg AND 0x80 \<noteq> 0);
          reg = push_bit 1 reg OR (if GetFlag FLAG_C c then 1 else 0)
      in (reg, add_cycles 8 (SetFlags (reg = 0) False False carry c)))"

definition OP_RRC :: "u8 \<Rightarrow> CPU \<Rightarrow> u8 \<times> CPU" where
  "OP_RRC reg c =
     (let carry = (reg AND 0x01 \<noteq> 0);
          reg = drop_bit 1 reg OR (if carry then 0x80 else 0)
      in (reg, add_cycles 8 (SetFlags (reg = 0) False False carry c)))"

definition OP_RR :: "u8 \<Rightarrow> CPU \<Rightarrow> u8 \<times> CPU" where
  "OP_RR reg c =
     (let carry = (reg AND 0x01 \<noteq> 0);
          reg = drop_bit 1 reg OR (if GetFlag FLAG_C c then 0x80 else 0)
      in (reg, add_cycles 8 (SetFlags (reg = 0) False False carry c)))"

definition OP_SLA :: "u8 \<Rightarrow> CPU \<Rightarrow> u8 \<times> CPU" where
  "OP_SLA reg c =
     (let carry = (reg AND 0x80 \<noteq> 0);
          reg = push_bit 1 reg
      in (reg, add_cycles 8 (SetFlags (reg = 0) False False carry c)))"

definition OP_SRA :: "u8 \<Rightarrow> CPU \<Rightarrow> u8 \<times> CPU" where
  "OP_SRA reg c =
     (let carry = (reg AND 0x01 \<noteq> 0);
          msb = reg AND 0x80;
          reg = drop_bit 1 reg OR msb
      in (reg, add_cycles 8 (SetFlags (reg = 0) False False carry c)))"

definition OP_SRL :: "u8 \<Rightarrow> CPU \<Rightarrow> u8 \<times> CPU" where
  "OP_SRL reg c =
     (let carry = (reg AND 0x01 \<noteq> 0);
          reg = drop_bit 1 reg
      in (reg, add_cycles 8 (SetFlags (reg = 0) False False carry c)))"

definition OP_SWAP :: "u8 \<Rightarrow> CPU \<Rightarrow> u8 \<times> CPU" where
  "OP_SWAP reg c =
     (let reg = push_bit 4 (reg AND 0x0F) OR drop_bit 4 (reg AND 0xF0)
      in (reg, add_cycles 8 (SetFlags (reg = 0) False False False c)))"

subsection \<open>Bit operations\<close>

definition OP_BIT :: "nat \<Rightarrow> u8 \<Rightarrow> CPU \<Rightarrow> CPU" where
  "OP_BIT n v c =
     (let is_set = (v AND push_bit n 1 \<noteq> 0);
          c = SetFlag FLAG_Z (\<not> is_set) c;
          c = SetFlag FLAG_N False c;
          c = SetFlag FLAG_H True c
      in add_cycles 8 c)"

definition OP_SET :: "nat \<Rightarrow> u8 \<Rightarrow> CPU \<Rightarrow> u8 \<times> CPU" where
  "OP_SET n reg c = (reg OR push_bit n 1, add_cycles 8 c)"

definition OP_RES :: "nat \<Rightarrow> u8 \<Rightarrow> CPU \<Rightarrow> u8 \<times> CPU" where
  "OP_RES n reg c = (reg AND NOT (push_bit n 1), add_cycles 8 c)"

subsection \<open>Miscellaneous\<close>

definition OP_DAA :: cpu_op where
  "OP_DAA = pure_op (\<lambda>c.
     (let a = get_r8 R_A c;
          (a, c) =
            (if \<not> GetFlag FLAG_N c then
               (let (a, c) = (if GetFlag FLAG_C c \<or> a > 0x99
                              then (a + 0x60, SetFlag FLAG_C True c) else (a, c));
                    a = (if GetFlag FLAG_H c \<or> (a AND 0x0F) > 0x09 then a + 0x06 else a)
                in (a, c))
             else
               (let a = (if GetFlag FLAG_C c then a - 0x60 else a);
                    a = (if GetFlag FLAG_H c then a - 0x06 else a)
                in (a, c)));
          c = set_r8 R_A a c;
          c = SetFlag FLAG_Z (get_r8 R_A c = 0) c;
          c = SetFlag FLAG_H False c
      in add_cycles 4 c))"

definition OP_CPL :: cpu_op where
  "OP_CPL = pure_op (\<lambda>c.
     (let c = set_r8 R_A (NOT (get_r8 R_A c)) c;
          c = SetFlag FLAG_N True c;
          c = SetFlag FLAG_H True c
      in add_cycles 4 c))"

definition OP_CCF :: cpu_op where
  "OP_CCF = pure_op (\<lambda>c.
     (let c = SetFlag FLAG_N False c;
          c = SetFlag FLAG_H False c;
          c = SetFlag FLAG_C (\<not> GetFlag FLAG_C c) c
      in add_cycles 4 c))"

definition OP_SCF :: cpu_op where
  "OP_SCF = pure_op (\<lambda>c.
     (let c = SetFlag FLAG_N False c;
          c = SetFlag FLAG_H False c;
          c = SetFlag FLAG_C True c
      in add_cycles 4 c))"

definition OP_NOP :: cpu_op where
  "OP_NOP = pure_op (add_cycles 4)"

definition OP_HALT :: cpu_op where
  "OP_HALT = pure_op (\<lambda>c. add_cycles 4 (c\<lparr> m_halted := True \<rparr>))"

definition OP_STOP :: cpu_op where
  "OP_STOP = pure_op (\<lambda>c. add_cycles 4 (c\<lparr> m_stopped := True \<rparr>))"

definition OP_DI :: cpu_op where
  "OP_DI = pure_op (\<lambda>c. add_cycles 4 (c\<lparr> m_ime := False \<rparr>))"

definition OP_EI :: cpu_op where
  "OP_EI = pure_op (\<lambda>c. add_cycles 4 (c\<lparr> m_ime := True \<rparr>))"

subsection \<open>CB-prefixed instructions\<close>

text \<open>\<^verbatim>\<open>get_reg\<close>: the register of an index other than 6.\<close>

definition cb_reg :: "u8 \<Rightarrow> Reg8" where
  "cb_reg reg_index =
     (if reg_index = 0 then R_B else if reg_index = 1 then R_C
      else if reg_index = 2 then R_D else if reg_index = 3 then R_E
      else if reg_index = 4 then R_H else if reg_index = 5 then R_L
      else R_A)"

text \<open>The rotate or shift selected by \<^verbatim>\<open>sub_op\<close>.\<close>

definition cb_rotate :: "u8 \<Rightarrow> u8 \<Rightarrow> CPU \<Rightarrow> u8 \<times> CPU" where
  "cb_rotate sub_op reg c =
     (if sub_op = 0 then OP_RLC reg c
      else if sub_op = 1 then OP_RRC reg c
      else if sub_op = 2 then OP_RL reg c
      else if sub_op = 3 then OP_RR reg c
      else if sub_op = 4 then OP_SLA reg c
      else if sub_op = 5 then OP_SRA reg c
      else if sub_op = 6 then OP_SWAP reg c
      else OP_SRL reg c)"

definition ExecuteCBInstruction :: "u8 \<Rightarrow> cpu_op" where
  "ExecuteCBInstruction opcode s =
     (let reg_index = opcode AND 0x07;
          n = unat (drop_bit 3 opcode AND 0x07);
          op_type = drop_bit 6 opcode AND 0x03
      in case s of (c, b) \<Rightarrow>
         if reg_index = 6 then
           do { (v, c, b) \<leftarrow> ReadByte (get_r16 R_HL c) (c, b);
                if op_type = 0 then
                  (let sub_op = drop_bit 3 opcode AND 0x07;
                       (v, c) = cb_rotate sub_op v c;
                       (c, b) = WriteByte (get_r16 R_HL c) v (c, b)
                   in Some (add_cycles 8 c, b))
                else if op_type = 1 then Some (add_cycles 4 (OP_BIT n v c), b)
                else if op_type = 2 then
                  (let v = v AND NOT (push_bit n 1);
                       (c, b) = WriteByte (get_r16 R_HL c) v (c, b)
                   in Some (add_cycles 8 c, b))
                else
                  (let v = v OR push_bit n 1;
                       (c, b) = WriteByte (get_r16 R_HL c) v (c, b)
                   in Some (add_cycles 8 c, b)) }
         else
           (let r = cb_reg reg_index in
            if op_type = 0 then
              (let sub_op = drop_bit 3 opcode AND 0x07;
                   (v, c) = cb_rotate sub_op (get_r8 r c) c
               in Some (set_r8 r v c, b))
            else if op_type = 1 then Some (OP_BIT n (get_r8 r c) c, b)
            else if op_type = 2 then
              (let (v, c) = OP_RES n (get_r8 r c) c in Some (set_r8 r v c, b))
            else
              (let (v, c) = OP_SET n (get_r8 r c) c in Some (set_r8 r v c, b))))"

subsection \<open>Dispatch\<close>

text \<open>The switch of \<^verbatim>\<open>ExecuteInstruction\<close>, case by case in the order of the source. The
  eleven opcodes with no case fall to the default, which logs and changes nothing.\<close>

definition ExecuteInstruction :: "u8 \<Rightarrow> CPU \<times> Bus \<Rightarrow> (CPU \<times> Bus) option" where
  "ExecuteInstruction opcode s =
     (case s of (c, b) \<Rightarrow>
      if opcode = 0x00 then OP_NOP (c, b)
      else if opcode = 0x01 then OP_LD_rr_nn R_BC (c, b)
      else if opcode = 0x11 then OP_LD_rr_nn R_DE (c, b)
      else if opcode = 0x21 then OP_LD_rr_nn R_HL (c, b)
      else if opcode = 0x31 then OP_LD_rr_nn R_SP (c, b)
      else if opcode = 0x08 then OP_LD_nn_SP (c, b)
      else if opcode = 0xF8 then OP_LD_HL_SP_e (c, b)
      else if opcode = 0xF9 then OP_LD_SP_HL (c, b)
      else if opcode = 0x06 then OP_LD_r_n R_B (c, b)
      else if opcode = 0x0E then OP_LD_r_n R_C (c, b)
      else if opcode = 0x16 then OP_LD_r_n R_D (c, b)
      else if opcode = 0x1E then OP_LD_r_n R_E (c, b)
      else if opcode = 0x26 then OP_LD_r_n R_H (c, b)
      else if opcode = 0x2E then OP_LD_r_n R_L (c, b)
      else if opcode = 0x3E then OP_LD_r_n R_A (c, b)
      else if opcode = 0x40 then OP_LD_r_r R_B (get_r8 R_B c) (c, b)
      else if opcode = 0x41 then OP_LD_r_r R_B (get_r8 R_C c) (c, b)
      else if opcode = 0x42 then OP_LD_r_r R_B (get_r8 R_D c) (c, b)
      else if opcode = 0x43 then OP_LD_r_r R_B (get_r8 R_E c) (c, b)
      else if opcode = 0x44 then OP_LD_r_r R_B (get_r8 R_H c) (c, b)
      else if opcode = 0x45 then OP_LD_r_r R_B (get_r8 R_L c) (c, b)
      else if opcode = 0x46 then OP_LD_r_HL R_B (c, b)
      else if opcode = 0x47 then OP_LD_r_r R_B (get_r8 R_A c) (c, b)
      else if opcode = 0x48 then OP_LD_r_r R_C (get_r8 R_B c) (c, b)
      else if opcode = 0x49 then OP_LD_r_r R_C (get_r8 R_C c) (c, b)
      else if opcode = 0x4A then OP_LD_r_r R_C (get_r8 R_D c) (c, b)
      else if opcode = 0x4B then OP_LD_r_r R_C (get_r8 R_E c) (c, b)
      else if opcode = 0x4C then OP_LD_r_r R_C (get_r8 R_H c) (c, b)
      else if opcode = 0x4D then OP_LD_r_r R_C (get_r8 R_L c) (c, b)
      else if opcode = 0x4E then OP_LD_r_HL R_C (c, b)
      else if opcode = 0x4F then OP_LD_r_r R_C (get_r8 R_A c) (c, b)
      else if opcode = 0x50 then OP_LD_r_r R_D (get_r8 R_B c) (c, b)
      else if opcode = 0x51 then OP_LD_r_r R_D (get_r8 R_C c) (c, b)
      else if opcode = 0x52 then OP_LD_r_r R_D (get_r8 R_D c) (c, b)
      else if opcode = 0x53 then OP_LD_r_r R_D (get_r8 R_E c) (c, b)
      else if opcode = 0x54 then OP_LD_r_r R_D (get_r8 R_H c) (c, b)
      else if opcode = 0x55 then OP_LD_r_r R_D (get_r8 R_L c) (c, b)
      else if opcode = 0x56 then OP_LD_r_HL R_D (c, b)
      else if opcode = 0x57 then OP_LD_r_r R_D (get_r8 R_A c) (c, b)
      else if opcode = 0x58 then OP_LD_r_r R_E (get_r8 R_B c) (c, b)
      else if opcode = 0x59 then OP_LD_r_r R_E (get_r8 R_C c) (c, b)
      else if opcode = 0x5A then OP_LD_r_r R_E (get_r8 R_D c) (c, b)
      else if opcode = 0x5B then OP_LD_r_r R_E (get_r8 R_E c) (c, b)
      else if opcode = 0x5C then OP_LD_r_r R_E (get_r8 R_H c) (c, b)
      else if opcode = 0x5D then OP_LD_r_r R_E (get_r8 R_L c) (c, b)
      else if opcode = 0x5E then OP_LD_r_HL R_E (c, b)
      else if opcode = 0x5F then OP_LD_r_r R_E (get_r8 R_A c) (c, b)
      else if opcode = 0x60 then OP_LD_r_r R_H (get_r8 R_B c) (c, b)
      else if opcode = 0x61 then OP_LD_r_r R_H (get_r8 R_C c) (c, b)
      else if opcode = 0x62 then OP_LD_r_r R_H (get_r8 R_D c) (c, b)
      else if opcode = 0x63 then OP_LD_r_r R_H (get_r8 R_E c) (c, b)
      else if opcode = 0x64 then OP_LD_r_r R_H (get_r8 R_H c) (c, b)
      else if opcode = 0x65 then OP_LD_r_r R_H (get_r8 R_L c) (c, b)
      else if opcode = 0x66 then OP_LD_r_HL R_H (c, b)
      else if opcode = 0x67 then OP_LD_r_r R_H (get_r8 R_A c) (c, b)
      else if opcode = 0x68 then OP_LD_r_r R_L (get_r8 R_B c) (c, b)
      else if opcode = 0x69 then OP_LD_r_r R_L (get_r8 R_C c) (c, b)
      else if opcode = 0x6A then OP_LD_r_r R_L (get_r8 R_D c) (c, b)
      else if opcode = 0x6B then OP_LD_r_r R_L (get_r8 R_E c) (c, b)
      else if opcode = 0x6C then OP_LD_r_r R_L (get_r8 R_H c) (c, b)
      else if opcode = 0x6D then OP_LD_r_r R_L (get_r8 R_L c) (c, b)
      else if opcode = 0x6E then OP_LD_r_HL R_L (c, b)
      else if opcode = 0x6F then OP_LD_r_r R_L (get_r8 R_A c) (c, b)
      else if opcode = 0x70 then OP_LD_HL_r (get_r8 R_B c) (c, b)
      else if opcode = 0x71 then OP_LD_HL_r (get_r8 R_C c) (c, b)
      else if opcode = 0x72 then OP_LD_HL_r (get_r8 R_D c) (c, b)
      else if opcode = 0x73 then OP_LD_HL_r (get_r8 R_E c) (c, b)
      else if opcode = 0x74 then OP_LD_HL_r (get_r8 R_H c) (c, b)
      else if opcode = 0x75 then OP_LD_HL_r (get_r8 R_L c) (c, b)
      else if opcode = 0x36 then OP_LD_HL_n (c, b)
      else if opcode = 0x77 then OP_LD_HL_r (get_r8 R_A c) (c, b)
      else if opcode = 0x78 then OP_LD_r_r R_A (get_r8 R_B c) (c, b)
      else if opcode = 0x79 then OP_LD_r_r R_A (get_r8 R_C c) (c, b)
      else if opcode = 0x7A then OP_LD_r_r R_A (get_r8 R_D c) (c, b)
      else if opcode = 0x7B then OP_LD_r_r R_A (get_r8 R_E c) (c, b)
      else if opcode = 0x7C then OP_LD_r_r R_A (get_r8 R_H c) (c, b)
      else if opcode = 0x7D then OP_LD_r_r R_A (get_r8 R_L c) (c, b)
      else if opcode = 0x7E then OP_LD_r_HL R_A (c, b)
      else if opcode = 0x7F then OP_LD_r_r R_A (get_r8 R_A c) (c, b)
      else if opcode = 0x0A then OP_LD_A_BC (c, b)
      else if opcode = 0x1A then OP_LD_A_DE (c, b)
      else if opcode = 0xFA then OP_LD_A_nn (c, b)
      else if opcode = 0x02 then OP_LD_BC_A (c, b)
      else if opcode = 0x12 then OP_LD_DE_A (c, b)
      else if opcode = 0xEA then OP_LD_nn_A (c, b)
      else if opcode = 0xF0 then OP_LDH_A_n (c, b)
      else if opcode = 0xE0 then OP_LDH_n_A (c, b)
      else if opcode = 0xF2 then OP_LD_A_C (c, b)
      else if opcode = 0xE2 then OP_LD_C_A (c, b)
      else if opcode = 0x22 then OP_LDI_HL_A (c, b)
      else if opcode = 0x2A then OP_LDI_A_HL (c, b)
      else if opcode = 0x32 then OP_LDD_HL_A (c, b)
      else if opcode = 0x3A then OP_LDD_A_HL (c, b)
      else if opcode = 0xC5 then OP_PUSH (get_r16 R_BC c) (c, b)
      else if opcode = 0xD5 then OP_PUSH (get_r16 R_DE c) (c, b)
      else if opcode = 0xE5 then OP_PUSH (get_r16 R_HL c) (c, b)
      else if opcode = 0xF5 then OP_PUSH (get_r16 R_AF c) (c, b)
      else if opcode = 0xC1 then OP_POP R_BC (c, b)
      else if opcode = 0xD1 then OP_POP R_DE (c, b)
      else if opcode = 0xE1 then OP_POP R_HL (c, b)
      else if opcode = 0xF1 then OP_POP R_AF (c, b)
      else if opcode = 0x80 then OP_ADD_A_r (get_r8 R_B c) (c, b)
      else if opcode = 0x81 then OP_ADD_A_r (get_r8 R_C c) (c, b)
      else if opcode = 0x82 then OP_ADD_A_r (get_r8 R_D c) (c, b)
      else if opcode = 0x83 then OP_ADD_A_r (get_r8 R_E c) (c, b)
      else if opcode = 0x84 then OP_ADD_A_r (get_r8 R_H c) (c, b)
      else if opcode = 0x85 then OP_ADD_A_r (get_r8 R_L c) (c, b)
      else if opcode = 0x86 then do { (v, c, b) \<leftarrow> ReadByte (get_r16 R_HL c) (c, b); OP_ADD_A_r v (c, b) }
      else if opcode = 0x87 then OP_ADD_A_r (get_r8 R_A c) (c, b)
      else if opcode = 0xC6 then do { (v, c, b) \<leftarrow> FetchByte (c, b); OP_ADD_A_r v (c, b) }
      else if opcode = 0x88 then OP_ADC_A_r (get_r8 R_B c) (c, b)
      else if opcode = 0x89 then OP_ADC_A_r (get_r8 R_C c) (c, b)
      else if opcode = 0x8A then OP_ADC_A_r (get_r8 R_D c) (c, b)
      else if opcode = 0x8B then OP_ADC_A_r (get_r8 R_E c) (c, b)
      else if opcode = 0x8C then OP_ADC_A_r (get_r8 R_H c) (c, b)
      else if opcode = 0x8D then OP_ADC_A_r (get_r8 R_L c) (c, b)
      else if opcode = 0x8E then do { (v, c, b) \<leftarrow> ReadByte (get_r16 R_HL c) (c, b); OP_ADC_A_r v (c, b) }
      else if opcode = 0x8F then OP_ADC_A_r (get_r8 R_A c) (c, b)
      else if opcode = 0xCE then do { (v, c, b) \<leftarrow> FetchByte (c, b); OP_ADC_A_r v (c, b) }
      else if opcode = 0x90 then OP_SUB_r (get_r8 R_B c) (c, b)
      else if opcode = 0x91 then OP_SUB_r (get_r8 R_C c) (c, b)
      else if opcode = 0x92 then OP_SUB_r (get_r8 R_D c) (c, b)
      else if opcode = 0x93 then OP_SUB_r (get_r8 R_E c) (c, b)
      else if opcode = 0x94 then OP_SUB_r (get_r8 R_H c) (c, b)
      else if opcode = 0x95 then OP_SUB_r (get_r8 R_L c) (c, b)
      else if opcode = 0x96 then do { (v, c, b) \<leftarrow> ReadByte (get_r16 R_HL c) (c, b); OP_SUB_r v (c, b) }
      else if opcode = 0x97 then OP_SUB_r (get_r8 R_A c) (c, b)
      else if opcode = 0xD6 then do { (v, c, b) \<leftarrow> FetchByte (c, b); OP_SUB_r v (c, b) }
      else if opcode = 0x98 then OP_SBC_A_r (get_r8 R_B c) (c, b)
      else if opcode = 0x99 then OP_SBC_A_r (get_r8 R_C c) (c, b)
      else if opcode = 0x9A then OP_SBC_A_r (get_r8 R_D c) (c, b)
      else if opcode = 0x9B then OP_SBC_A_r (get_r8 R_E c) (c, b)
      else if opcode = 0x9C then OP_SBC_A_r (get_r8 R_H c) (c, b)
      else if opcode = 0x9D then OP_SBC_A_r (get_r8 R_L c) (c, b)
      else if opcode = 0x9E then do { (v, c, b) \<leftarrow> ReadByte (get_r16 R_HL c) (c, b); OP_SBC_A_r v (c, b) }
      else if opcode = 0x9F then OP_SBC_A_r (get_r8 R_A c) (c, b)
      else if opcode = 0xDE then do { (v, c, b) \<leftarrow> FetchByte (c, b); OP_SBC_A_r v (c, b) }
      else if opcode = 0xA0 then OP_AND_r (get_r8 R_B c) (c, b)
      else if opcode = 0xA1 then OP_AND_r (get_r8 R_C c) (c, b)
      else if opcode = 0xA2 then OP_AND_r (get_r8 R_D c) (c, b)
      else if opcode = 0xA3 then OP_AND_r (get_r8 R_E c) (c, b)
      else if opcode = 0xA4 then OP_AND_r (get_r8 R_H c) (c, b)
      else if opcode = 0xA5 then OP_AND_r (get_r8 R_L c) (c, b)
      else if opcode = 0xA6 then do { (v, c, b) \<leftarrow> ReadByte (get_r16 R_HL c) (c, b); OP_AND_r v (c, b) }
      else if opcode = 0xA7 then OP_AND_r (get_r8 R_A c) (c, b)
      else if opcode = 0xE6 then do { (v, c, b) \<leftarrow> FetchByte (c, b); OP_AND_r v (c, b) }
      else if opcode = 0xA8 then OP_XOR_r (get_r8 R_B c) (c, b)
      else if opcode = 0xA9 then OP_XOR_r (get_r8 R_C c) (c, b)
      else if opcode = 0xAA then OP_XOR_r (get_r8 R_D c) (c, b)
      else if opcode = 0xAB then OP_XOR_r (get_r8 R_E c) (c, b)
      else if opcode = 0xAC then OP_XOR_r (get_r8 R_H c) (c, b)
      else if opcode = 0xAD then OP_XOR_r (get_r8 R_L c) (c, b)
      else if opcode = 0xAE then do { (v, c, b) \<leftarrow> ReadByte (get_r16 R_HL c) (c, b); OP_XOR_r v (c, b) }
      else if opcode = 0xAF then OP_XOR_r (get_r8 R_A c) (c, b)
      else if opcode = 0xEE then do { (v, c, b) \<leftarrow> FetchByte (c, b); OP_XOR_r v (c, b) }
      else if opcode = 0xB0 then OP_OR_r (get_r8 R_B c) (c, b)
      else if opcode = 0xB1 then OP_OR_r (get_r8 R_C c) (c, b)
      else if opcode = 0xB2 then OP_OR_r (get_r8 R_D c) (c, b)
      else if opcode = 0xB3 then OP_OR_r (get_r8 R_E c) (c, b)
      else if opcode = 0xB4 then OP_OR_r (get_r8 R_H c) (c, b)
      else if opcode = 0xB5 then OP_OR_r (get_r8 R_L c) (c, b)
      else if opcode = 0xB6 then do { (v, c, b) \<leftarrow> ReadByte (get_r16 R_HL c) (c, b); OP_OR_r v (c, b) }
      else if opcode = 0xB7 then OP_OR_r (get_r8 R_A c) (c, b)
      else if opcode = 0xF6 then do { (v, c, b) \<leftarrow> FetchByte (c, b); OP_OR_r v (c, b) }
      else if opcode = 0xB8 then OP_CP_r (get_r8 R_B c) (c, b)
      else if opcode = 0xB9 then OP_CP_r (get_r8 R_C c) (c, b)
      else if opcode = 0xBA then OP_CP_r (get_r8 R_D c) (c, b)
      else if opcode = 0xBB then OP_CP_r (get_r8 R_E c) (c, b)
      else if opcode = 0xBC then OP_CP_r (get_r8 R_H c) (c, b)
      else if opcode = 0xBD then OP_CP_r (get_r8 R_L c) (c, b)
      else if opcode = 0xBE then do { (v, c, b) \<leftarrow> ReadByte (get_r16 R_HL c) (c, b); OP_CP_r v (c, b) }
      else if opcode = 0xBF then OP_CP_r (get_r8 R_A c) (c, b)
      else if opcode = 0xFE then do { (v, c, b) \<leftarrow> FetchByte (c, b); OP_CP_r v (c, b) }
      else if opcode = 0x04 then OP_INC_r R_B (c, b)
      else if opcode = 0x0C then OP_INC_r R_C (c, b)
      else if opcode = 0x14 then OP_INC_r R_D (c, b)
      else if opcode = 0x1C then OP_INC_r R_E (c, b)
      else if opcode = 0x24 then OP_INC_r R_H (c, b)
      else if opcode = 0x2C then OP_INC_r R_L (c, b)
      else if opcode = 0x34 then OP_INC_HL (c, b)
      else if opcode = 0x3C then OP_INC_r R_A (c, b)
      else if opcode = 0x05 then OP_DEC_r R_B (c, b)
      else if opcode = 0x0D then OP_DEC_r R_C (c, b)
      else if opcode = 0x15 then OP_DEC_r R_D (c, b)
      else if opcode = 0x1D then OP_DEC_r R_E (c, b)
      else if opcode = 0x25 then OP_DEC_r R_H (c, b)
      else if opcode = 0x2D then OP_DEC_r R_L (c, b)
      else if opcode = 0x35 then OP_DEC_HL (c, b)
      else if opcode = 0x3D then OP_DEC_r R_A (c, b)
      else if opcode = 0x09 then OP_ADD_HL_rr (get_r16 R_BC c) (c, b)
      else if opcode = 0x19 then OP_ADD_HL_rr (get_r16 R_DE c) (c, b)
      else if opcode = 0x29 then OP_ADD_HL_rr (get_r16 R_HL c) (c, b)
      else if opcode = 0x39 then OP_ADD_HL_rr (get_r16 R_SP c) (c, b)
      else if opcode = 0xE8 then OP_ADD_SP_e (c, b)
      else if opcode = 0x03 then OP_INC_rr R_BC (c, b)
      else if opcode = 0x13 then OP_INC_rr R_DE (c, b)
      else if opcode = 0x23 then OP_INC_rr R_HL (c, b)
      else if opcode = 0x33 then OP_INC_rr R_SP (c, b)
      else if opcode = 0x0B then OP_DEC_rr R_BC (c, b)
      else if opcode = 0x1B then OP_DEC_rr R_DE (c, b)
      else if opcode = 0x2B then OP_DEC_rr R_HL (c, b)
      else if opcode = 0x3B then OP_DEC_rr R_SP (c, b)
      else if opcode = 0xC3 then OP_JP_nn (c, b)
      else if opcode = 0xE9 then OP_JP_HL (c, b)
      else if opcode = 0xC2 then OP_JP_cc_nn (\<not> GetFlag FLAG_Z c) (c, b)
      else if opcode = 0xCA then OP_JP_cc_nn (GetFlag FLAG_Z c) (c, b)
      else if opcode = 0xD2 then OP_JP_cc_nn (\<not> GetFlag FLAG_C c) (c, b)
      else if opcode = 0xDA then OP_JP_cc_nn (GetFlag FLAG_C c) (c, b)
      else if opcode = 0x18 then OP_JR_e (c, b)
      else if opcode = 0x20 then OP_JR_cc_e (\<not> GetFlag FLAG_Z c) (c, b)
      else if opcode = 0x28 then OP_JR_cc_e (GetFlag FLAG_Z c) (c, b)
      else if opcode = 0x30 then OP_JR_cc_e (\<not> GetFlag FLAG_C c) (c, b)
      else if opcode = 0x38 then OP_JR_cc_e (GetFlag FLAG_C c) (c, b)
      else if opcode = 0xCD then OP_CALL_nn (c, b)
      else if opcode = 0xC4 then OP_CALL_cc_nn (\<not> GetFlag FLAG_Z c) (c, b)
      else if opcode = 0xCC then OP_CALL_cc_nn (GetFlag FLAG_Z c) (c, b)
      else if opcode = 0xD4 then OP_CALL_cc_nn (\<not> GetFlag FLAG_C c) (c, b)
      else if opcode = 0xDC then OP_CALL_cc_nn (GetFlag FLAG_C c) (c, b)
      else if opcode = 0xC9 then OP_RET (c, b)
      else if opcode = 0xC0 then OP_RET_cc (\<not> GetFlag FLAG_Z c) (c, b)
      else if opcode = 0xC8 then OP_RET_cc (GetFlag FLAG_Z c) (c, b)
      else if opcode = 0xD0 then OP_RET_cc (\<not> GetFlag FLAG_C c) (c, b)
      else if opcode = 0xD8 then OP_RET_cc (GetFlag FLAG_C c) (c, b)
      else if opcode = 0xD9 then OP_RETI (c, b)
      else if opcode = 0xC7 then OP_RST 0x00 (c, b)
      else if opcode = 0xCF then OP_RST 0x08 (c, b)
      else if opcode = 0xD7 then OP_RST 0x10 (c, b)
      else if opcode = 0xDF then OP_RST 0x18 (c, b)
      else if opcode = 0xE7 then OP_RST 0x20 (c, b)
      else if opcode = 0xEF then OP_RST 0x28 (c, b)
      else if opcode = 0xF7 then OP_RST 0x30 (c, b)
      else if opcode = 0xFF then OP_RST 0x38 (c, b)
      else if opcode = 0x07 then OP_RLCA (c, b)
      else if opcode = 0x17 then OP_RLA (c, b)
      else if opcode = 0x0F then OP_RRCA (c, b)
      else if opcode = 0x1F then OP_RRA (c, b)
      else if opcode = 0x27 then OP_DAA (c, b)
      else if opcode = 0x2F then OP_CPL (c, b)
      else if opcode = 0x3F then OP_CCF (c, b)
      else if opcode = 0x37 then OP_SCF (c, b)
      else if opcode = 0x76 then OP_HALT (c, b)
      else if opcode = 0x10 then OP_STOP (c, b)
      else if opcode = 0xF3 then OP_DI (c, b)
      else if opcode = 0xFB then OP_EI (c, b)
      else if opcode = 0xCB then do { (cb_opcode, c, b) \<leftarrow> FetchByte (c, b); ExecuteCBInstruction cb_opcode (c, b) }
      else Some (c, b))"

subsection \<open>Interrupt service and the step\<close>

text \<open>The loop of \<^verbatim>\<open>ServiceInterrupts\<close>: the first \<open>i < 5\<close> whose bit is set in
  \<^verbatim>\<open>triggered\<close> is serviced, and the loop is left.\<close>

function ServiceInterrupts_loop :: "u8 \<Rightarrow> u8 \<Rightarrow> nat \<Rightarrow> CPU \<times> Bus \<Rightarrow> CPU \<times> Bus" where
  "ServiceInterrupts_loop triggered if_reg i s =
     (if i < 5 then
        (if triggered AND push_bit i 1 \<noteq> 0 then
           (case s of (c, b) \<Rightarrow>
              (let c = c\<lparr> m_ime := False \<rparr>;
                   b = Memory_Write 0xFF0F (if_reg AND NOT (push_bit i 1)) b;
                   (c, b) = Push (get_pc c) (c, b);
                   vector = 0x0040 + word_of_nat (i * 0x08);
                   c = set_pc vector c
               in (add_cycles 20 c, b)))
         else ServiceInterrupts_loop triggered if_reg (i + 1) s)
      else s)"
  by pat_completeness auto
termination
  by (relation "measure (\<lambda>(t, f, i, s). 5 - i)") auto

declare ServiceInterrupts_loop.simps [simp del]

definition ServiceInterrupts :: cpu_op where
  "ServiceInterrupts s =
     (case s of (c, b) \<Rightarrow>
        if \<not> m_ime c then Some s
        else do {
          if_reg \<leftarrow> Memory_Read b 0xFF0F;
          ie_reg \<leftarrow> Memory_Read b 0xFFFF;
          let triggered = if_reg AND ie_reg in
          if triggered = 0 then Some s
          else Some (ServiceInterrupts_loop triggered if_reg 0 s)
        })"

text \<open>\<^verbatim>\<open>CPU::Step\<close>: the cycles returned, and the state after.\<close>

definition CPU_Step :: "CPU \<times> Bus \<Rightarrow> (u32 \<times> CPU \<times> Bus) option" where
  "CPU_Step s =
     (case s of (c, b) \<Rightarrow>
        (let c = c\<lparr> m_cycles := 0 \<rparr> in
         do {
           (still_halted, c) \<leftarrow>
             (if m_halted c then
                do {
                  if_reg \<leftarrow> Memory_Read b 0xFF0F;
                  ie_reg \<leftarrow> Memory_Read b 0xFFFF;
                  if if_reg AND ie_reg \<noteq> 0 then Some (False, c\<lparr> m_halted := False \<rparr>)
                  else Some (True, c\<lparr> m_cycles := 4 \<rparr>)
                }
              else Some (False, c));
           if still_halted then Some (m_cycles c, c, b)
           else do {
             (c, b) \<leftarrow> ServiceInterrupts (c, b);
             (opcode, c, b) \<leftarrow> FetchByte (c, b);
             (c, b) \<leftarrow> ExecuteInstruction opcode (c, b);
             Some (m_cycles c, c, b)
           }
         }))"

text \<open>\<^verbatim>\<open>CPU::RequestInterrupt\<close>.\<close>

definition CPU_RequestInterrupt :: "nat \<Rightarrow> cpu_op" where
  "CPU_RequestInterrupt interrupt_bit s =
     (case s of (c, b) \<Rightarrow>
        do {
          if_reg \<leftarrow> Memory_Read b 0xFF0F;
          let b = Memory_Write 0xFF0F (if_reg OR push_bit interrupt_bit 1) b in
          Some (if m_halted c then c\<lparr> m_halted := False \<rparr> else c, b)
        })"

section \<open>The machine as constructed (machine/gameboy.cpp)\<close>

text \<open>\<^verbatim>\<open>GameBoy::GameBoy\<close> builds the memory, the processor, the picture unit (which
  registers its handlers) and the timer (which registers its own).\<close>

definition GameBoy_bus :: Bus where
  "GameBoy_bus =
     \<lparr> memory = Timer_RegisterIOHandlers (PPU_RegisterIOHandlers Memory_new),
       ppu = PPU_new, timer = Timer_new \<rparr>"

section \<open>Well-formed memory\<close>

text \<open>What \<^verbatim>\<open>InitializePageTables\<close> leaves in entry \<open>p\<close> of both page tables: the VRAM pages
  at 0x80-0x9F, the WRAM pages at 0xC0-0xDF, the echo of WRAM at 0xE0-0xFD, and null
  elsewhere.\<close>

definition init_page_entry :: "nat \<Rightarrow> page_ptr option" where
  "init_page_entry p =
     (if 0x80 \<le> p \<and> p < 0xA0 then Some (R_VRAM, (p - 0x80) * PAGE_SIZE)
      else if 0xC0 \<le> p \<and> p < 0xE0 then Some (R_WRAM, (p - 0xC0) * PAGE_SIZE)
      else if 0xE0 \<le> p \<and> p < 0xFE then Some (R_WRAM, (p - 0xE0) * PAGE_SIZE)
      else None)"

text \<open>The states a \<^verbatim>\<open>Memory\<close> object can be in: each \<^verbatim>\<open>std::array\<close> has its declared
  size, and the page tables (private, written by \<^verbatim>\<open>InitializePageTables\<close> only) are as
  initialised.\<close>

definition Memory_wf :: "Memory \<Rightarrow> bool" where
  "Memory_wf m \<longleftrightarrow>
     length (m_wram m) = WRAM_SIZE \<and> length (m_vram m) = VRAM_SIZE \<and>
     length (m_oam m) = OAM_SIZE \<and> length (m_hram m) = HRAM_SIZE \<and>
     length (m_io m) = IO_SIZE \<and>
     length (m_io_read_handlers m) = IO_SIZE \<and> length (m_io_write_handlers m) = IO_SIZE \<and>
     m_read_page_table m = m_read_page_table (InitializePageTables m) \<and>
     m_write_page_table m = m_write_page_table (InitializePageTables m)"

text \<open>Whether an address is served by the paged fast path of both \<^verbatim>\<open>Read\<close> and
  \<^verbatim>\<open>Write\<close>.\<close>

definition fast_path :: "Memory \<Rightarrow> u16 \<Rightarrow> bool" where
  "fast_path m a \<longleftrightarrow>
     m_read_page_table m ! (unat a div PAGE_SIZE) \<noteq> None \<and>
     m_write_page_table m ! (unat a div PAGE_SIZE) \<noteq> None"

text \<open>A ROM image of the least size \<^verbatim>\<open>LoadROM\<close> accepts (0x150 bytes), all zero but for
  the cartridge-type byte of its header.\<close>

definition header_only_rom :: "u8 \<Rightarrow> u8 list" where
  "header_only_rom cartridge_type = (replicate 0x150 0)[0x0147 := cartridge_type]"

section \<open>The timer, as the specification words it\<close>

text \<open>The period table: \<open>{1024, 16, 64, 256}[TAC & 3]\<close>.\<close>

definition timer_period :: "u8 \<Rightarrow> u32" where
  "timer_period tac = [1024, 16, 64, 256] ! unat (tac AND 0x03)"

text \<open>One increment of TIMA: when TIMA wraps to 0 it is set to TMA and bit 2 of IF is
  set.\<close>

definition tima_increment :: "Bus \<Rightarrow> Bus" where
  "tima_increment b =
     (if m_tima (timer b) + 1 = 0
      then b\<lparr> timer := (timer b)\<lparr> m_tima := m_tma (timer b) \<rparr>,
              memory := Memory_RequestInterrupt 0x04 (memory b) \<rparr>
      else b\<lparr> timer := (timer b)\<lparr> m_tima := m_tima (timer b) + 1 \<rparr> \<rparr>)"

text \<open>A step of the enabled timer in closed form: the cycles are added to DIV and to the
  residual \<open>r\<close>; TIMA is incremented once for each whole period \<open>P\<close> in the new residual,
  which keeps the remainder.\<close>

definition Timer_Step_spec :: "u32 \<Rightarrow> Bus \<Rightarrow> Bus" where
  "Timer_Step_spec cycles b =
     (let P = timer_period (m_tac (timer b));
          r = m_timer_counter (timer b) + cycles
      in (tima_increment ^^ (unat r div unat P))
           (b\<lparr> timer := (timer b)\<lparr> m_div_counter := m_div_counter (timer b) + ucast cycles,
                                   m_timer_counter := r mod P \<rparr> \<rparr>))"

definition set_counter :: "u32 \<Rightarrow> Bus \<Rightarrow> Bus" where
  "set_counter x b = b\<lparr> timer := (timer b)\<lparr> m_timer_counter := x \<rparr> \<rparr>"

text \<open>The timer-overflow scenario: on the machine as constructed, TMA, TIMA and TAC are
  written through the bus.\<close>

definition timer_overflow_bus :: Bus where
  "timer_overflow_bus =
     Memory_Write 0xFF07 0x05 (Memory_Write 0xFF05 0xFF (Memory_Write 0xFF06 0xAB GameBoy_bus))"

text \<open>The same registers with a residual of 16 left in the counter: TIMA is written, the
  timer is enabled with period 1024 and stepped by 16 cycles, then TAC is written with
  period 16 (the enable bit does not change, so the residual is kept) and TMA is written.\<close>

definition timer_residual_bus :: Bus where
  "timer_residual_bus =
     Memory_Write 0xFF06 0xAB (Memory_Write 0xFF07 0x05 (Timer_Step 16
       (Memory_Write 0xFF07 0x04 (Memory_Write 0xFF05 0xFF GameBoy_bus))))"

section \<open>The picture unit on the bus of the machine\<close>

text \<open>The buses of the machine: a well-formed memory whose handler tables are those the
  constructor of \<^verbatim>\<open>GameBoy\<close> leaves (nothing registers a handler later).\<close>

definition Bus_wf :: "Bus \<Rightarrow> bool" where
  "Bus_wf b \<longleftrightarrow>
     Memory_wf (memory b) \<and>
     m_io_read_handlers (memory b) = m_io_read_handlers (memory GameBoy_bus) \<and>
     m_io_write_handlers (memory b) = m_io_write_handlers (memory GameBoy_bus)"

text \<open>The control state of the picture unit: mode, line, and cycles in the mode.\<close>

definition PPU_control :: "Bus \<Rightarrow> Mode \<times> u8 \<times> u32" where
  "PPU_control b = (m_mode (ppu b), m_scanline (ppu b), m_cycle_counter (ppu b))"

text \<open>Two states of the picture unit that differ in the framebuffer and the sprite
  buffer at most.\<close>

definition ppu_ctrl_eq :: "PPU \<Rightarrow> PPU \<Rightarrow> bool" where
  "ppu_ctrl_eq p p' \<longleftrightarrow>
     m_mode p' = m_mode p \<and> m_scanline p' = m_scanline p \<and>
     m_cycle_counter p' = m_cycle_counter p \<and> m_lcdc p' = m_lcdc p \<and>
     m_frame_ready p' = m_frame_ready p \<and> m_stat p' = m_stat p"

text \<open>What \<^verbatim>\<open>PPU::Step\<close> does to the control state while the LCD is enabled.\<close>

definition ctrl_step :: "u32 \<Rightarrow> Mode \<times> u8 \<times> u32 \<Rightarrow> Mode \<times> u8 \<times> u32" where
  "ctrl_step cycles s =
     (case s of (mode, ly, n) \<Rightarrow>
        (let n = n + cycles in
         case mode of
           OAM_SCAN \<Rightarrow> if n \<ge> 80 then (DRAWING, ly, n - 80) else (OAM_SCAN, ly, n)
         | DRAWING \<Rightarrow> if n \<ge> 172 then (HBLANK, ly, n - 172) else (DRAWING, ly, n)
         | HBLANK \<Rightarrow>
             if n \<ge> 204
             then (if unat (ly + 1) \<ge> 144 then VBLANK else OAM_SCAN, ly + 1, n - 204)
             else (HBLANK, ly, n)
         | VBLANK \<Rightarrow>
             if n \<ge> 456
             then (if unat (ly + 1) \<ge> 154 then (OAM_SCAN, 0, n - 456) else (VBLANK, ly + 1, n - 456))
             else (VBLANK, ly, n)))"

text \<open>A bus of the machine with the LCD enabled (LCDC bit 7).\<close>

definition ppu_on :: "Bus \<Rightarrow> bool" where
  "ppu_on b \<longleftrightarrow> Bus_wf b \<and> m_lcdc (ppu b) AND LCDC_LCD_ENABLE \<noteq> 0"

text \<open>A sequence of calls of \<^verbatim>\<open>PPU::Step\<close>, one for each cycle count of the list.\<close>

fun PPU_Steps :: "u32 list \<Rightarrow> Bus \<Rightarrow> Bus option" where
  "PPU_Steps [] b = Some b"
| "PPU_Steps (c # cs) b = Option.bind (PPU_Step c b) (PPU_Steps cs)"

text \<open>The mode state machine of a visible line, as the specification states it: the
  control state \<open>S\<close> cycles after the start of line \<open>ly\<close>, with OAM_SCAN for the first 80
  cycles, DRAWING for the next 172, HBLANK for the next 204, and the next line (in VBLANK
  when it is line 144) at 456.\<close>

definition visible_line_after :: "u8 \<Rightarrow> nat \<Rightarrow> Mode \<times> u8 \<times> u32" where
  "visible_line_after ly S =
     (if S < 80 then (OAM_SCAN, ly, word_of_nat S)
      else if S < 252 then (DRAWING, ly, word_of_nat (S - 80))
      else if S < 456 then (HBLANK, ly, word_of_nat (S - 252))
      else (if unat (ly + 1) \<ge> 144 then VBLANK else OAM_SCAN, ly + 1, 0))"

text \<open>No call of the list takes the cycle count of the line, \<open>S\<close> before the call, across
  two of the mode boundaries 80, 252 and 456 at once.\<close>

fun one_boundary_per_call :: "nat \<Rightarrow> u32 list \<Rightarrow> bool" where
  "one_boundary_per_call S [] = True"
| "one_boundary_per_call S (c # cs) =
     (\<not> (S < 80 \<and> 252 \<le> S + unat c) \<and> \<not> (S < 252 \<and> 456 \<le> S + unat c) \<and>
      one_boundary_per_call (S + unat c) cs)"

text \<open>A line of the vertical blank: \<open>S\<close> cycles after its start the unit is on the line
  until 456 cycles have passed; then it is on the next line, which after line 153 is line
  0 in OAM_SCAN.\<close>

definition vblank_line_after :: "u8 \<Rightarrow> nat \<Rightarrow> Mode \<times> u8 \<times> u32" where
  "vblank_line_after ly S =
     (if S < 456 then (VBLANK, ly, word_of_nat S)
      else if unat (ly + 1) \<ge> 154 then (OAM_SCAN, 0, 0)
      else (VBLANK, ly + 1, 0))"

text \<open>The machine as constructed, with the picture unit put at the start of line 153.\<close>

definition vblank_last_line_bus :: Bus where
  "vblank_last_line_bus = GameBoy_bus\<lparr> ppu := PPU_new\<lparr> m_mode := VBLANK, m_scanline := 153 \<rparr> \<rparr>"

text \<open>The machine after the first line: the picture unit is stepped by 80, 172 and 204
  cycles.\<close>

definition first_line_bus :: Bus where
  "first_line_bus =
     (case PPU_Steps [80, 172, 204] GameBoy_bus of Some b \<Rightarrow> b | None \<Rightarrow> GameBoy_bus)"

section \<open>Programs at the entry point, and the processor on them\<close>

text \<open>The condition of a conditional branch opcode (JP cc, JR cc, CALL cc, RET cc), as
  the dispatch passes it: bits 3 and 4 of the opcode select NZ, Z, NC or C.\<close>

definition branch_condition :: "u8 \<Rightarrow> CPU \<Rightarrow> bool" where
  "branch_condition opcode c =
     (let cc = drop_bit 3 opcode AND 0x03 in
      if cc = 0 then \<not> GetFlag FLAG_Z c
      else if cc = 1 then GetFlag FLAG_Z c
      else if cc = 2 then \<not> GetFlag FLAG_C c
      else GetFlag FLAG_C c)"

text \<open>A 32 KiB ROM-only cartridge image, all zero (NOP) but for the program placed at the
  entry point 0x0100.\<close>

definition program_rom :: "u8 list \<Rightarrow> u8 list" where
  "program_rom prog = replicate 0x100 0 @ prog @ replicate (0x8000 - 0x100 - length prog) 0"

text \<open>The machine as constructed, with that image loaded.\<close>

definition program_bus :: "u8 list \<Rightarrow> Bus" where
  "program_bus prog =
     GameBoy_bus\<lparr> memory := snd (Memory_LoadROM (program_rom prog) (memory GameBoy_bus)) \<rparr>"

text \<open>The processor after reset with the master enable set, and the one halted.\<close>

definition interrupt_cpu :: CPU where
  "interrupt_cpu = CPU_new\<lparr> m_ime := True \<rparr>"

definition halted_cpu :: CPU where
  "halted_cpu = CPU_new\<lparr> m_halted := True \<rparr>"

text \<open>The machine with an all-zero cartridge, after the byte \<open>v\<close> is written to IF and
  to IE.\<close>

definition interrupt_bus :: "u8 \<Rightarrow> Bus" where
  "interrupt_bus v = Memory_Write 0xFFFF v (Memory_Write 0xFF0F v (program_bus []))"

text \<open>The state in which the loop of \<^verbatim>\<open>ServiceInterrupts\<close> leaves the processor and the
  bus when it services interrupt \<open>i\<close>: the 8 cycles of \<^verbatim>\<open>Push\<close> and the 20 of the service
  are added together.\<close>

definition serviced :: "nat \<Rightarrow> u8 \<Rightarrow> CPU \<times> Bus \<Rightarrow> CPU \<times> Bus" where
  "serviced i if_reg s =
     (case s of (c, b) \<Rightarrow>
        (add_cycles 28 (set_pc (0x0040 + word_of_nat (i * 0x08))
           (set_r16 R_SP (get_r16 R_SP c - 2) (c\<lparr> m_ime := False \<rparr>))),
         Memory_Write16 (get_r16 R_SP c - 2) (get_pc c)
           (Memory_Write 0xFF0F (if_reg AND NOT (push_bit i 1)) b)))"

chapter \<open>Properties\<close>

section \<open>Scheduler\<close>

subsection \<open>Deschedule removes the events of one kind and no other\<close>

lemma mset_pq_push: "mset (pq_push e q) = add_mset e (mset q)"
  by (simp add: pq_push_def)

lemma Deschedule_loop_mset:
  "mset (snd (Deschedule_loop t q n)) = mset n + filter_mset (\<lambda>e. ev_type e \<noteq> t) (mset q)"
proof (induction q arbitrary: n)
  case Nil
  show ?case
    by (subst Deschedule_loop.simps) (simp add: pq_empty_def)
next
  case (Cons e rest)
  have step: "Deschedule_loop t (e # rest) n =
      Deschedule_loop t rest (if ev_type e \<noteq> t then pq_push e n else n)"
    by (subst Deschedule_loop.simps) (simp add: pq_empty_def pq_top_def pq_pop_def)
  show ?case
    unfolding step Cons.IH by (simp add: mset_pq_push)
qed

text \<open>
  C9. For every scheduler state and every event kind \<open>k\<close>, \<open>Deschedule k\<close> leaves in the
  queue exactly the pending events whose kind is not \<open>k\<close>, each as it was (same kind, same
  fire cycle, same callback, same multiplicity), and does not change the current cycle.
\<close>

theorem Deschedule_removes_exactly_kind:
  "mset (m_event_queue (Deschedule k s)) =
     filter_mset (\<lambda>e. ev_type e \<noteq> k) (mset (m_event_queue s))
   \<and> m_current_cycle (Deschedule k s) = m_current_cycle s"
proof -
  have "mset (snd (Deschedule_loop k (m_event_queue s) [])) =
        filter_mset (\<lambda>e. ev_type e \<noteq> k) (mset (m_event_queue s))"
    using Deschedule_loop_mset [of k "m_event_queue s" "[]"] by simp
  then show ?thesis
    by (simp add: Deschedule_def split_beta)
qed

section \<open>Memory bus\<close>

subsection \<open>The page tables as initialised\<close>

lemma fold_pair_update:
  "fold (\<lambda>i (rt, wt). (rt[g i := h i], wt[g i := h i])) xs (r, w) =
     (fold (\<lambda>i t. t[g i := h i]) xs r, fold (\<lambda>i t. t[g i := h i]) xs w)"
  by (induction xs arbitrary: r w) simp_all

lemma length_fold_update [simp]:
  "length (fold (\<lambda>i t. t[g i := h i]) xs t) = length t"
  by (induction xs arbitrary: t) simp_all

lemma fold_update_nth:
  "fold (\<lambda>i t. t[base + i := h i]) [0..<n] t ! p =
     (if base \<le> p \<and> p < base + n \<and> p < length t then h (p - base) else t ! p)"
proof (induction n)
  case 0
  show ?case by auto
next
  case (Suc n)
  show ?case
  proof (cases "p = base + n")
    case True
    then show ?thesis using Suc by (cases "base + n < length t") (simp_all add: list_update_beyond)
  next
    case False
    then show ?thesis using Suc by (auto simp: nth_list_update)
  qed
qed

lemma echo_fold_cong:
  "fold (\<lambda>i (rt, wt). if i * PAGE_SIZE < WRAM_SIZE then (rt[g i := h i], wt[g i := h i]) else (rt, wt)) [0..<30] rw
   = fold (\<lambda>i (rt, wt). (rt[g i := h i], wt[g i := h i])) [0..<30] rw"
  by (rule fold_cong) (auto simp: fun_eq_iff)

lemma page_tables_closed:
  "m_read_page_table (InitializePageTables m) =
      fold (\<lambda>i t. t[0xE0 + i := Some (R_WRAM, i * PAGE_SIZE)]) [0..<30]
        (fold (\<lambda>i t. t[0xC0 + i := Some (R_WRAM, i * PAGE_SIZE)]) [0..<32]
          (fold (\<lambda>i t. t[0x80 + i := Some (R_VRAM, i * PAGE_SIZE)]) [0..<32] (replicate PAGE_COUNT None)))"
  "m_write_page_table (InitializePageTables m) =
      fold (\<lambda>i t. t[0xE0 + i := Some (R_WRAM, i * PAGE_SIZE)]) [0..<30]
        (fold (\<lambda>i t. t[0xC0 + i := Some (R_WRAM, i * PAGE_SIZE)]) [0..<32]
          (fold (\<lambda>i t. t[0x80 + i := Some (R_VRAM, i * PAGE_SIZE)]) [0..<32] (replicate PAGE_COUNT None)))"
  unfolding InitializePageTables_def Let_def echo_fold_cong
  by (simp_all add: fold_pair_update del: fold_simps upt_Suc)

lemma page_table_entry:
  assumes "p < PAGE_COUNT"
  shows "m_read_page_table (InitializePageTables m) ! p = init_page_entry p"
    and "m_write_page_table (InitializePageTables m) ! p = init_page_entry p"
  using assms unfolding page_tables_closed fold_update_nth init_page_entry_def
  by auto


lemma wf_read_entry:
  "Memory_wf m \<Longrightarrow> p < PAGE_COUNT \<Longrightarrow> m_read_page_table m ! p = init_page_entry p"
  using page_table_entry(1) [of p m] by (simp add: Memory_wf_def)

lemma wf_write_entry:
  "Memory_wf m \<Longrightarrow> p < PAGE_COUNT \<Longrightarrow> m_write_page_table m ! p = init_page_entry p"
  using page_table_entry(2) [of p m] by (simp add: Memory_wf_def)

lemma unat_u16_page: "unat (a :: u16) div PAGE_SIZE < PAGE_COUNT"
proof -
  have "unat a < 2 ^ 16" using unsigned_less [of a, where 'a = nat] by simp
  then show ?thesis by simp
qed

lemma wram_roundtrip:
  assumes wf: "Memory_wf (memory b)" and lo: "0xC000 \<le> a" and hi: "a \<le> (0xDFFF :: u16)"
  shows "Memory_Read (Memory_Write a v b) a = Some v"
proof -
  let ?p = "unat a div PAGE_SIZE"
  have r: "0xC000 \<le> unat a" "unat a \<le> 0xDFFF"
    using lo hi by (simp_all add: word_le_nat_alt)
  then have p: "0xC0 \<le> ?p" "?p < 0xE0" by simp_all
  have e: "init_page_entry ?p = Some (R_WRAM, (?p - 0xC0) * PAGE_SIZE)"
    using p by (simp add: init_page_entry_def)
  have idx: "(?p - 0xC0) * PAGE_SIZE + unat a mod PAGE_SIZE < length (m_wram (memory b))"
    using p wf by (simp add: Memory_wf_def)
  show ?thesis
    using idx
    by (simp add: Memory_Read_def Memory_Write_def Let_def
        wf_read_entry [OF wf unat_u16_page] wf_write_entry [OF wf unat_u16_page] e)
qed


lemma vram_roundtrip:
  assumes wf: "Memory_wf (memory b)" and lo: "0x8000 \<le> a" and hi: "a \<le> (0x9FFF :: u16)"
  shows "Memory_Read (Memory_Write a v b) a = Some v"
proof -
  let ?p = "unat a div PAGE_SIZE"
  have r: "0x8000 \<le> unat a" "unat a \<le> 0x9FFF"
    using lo hi by (simp_all add: word_le_nat_alt)
  then have p: "0x80 \<le> ?p" "?p < 0xA0" by simp_all
  have e: "init_page_entry ?p = Some (R_VRAM, (?p - 0x80) * PAGE_SIZE)"
    using p by (simp add: init_page_entry_def)
  have idx: "(?p - 0x80) * PAGE_SIZE + unat a mod PAGE_SIZE < length (m_vram (memory b))"
    using p wf by (simp add: Memory_wf_def)
  show ?thesis
    using idx
    by (simp add: Memory_Read_def Memory_Write_def Let_def
        wf_read_entry [OF wf unat_u16_page] wf_write_entry [OF wf unat_u16_page] e)
qed

lemma slow_page:
  assumes wf: "Memory_wf m" and lo: "0xFE00 \<le> (a :: u16)"
  shows "m_read_page_table m ! (unat a div PAGE_SIZE) = None"
    and "m_write_page_table m ! (unat a div PAGE_SIZE) = None"
proof -
  have "0xFE00 \<le> unat a" using lo by (simp add: word_le_nat_alt)
  then have "0xFE \<le> unat a div PAGE_SIZE" by simp
  then have "init_page_entry (unat a div PAGE_SIZE) = None"
    by (simp add: init_page_entry_def)
  then show "m_read_page_table m ! (unat a div PAGE_SIZE) = None"
    and "m_write_page_table m ! (unat a div PAGE_SIZE) = None"
    using wf_read_entry [OF wf unat_u16_page, of a] wf_write_entry [OF wf unat_u16_page, of a]
    by simp_all
qed

lemma hram_roundtrip:
  assumes wf: "Memory_wf (memory b)" and lo: "0xFF80 \<le> a" and hi: "a \<le> (0xFFFE :: u16)"
  shows "Memory_Read (Memory_Write a v b) a = Some v"
proof -
  have lo': "0xFE00 \<le> a" using lo by (simp add: word_le_nat_alt)
  have r: "0xFF80 \<le> unat a" "unat a \<le> 0xFFFE"
    using lo hi by (simp_all add: word_le_nat_alt)
  have idx: "unat (a - 0xFF80) < length (m_hram (memory b))"
    using r wf lo by (simp add: Memory_wf_def unat_sub)
  have c: "\<not> a \<le> 0x7FFF" "\<not> a \<le> 0xBFFF" "\<not> a \<le> 0xFE9F" "\<not> a \<le> 0xFEFF" "\<not> a \<le> 0xFF7F"
    using r by (simp_all add: word_le_nat_alt)
  show ?thesis
    using idx c lo hi
    by (simp add: Memory_Read_def Memory_Write_def Let_def slow_page [OF wf lo'])
qed

lemma oam_roundtrip:
  assumes wf: "Memory_wf (memory b)" and lo: "0xFE00 \<le> a" and hi: "a \<le> (0xFE9F :: u16)"
  shows "Memory_Read (Memory_Write a v b) a = Some v"
proof -
  have r: "0xFE00 \<le> unat a" "unat a \<le> 0xFE9F"
    using lo hi by (simp_all add: word_le_nat_alt)
  have idx: "unat (a - 0xFE00) < length (m_oam (memory b))"
    using r wf lo by (simp add: Memory_wf_def unat_sub)
  have c: "\<not> a \<le> 0x7FFF" "\<not> a \<le> 0xBFFF"
    using r by (simp_all add: word_le_nat_alt)
  show ?thesis
    using idx c lo hi
    by (simp add: Memory_Read_def Memory_Write_def Let_def slow_page [OF wf lo])
qed

lemma InitializePageTables_fields [simp]:
  "m_wram (InitializePageTables m) = m_wram m"
  "m_vram (InitializePageTables m) = m_vram m"
  "m_oam (InitializePageTables m) = m_oam m"
  "m_hram (InitializePageTables m) = m_hram m"
  "m_io (InitializePageTables m) = m_io m"
  "m_ie_register (InitializePageTables m) = m_ie_register m"
  "m_mbc (InitializePageTables m) = m_mbc m"
  "m_io_read_handlers (InitializePageTables m) = m_io_read_handlers m"
  "m_io_write_handlers (InitializePageTables m) = m_io_write_handlers m"
  by (simp_all add: InitializePageTables_def Let_def split_beta)

lemma InitializePageTables_indep:
  "m_read_page_table (InitializePageTables m) = m_read_page_table (InitializePageTables m')"
  "m_write_page_table (InitializePageTables m) = m_write_page_table (InitializePageTables m')"
  by (simp_all add: page_tables_closed)

lemma Memory_wf_new: "Memory_wf Memory_new"
  unfolding Memory_wf_def Memory_new_def Memory_Reset_def
  by (simp add: InitializePageTables_indep [symmetric])

lemma Memory_wf_register:
  "Memory_wf m \<Longrightarrow> Memory_wf (RegisterIOHandler a h m)"
  unfolding Memory_wf_def RegisterIOHandler_def Let_def
  by (auto simp: page_tables_closed)

lemma Memory_wf_GameBoy: "Memory_wf (memory GameBoy_bus)"
  by (simp add: GameBoy_bus_def Timer_RegisterIOHandlers_def PPU_RegisterIOHandlers_def
      Memory_wf_register Memory_wf_new)

lemma GameBoy_LY_handler:
  "m_io_read_handlers (memory GameBoy_bus) ! 0x44 = Some IO_LY"
  "m_io_write_handlers (memory GameBoy_bus) ! 0x44 = Some IO_LY"
  by (simp_all add: GameBoy_bus_def Timer_RegisterIOHandlers_def PPU_RegisterIOHandlers_def
      RegisterIOHandler_def Memory_new_def Memory_Reset_def Let_def)

lemma fast_path_iff:
  assumes wf: "Memory_wf m"
  shows "fast_path m a \<longleftrightarrow> init_page_entry (unat a div PAGE_SIZE) \<noteq> None"
  by (simp add: fast_path_def wf_read_entry [OF wf unat_u16_page]
      wf_write_entry [OF wf unat_u16_page])

subsection \<open>A write to RAM is read back\<close>

text \<open>
  C4. In a well-formed memory, for every address \<open>a\<close> in WRAM (0xC000-0xDFFF), VRAM
  (0x8000-0x9FFF), HRAM (0xFF80-0xFFFE) or OAM (0xFE00-0xFE9F) and every byte \<open>v\<close>,
  \<open>Read\<close> after \<open>Write a v\<close> returns \<open>v\<close>. WRAM and VRAM are served by the paged fast path
  (the addresses up to 0xDFFF), HRAM and OAM by the slow path, and the result is the same.
\<close>

theorem ram_write_then_read:
  assumes wf: "Memory_wf (memory b)"
    and ram: "(0xC000 \<le> a \<and> a \<le> 0xDFFF) \<or> (0x8000 \<le> a \<and> a \<le> 0x9FFF) \<or>
              (0xFF80 \<le> a \<and> a \<le> 0xFFFE) \<or> (0xFE00 \<le> a \<and> a \<le> 0xFE9F)"
  shows "Memory_Read (Memory_Write a v b) a = Some v \<and>
         (fast_path (memory b) a \<longleftrightarrow> a \<le> 0xDFFF)"
proof -
  have rt: "Memory_Read (Memory_Write a v b) a = Some v"
    using ram wram_roundtrip [OF wf] vram_roundtrip [OF wf] hram_roundtrip [OF wf]
      oam_roundtrip [OF wf] by blast
  have "0x8000 \<le> unat a" and "unat a \<le> 0x9FFF \<or> 0xC000 \<le> unat a"
    and "unat a < 0x10000"
    using ram unsigned_less [of a, where 'a = nat] by (auto simp: word_le_nat_alt)
  then have "init_page_entry (unat a div PAGE_SIZE) \<noteq> None \<longleftrightarrow> unat a \<le> 0xDFFF"
    using ram by (auto simp: init_page_entry_def word_le_nat_alt)
  then have "fast_path (memory b) a \<longleftrightarrow> a \<le> 0xDFFF"
    by (simp add: fast_path_iff [OF wf] word_le_nat_alt)
  with rt show ?thesis by simp
qed

theorem ram_write_then_read_witness:
  "Memory_Read (Memory_Write 0xC123 0x42 GameBoy_bus) 0xC123 = Some 0x42 \<and>
   Memory_Read (Memory_Write 0x8000 0x42 GameBoy_bus) 0x8000 = Some 0x42 \<and>
   Memory_Read (Memory_Write 0xFF80 0x42 GameBoy_bus) 0xFF80 = Some 0x42 \<and>
   Memory_Read (Memory_Write 0xFE9F 0x42 GameBoy_bus) 0xFE9F = Some 0x42 \<and>
   fast_path (memory GameBoy_bus) 0xC123 \<and> \<not> fast_path (memory GameBoy_bus) 0xFF80"
  using ram_write_then_read [OF Memory_wf_GameBoy, of "0xC123" "0x42"]
    ram_write_then_read [OF Memory_wf_GameBoy, of "0x8000" "0x42"]
    ram_write_then_read [OF Memory_wf_GameBoy, of "0xFF80" "0x42"]
    ram_write_then_read [OF Memory_wf_GameBoy, of "0xFE9F" "0x42"]
  by simp

subsection \<open>The LY register is read-only\<close>

text \<open>
  C10. With the picture unit's handlers registered at 0xFF44, a write of any value to
  0xFF44 through the bus leaves the bus, the picture unit and the timer as they were (the
  processor and the scheduler are out of a write's reach), and a read of 0xFF44 after it
  returns the picture unit's line counter.
\<close>

theorem LY_write_discarded:
  assumes wf: "Memory_wf (memory b)"
    and rh: "m_io_read_handlers (memory b) ! 0x44 = Some IO_LY"
    and wh: "m_io_write_handlers (memory b) ! 0x44 = Some IO_LY"
  shows "Memory_Write 0xFF44 v b = b \<and>
         Memory_Read (Memory_Write 0xFF44 v b) 0xFF44 = Some (m_scanline (ppu b))"
proof -
  have w: "Memory_Write 0xFF44 v b = b"
    using slow_page(2) [OF wf, of "0xFF44"] wh
    by (simp add: Memory_Write_def Let_def WriteIO_def)
  have r: "Memory_Read b 0xFF44 = Some (m_scanline (ppu b))"
    using slow_page(1) [OF wf, of "0xFF44"] rh
    by (simp add: Memory_Read_def Let_def ReadIO_def)
  show ?thesis using w r by simp
qed

theorem LY_write_discarded_witness:
  "Memory_Write 0xFF44 0x99 GameBoy_bus = GameBoy_bus \<and>
   Memory_Read (Memory_Write 0xFF44 0x99 GameBoy_bus) 0xFF44 = Some (m_scanline (ppu GameBoy_bus))"
  by (rule LY_write_discarded [OF Memory_wf_GameBoy GameBoy_LY_handler])

section \<open>Cartridge controllers\<close>

lemma header_only_rom_length: "length (header_only_rom t) = 0x150"
  by (simp add: header_only_rom_def)

lemma header_only_rom_type: "header_only_rom t ! 0x0147 = t"
  by (simp add: header_only_rom_def)

text \<open>
  C8 (fails on the code). A ROM of 0x150 bytes with a recognised cartridge type is accepted
  by \<^verbatim>\<open>LoadROM\<close>. With the MBC1, MBC3 and MBC5 controllers a read at 0x0150, in the bank-0
  window, then indexes the ROM vector past its end: the model's \<open>None\<close>. The same read
  with MBC0, which checks the bound, gives 0xFF.
\<close>

theorem bank0_read_past_rom_end:
  "fst (Memory_LoadROM (header_only_rom 0x01) (memory GameBoy_bus)) \<and>
   Memory_Read (GameBoy_bus\<lparr> memory := snd (Memory_LoadROM (header_only_rom 0x01) (memory GameBoy_bus)) \<rparr>)
     0x0150 = None \<and>
   MBC_Create 0x01 (header_only_rom 0x01) = Some (MBC1 (MBC1_new (header_only_rom 0x01))) \<and>
   MBC_Read (MBC1 (MBC1_new (header_only_rom 0x01))) 0x0150 = None \<and>
   MBC_Create 0x11 (header_only_rom 0x11) = Some (MBC3 (MBC3_new (header_only_rom 0x11) False)) \<and>
   MBC_Read (MBC3 (MBC3_new (header_only_rom 0x11) False)) 0x0150 = None \<and>
   MBC_Create 0x19 (header_only_rom 0x19) = Some (MBC5 (MBC5_new (header_only_rom 0x19))) \<and>
   MBC_Read (MBC5 (MBC5_new (header_only_rom 0x19))) 0x0150 = None \<and>
   MBC_Create 0x00 (header_only_rom 0x00) = Some (MBC0 (MBC0_new (header_only_rom 0x00))) \<and>
   MBC_Read (MBC0 (MBC0_new (header_only_rom 0x00))) 0x0150 = Some 0xFF"
proof -
  have load: "Memory_LoadROM (header_only_rom 0x01) (memory GameBoy_bus) =
      (True, (memory GameBoy_bus)\<lparr> m_mbc := Some (MBC1 (MBC1_new (header_only_rom 0x01))) \<rparr>)"
    by (simp add: Memory_LoadROM_def header_only_rom_length header_only_rom_type
        MBC_Create_def Let_def)
  have wf: "Memory_wf ((memory GameBoy_bus)\<lparr> m_mbc := Some (MBC1 (MBC1_new (header_only_rom 0x01))) \<rparr>)"
    using Memory_wf_GameBoy by (simp add: Memory_wf_def page_tables_closed)
  have page: "m_read_page_table ((memory GameBoy_bus)\<lparr> m_mbc := Some (MBC1 (MBC1_new (header_only_rom 0x01))) \<rparr>)
                ! (unat (0x0150 :: u16) div PAGE_SIZE) = None"
    using wf_read_entry [OF wf unat_u16_page, of "0x0150"] by (simp add: init_page_entry_def)
  have mbc1: "MBC_Read (MBC1 (MBC1_new (header_only_rom 0x01))) 0x0150 = None"
    by (simp add: MBC1_Read_def MBC1_new_def vec_at_def header_only_rom_length)
  have bus: "Memory_Read (GameBoy_bus\<lparr> memory := (memory GameBoy_bus)
               \<lparr> m_mbc := Some (MBC1 (MBC1_new (header_only_rom 0x01))) \<rparr> \<rparr>) 0x0150 = None"
    using page mbc1 by (simp add: Memory_Read_def Let_def)
  have mbc3: "MBC_Read (MBC3 (MBC3_new (header_only_rom 0x11) False)) 0x0150 = None"
    by (simp add: MBC3_Read_def MBC3_new_def vec_at_def header_only_rom_length)
  have mbc5: "MBC_Read (MBC5 (MBC5_new (header_only_rom 0x19))) 0x0150 = None"
    by (simp add: MBC5_Read_def MBC5_new_def vec_at_def header_only_rom_length)
  have mbc0: "MBC_Read (MBC0 (MBC0_new (header_only_rom 0x00))) 0x0150 = Some 0xFF"
    by (simp add: MBC0_Read_def MBC0_new_def vec_at_def header_only_rom_length)
  show ?thesis
    using bus mbc1 mbc3 mbc5 mbc0 by (simp add: load MBC_Create_def)
qed

section \<open>Timer\<close>

lemma and3_cases: "(x :: u8) AND 3 = 0 \<or> x AND 3 = 1 \<or> x AND 3 = 2 \<or> x AND 3 = 3"
proof -
  have "x AND 3 \<le> 3" by (rule word_and_le1)
  then have "unat (x AND 3) \<le> 3" by (simp add: word_le_nat_alt)
  then have "unat (x AND 3) = 0 \<or> unat (x AND 3) = 1 \<or> unat (x AND 3) = 2 \<or> unat (x AND 3) = 3"
    by arith
  then show ?thesis
    by (auto simp: word_unat_eq_iff)
qed

lemma GetTimerFrequency_period:
  "GetTimerFrequency t = timer_period (m_tac t)"
  using and3_cases [of "m_tac t"]
  by (auto simp: GetTimerFrequency_def timer_period_def Let_def)

lemma body_eq: "UpdateTIMA_body f b = tima_increment (set_counter (m_timer_counter (timer b) - f) b)"
  by (simp add: UpdateTIMA_body_def tima_increment_def set_counter_def Let_def)

lemma inc_set_counter: "tima_increment (set_counter x b) = set_counter x (tima_increment b)"
  by (simp add: tima_increment_def set_counter_def)

lemma funpow_inc_set_counter:
  "(tima_increment ^^ n) (set_counter x b) = set_counter x ((tima_increment ^^ n) b)"
  by (induction n arbitrary: b) (simp_all add: inc_set_counter funpow_swap1)

lemma set_counter_twice [simp]: "set_counter x (set_counter y b) = set_counter x b"
  by (simp add: set_counter_def)

lemma set_counter_same [simp]: "set_counter (m_timer_counter (timer b)) b = b"
  by (simp add: set_counter_def)

lemma UpdateTIMA_loop_closed:
  "UpdateTIMA_loop b =
     set_counter (m_timer_counter (timer b) mod GetTimerFrequency (timer b))
       ((tima_increment ^^ (unat (m_timer_counter (timer b)) div unat (GetTimerFrequency (timer b)))) b)"
proof (induction b rule: UpdateTIMA_loop.induct)
  case (1 b)
  let ?c = "m_timer_counter (timer b)"
  let ?P = "GetTimerFrequency (timer b)"
  have Ppos: "0 < unat ?P" by (rule GetTimerFrequency_pos)
  show ?case
  proof (cases "?P \<le> ?c")
    case False
    then have lt: "unat ?c < unat ?P" by (simp add: word_le_nat_alt)
    then have "?c mod ?P = ?c"
      by (simp add: word_unat_eq_iff unat_mod)
    then show ?thesis
      using False lt by (subst UpdateTIMA_loop.simps) (simp add: Let_def)
  next
    case True
    then have le: "unat ?P \<le> unat ?c" by (simp add: word_le_nat_alt)
    have sub: "unat (?c - ?P) = unat ?c - unat ?P" using True by (simp add: unat_sub)
    have d: "unat ?c div unat ?P = Suc (unat (?c - ?P) div unat ?P)"
      using le Ppos by (simp add: sub le_div_geq)
    have m: "(?c - ?P) mod ?P = ?c mod ?P"
      using le Ppos by (simp add: word_unat_eq_iff unat_mod sub le_mod_geq)
    have "UpdateTIMA_loop b = UpdateTIMA_loop (UpdateTIMA_body ?P b)"
      using True by (subst UpdateTIMA_loop.simps) (simp add: Let_def)
    also have "\<dots> = set_counter ((?c - ?P) mod ?P)
        ((tima_increment ^^ (unat (?c - ?P) div unat ?P)) (UpdateTIMA_body ?P b))"
      using "1.IH" [OF refl True] by simp
    also have "\<dots> = set_counter (?c mod ?P) ((tima_increment ^^ (unat ?c div unat ?P)) b)"
      by (simp add: body_eq m d inc_set_counter funpow_inc_set_counter funpow_swap1)
    finally show ?thesis .
  qed
qed

lemma Timer_Step_refines:
  assumes en: "IsTimerEnabled (timer b)"
  shows "Timer_Step cycles b = Timer_Step_spec cycles b"
proof -
  let ?t1 = "UpdateDIV cycles (timer b)"
  let ?b2 = "b\<lparr> timer := ?t1\<lparr> m_timer_counter := m_timer_counter ?t1 + cycles \<rparr> \<rparr>"
  let ?r = "m_timer_counter (timer b) + cycles"
  let ?P = "timer_period (m_tac (timer b))"
  have en1: "IsTimerEnabled ?t1"
    using en by (simp add: IsTimerEnabled_def UpdateDIV_def)
  have step: "Timer_Step cycles b = UpdateTIMA_loop ?b2"
    using en1 by (simp add: Timer_Step_def UpdateTIMA_def Let_def)
  have c2: "m_timer_counter (timer ?b2) = ?r" by (simp add: UpdateDIV_def)
  have P2: "GetTimerFrequency (timer ?b2) = ?P"
    by (simp add: GetTimerFrequency_period UpdateDIV_def)
  have "UpdateTIMA_loop ?b2 = set_counter (?r mod ?P) ((tima_increment ^^ (unat ?r div unat ?P)) ?b2)"
    by (subst UpdateTIMA_loop_closed) (simp only: c2 P2)
  also have "\<dots> = (tima_increment ^^ (unat ?r div unat ?P)) (set_counter (?r mod ?P) ?b2)"
    by (simp only: funpow_inc_set_counter)
  also have "set_counter (?r mod ?P) ?b2 =
      b\<lparr> timer := (timer b)\<lparr> m_div_counter := m_div_counter (timer b) + ucast cycles,
                             m_timer_counter := ?r mod ?P \<rparr> \<rparr>"
    by (simp add: set_counter_def UpdateDIV_def)
  finally show ?thesis
    by (simp add: step Timer_Step_spec_def Let_def)
qed

lemma timer_overflow_step:
  assumes en: "IsTimerEnabled (timer b)"
    and s: "m_tma (timer b) = 0xAB" "m_tima (timer b) = 0xFF" "m_tac (timer b) = 0x05"
      "m_timer_counter (timer b) < 16" "length (m_io (memory b)) = IO_SIZE"
  shows "m_tima (timer (Timer_Step 16 b)) = 0xAB \<and>
         m_io (memory (Timer_Step 16 b)) ! 0x0F AND 0x04 = 0x04"
proof -
  have P: "timer_period 5 = 16" by (simp add: timer_period_def)
  have c: "unat (m_timer_counter (timer b)) < 16" using s(4) by (simp add: word_less_nat_alt)
  then have "unat (m_timer_counter (timer b) + 16) = unat (m_timer_counter (timer b)) + 16"
    by (simp add: unat_word_ariths)
  then have n: "unat (m_timer_counter (timer b) + 16) div 16 = 1" using c by simp
  show ?thesis
    using s by (simp add: Timer_Step_refines [OF en] Timer_Step_spec_def Let_def P n
        tima_increment_def Memory_RequestInterrupt_def)
qed

text \<open>
  C5 (as amended). With the timer enabled (TAC bit 2 set) and period \<open>P = {1024, 16, 64, 256}[TAC & 3]\<close>,
  a step adds the cycles to the residual counter and, while the residual is at least \<open>P\<close>,
  subtracts \<open>P\<close> and increments TIMA, a TIMA that wraps to 0 being set to TMA with IF bit 2
  set: the step is \<open>Timer_Step_spec\<close>. In particular, with TMA = 0xAB, TIMA = 0xFF,
  TAC = 0x05 and a residual below the period (it is 0 after a write to TIMA), a step of 16
  cycles leaves TIMA = 0xAB and IF bit 2 set.
\<close>

theorem Timer_Step_enabled:
  assumes en: "IsTimerEnabled (timer b)"
  shows "Timer_Step cycles b = Timer_Step_spec cycles b \<and>
         (m_tma (timer b) = 0xAB \<and> m_tima (timer b) = 0xFF \<and> m_tac (timer b) = 0x05 \<and>
          m_timer_counter (timer b) < 16 \<and> length (m_io (memory b)) = IO_SIZE \<longrightarrow>
          m_tima (timer (Timer_Step 16 b)) = 0xAB \<and>
          m_io (memory (Timer_Step 16 b)) ! 0x0F AND 0x04 = 0x04)"
  using Timer_Step_refines [OF en] timer_overflow_step [OF en] by blast

lemma timer_overflow_bus_state:
  "timer timer_overflow_bus =
     \<lparr> m_div_counter = 0, m_tima = 0xFF, m_tma = 0xAB, m_tac = 0x05, m_timer_counter = 0 \<rparr>"
  "length (m_io (memory timer_overflow_bus)) = IO_SIZE"
proof -
  have p: "m_write_page_table (memory GameBoy_bus) ! (unat (a :: u16) div PAGE_SIZE) = None"
    if "0xFE00 \<le> a" for a
    using slow_page(2) [OF Memory_wf_GameBoy that] .
  have h: "m_io_write_handlers (memory GameBoy_bus) ! 0x05 = Some IO_TIMA"
    "m_io_write_handlers (memory GameBoy_bus) ! 0x06 = Some IO_TMA"
    "m_io_write_handlers (memory GameBoy_bus) ! 0x07 = Some IO_TAC"
    by (simp_all add: GameBoy_bus_def Timer_RegisterIOHandlers_def PPU_RegisterIOHandlers_def
        RegisterIOHandler_def Memory_new_def Memory_Reset_def Let_def)
  have t: "timer GameBoy_bus = Timer_new" by (simp add: GameBoy_bus_def)
  have w1: "Memory_Write 0xFF06 0xAB GameBoy_bus =
      GameBoy_bus\<lparr> timer := Timer_new\<lparr> m_tma := 0xAB \<rparr> \<rparr>"
    using p [of "0xFF06"] h by (simp add: Memory_Write_def Let_def WriteIO_def t)
  have w2: "Memory_Write 0xFF05 0xFF (GameBoy_bus\<lparr> timer := Timer_new\<lparr> m_tma := 0xAB \<rparr> \<rparr>) =
      GameBoy_bus\<lparr> timer := Timer_new\<lparr> m_tma := 0xAB, m_tima := 0xFF, m_timer_counter := 0 \<rparr> \<rparr>"
    using p [of "0xFF05"] h by (simp add: Memory_Write_def Let_def WriteIO_def)
  have w3: "Memory_Write 0xFF07 0x05
      (GameBoy_bus\<lparr> timer := Timer_new\<lparr> m_tma := 0xAB, m_tima := 0xFF, m_timer_counter := 0 \<rparr> \<rparr>) =
      GameBoy_bus\<lparr> timer := Timer_new\<lparr> m_tma := 0xAB, m_tima := 0xFF, m_timer_counter := 0,
                                        m_tac := 0x05 \<rparr> \<rparr>"
    using p [of "0xFF07"] h
    by (simp add: Memory_Write_def Let_def WriteIO_def IsTimerEnabled_def Timer_new_def Timer_Reset_def)
  show "timer timer_overflow_bus =
     \<lparr> m_div_counter = 0, m_tima = 0xFF, m_tma = 0xAB, m_tac = 0x05, m_timer_counter = 0 \<rparr>"
    unfolding timer_overflow_bus_def w1 w2 w3 by (simp add: Timer_new_def Timer_Reset_def)
  show "length (m_io (memory timer_overflow_bus)) = IO_SIZE"
    unfolding timer_overflow_bus_def w1 w2 w3 using Memory_wf_GameBoy by (simp add: Memory_wf_def)
qed

theorem Timer_Step_enabled_witness:
  "IsTimerEnabled (timer timer_overflow_bus) \<and>
   Timer_Step 16 timer_overflow_bus = Timer_Step_spec 16 timer_overflow_bus \<and>
   m_tima (timer (Timer_Step 16 timer_overflow_bus)) = 0xAB \<and>
   m_io (memory (Timer_Step 16 timer_overflow_bus)) ! 0x0F AND 0x04 = 0x04"
proof -
  have en: "IsTimerEnabled (timer timer_overflow_bus)"
    by (simp add: timer_overflow_bus_state IsTimerEnabled_def)
  have pre: "m_tma (timer timer_overflow_bus) = 0xAB \<and> m_tima (timer timer_overflow_bus) = 0xFF \<and>
      m_tac (timer timer_overflow_bus) = 0x05 \<and> m_timer_counter (timer timer_overflow_bus) < 16 \<and>
      length (m_io (memory timer_overflow_bus)) = IO_SIZE"
    by (simp add: timer_overflow_bus_state)
  show ?thesis
    using en Timer_Step_enabled [OF en, of 16] pre by blast
qed

lemma timer_register_writes:
  "Memory_Write 0xFF05 v (GameBoy_bus\<lparr> timer := t \<rparr>) =
     GameBoy_bus\<lparr> timer := t\<lparr> m_tima := v, m_timer_counter := 0 \<rparr> \<rparr>"
  "Memory_Write 0xFF06 v (GameBoy_bus\<lparr> timer := t \<rparr>) = GameBoy_bus\<lparr> timer := t\<lparr> m_tma := v \<rparr> \<rparr>"
  "Memory_Write 0xFF07 v (GameBoy_bus\<lparr> timer := t \<rparr>) =
     GameBoy_bus\<lparr> timer :=
       (if IsTimerEnabled t \<noteq> IsTimerEnabled (t\<lparr> m_tac := v AND 0x07 \<rparr>)
        then t\<lparr> m_tac := v AND 0x07, m_timer_counter := 0 \<rparr> else t\<lparr> m_tac := v AND 0x07 \<rparr>) \<rparr>"
proof -
  have p: "m_write_page_table (memory GameBoy_bus) ! (unat (a :: u16) div PAGE_SIZE) = None"
    if "0xFE00 \<le> a" for a
    using slow_page(2) [OF Memory_wf_GameBoy that] .
  have h: "m_io_write_handlers (memory GameBoy_bus) ! 0x05 = Some IO_TIMA"
    "m_io_write_handlers (memory GameBoy_bus) ! 0x06 = Some IO_TMA"
    "m_io_write_handlers (memory GameBoy_bus) ! 0x07 = Some IO_TAC"
    by (simp_all add: GameBoy_bus_def Timer_RegisterIOHandlers_def PPU_RegisterIOHandlers_def
        RegisterIOHandler_def Memory_new_def Memory_Reset_def Let_def)
  show "Memory_Write 0xFF05 v (GameBoy_bus\<lparr> timer := t \<rparr>) =
     GameBoy_bus\<lparr> timer := t\<lparr> m_tima := v, m_timer_counter := 0 \<rparr> \<rparr>"
    using p [of "0xFF05"] h by (simp add: Memory_Write_def Let_def WriteIO_def)
  show "Memory_Write 0xFF06 v (GameBoy_bus\<lparr> timer := t \<rparr>) = GameBoy_bus\<lparr> timer := t\<lparr> m_tma := v \<rparr> \<rparr>"
    using p [of "0xFF06"] h by (simp add: Memory_Write_def Let_def WriteIO_def)
  show "Memory_Write 0xFF07 v (GameBoy_bus\<lparr> timer := t \<rparr>) =
     GameBoy_bus\<lparr> timer :=
       (if IsTimerEnabled t \<noteq> IsTimerEnabled (t\<lparr> m_tac := v AND 0x07 \<rparr>)
        then t\<lparr> m_tac := v AND 0x07, m_timer_counter := 0 \<rparr> else t\<lparr> m_tac := v AND 0x07 \<rparr>) \<rparr>"
    using p [of "0xFF07"] h by (simp add: Memory_Write_def Let_def WriteIO_def)
qed

lemma timer_residual_bus_state:
  "timer_residual_bus = GameBoy_bus\<lparr> timer :=
     \<lparr> m_div_counter = 16, m_tima = 0xFF, m_tma = 0xAB, m_tac = 0x05, m_timer_counter = 16 \<rparr> \<rparr>"
proof -
  let ?t0 = "\<lparr> m_div_counter = 0, m_tima = 0, m_tma = 0, m_tac = 0, m_timer_counter = 0 \<rparr>"
  let ?t2 = "\<lparr> m_div_counter = 0, m_tima = 0xFF, m_tma = 0, m_tac = 0x04, m_timer_counter = 0 \<rparr>"
  let ?t3 = "\<lparr> m_div_counter = 16, m_tima = 0xFF, m_tma = 0, m_tac = 0x04, m_timer_counter = 16 \<rparr>"
  have g: "GameBoy_bus = GameBoy_bus\<lparr> timer := ?t0 \<rparr>"
    by (simp add: GameBoy_bus_def Timer_new_def Timer_Reset_def)
  have w12: "Memory_Write 0xFF07 0x04 (Memory_Write 0xFF05 0xFF GameBoy_bus) =
      GameBoy_bus\<lparr> timer := ?t2 \<rparr>"
    by (subst g) (simp add: timer_register_writes IsTimerEnabled_def)
  have en: "IsTimerEnabled (timer (GameBoy_bus\<lparr> timer := ?t2 \<rparr>))"
    by (simp add: IsTimerEnabled_def)
  have s: "Timer_Step 16 (GameBoy_bus\<lparr> timer := ?t2 \<rparr>) = GameBoy_bus\<lparr> timer := ?t3 \<rparr>"
    unfolding Timer_Step_refines [OF en]
    by (simp add: Timer_Step_spec_def timer_period_def Let_def)
  show ?thesis
    unfolding timer_residual_bus_def w12 s
    by (simp add: timer_register_writes IsTimerEnabled_def)
qed

text \<open>
  C5 as stated fails: with TMA = 0xAB, TIMA = 0xFF, TAC = 0x05 and a residual of 16 in the
  counter, a state the registers reach through the bus, a step of 16 cycles makes two
  increments and leaves TIMA = 0xAC, not 0xAB.
\<close>

theorem Timer_Step_residual_counterexample:
  "IsTimerEnabled (timer timer_residual_bus) \<and>
   m_tma (timer timer_residual_bus) = 0xAB \<and> m_tima (timer timer_residual_bus) = 0xFF \<and>
   m_tac (timer timer_residual_bus) = 0x05 \<and> m_timer_counter (timer timer_residual_bus) = 16 \<and>
   m_tima (timer (Timer_Step 16 timer_residual_bus)) = 0xAC"
proof -
  have en: "IsTimerEnabled (timer timer_residual_bus)"
    by (simp add: timer_residual_bus_state IsTimerEnabled_def)
  have two: "(tima_increment ^^ 2) x = tima_increment (tima_increment x)" for x
    by (simp add: numeral_2_eq_2)
  have spec: "Timer_Step_spec 16 timer_residual_bus =
      tima_increment (tima_increment (GameBoy_bus\<lparr> timer :=
        \<lparr> m_div_counter = 32, m_tima = 0xFF, m_tma = 0xAB, m_tac = 0x05, m_timer_counter = 0 \<rparr> \<rparr>))"
    by (simp add: timer_residual_bus_state Timer_Step_spec_def timer_period_def Let_def two)
  have "m_tima (timer (Timer_Step 16 timer_residual_bus)) = 0xAC"
    unfolding Timer_Step_refines [OF en] spec
    by (simp add: tima_increment_def)
  then show ?thesis
    using en by (simp add: timer_residual_bus_state)
qed

section \<open>Picture unit\<close>

lemma GameBoy_handlers:
  "m_io_read_handlers (memory GameBoy_bus) ! 0x0F = None"
  "m_io_write_handlers (memory GameBoy_bus) ! 0x0F = None"
  "m_io_read_handlers (memory GameBoy_bus) ! 0x40 = Some IO_LCDC"
  "m_io_write_handlers (memory GameBoy_bus) ! 0x40 = Some IO_LCDC"
  "m_io_read_handlers (memory GameBoy_bus) ! 0x41 = Some IO_STAT"
  "m_io_write_handlers (memory GameBoy_bus) ! 0x41 = Some IO_STAT"
  by (simp_all add: GameBoy_bus_def Timer_RegisterIOHandlers_def PPU_RegisterIOHandlers_def
      RegisterIOHandler_def Memory_new_def Memory_Reset_def Let_def)

lemma Bus_wf_GameBoy: "Bus_wf GameBoy_bus"
  by (simp add: Bus_wf_def Memory_wf_GameBoy)

lemma Bus_wf_ppu [simp]: "Bus_wf (b\<lparr> ppu := p \<rparr>) = Bus_wf b"
  by (simp add: Bus_wf_def)

lemma Bus_wf_timer [simp]: "Bus_wf (b\<lparr> timer := t \<rparr>) = Bus_wf b"
  by (simp add: Bus_wf_def)

lemma Bus_wf_io:
  "Bus_wf b \<Longrightarrow> length io = IO_SIZE \<Longrightarrow> Bus_wf (b\<lparr> memory := (memory b)\<lparr> m_io := io \<rparr> \<rparr>)"
  using Memory_wf_GameBoy unfolding Bus_wf_def Memory_wf_def by (simp add: page_tables_closed)

lemma Bus_wf_io_length: "Bus_wf b \<Longrightarrow> length (m_io (memory b)) = IO_SIZE"
  by (simp add: Bus_wf_def Memory_wf_def)

lemma io_page:
  assumes "Bus_wf b" and "0xFE00 \<le> (a :: u16)"
  shows "m_read_page_table (memory b) ! (unat a div PAGE_SIZE) = None"
    and "m_write_page_table (memory b) ! (unat a div PAGE_SIZE) = None"
  using assms slow_page [of "memory b" a] by (simp_all add: Bus_wf_def)

lemma Read_IF:
  assumes wf: "Bus_wf b"
  shows "Memory_Read b 0xFF0F = Some (m_io (memory b) ! 0x0F)"
  using io_page(1) [OF wf, of "0xFF0F"] wf GameBoy_handlers
  by (simp add: Memory_Read_def Let_def ReadIO_def Bus_wf_def)

lemma Read_IE:
  assumes wf: "Bus_wf b"
  shows "Memory_Read b 0xFFFF = Some (m_ie_register (memory b))"
  using io_page(1) [OF wf, of "0xFFFF"]
  by (simp add: Memory_Read_def Let_def)

lemma Write_IF:
  assumes wf: "Bus_wf b"
  shows "Memory_Write 0xFF0F v b = b\<lparr> memory := (memory b)\<lparr> m_io := (m_io (memory b))[0x0F := v] \<rparr> \<rparr>"
  using io_page(2) [OF wf, of "0xFF0F"] wf GameBoy_handlers
  by (simp add: Memory_Write_def Let_def WriteIO_def Bus_wf_def)

lemma Write_LY:
  assumes wf: "Bus_wf b"
  shows "Memory_Write 0xFF44 v b = b"
  using io_page(2) [OF wf, of "0xFF44"] wf GameBoy_LY_handler
  by (simp add: Memory_Write_def Let_def WriteIO_def Bus_wf_def)

lemma Read_LY:
  assumes wf: "Bus_wf b"
  shows "Memory_Read b 0xFF44 = Some (m_scanline (ppu b))"
  using io_page(1) [OF wf, of "0xFF44"] wf GameBoy_LY_handler
  by (simp add: Memory_Read_def Let_def ReadIO_def Bus_wf_def)

lemma Write_STAT:
  assumes wf: "Bus_wf b"
  shows "Memory_Write 0xFF41 v b =
         b\<lparr> ppu := (ppu b)\<lparr> m_stat := (v AND 0xF8) OR (m_stat (ppu b) AND 0x07) \<rparr> \<rparr>"
  using io_page(2) [OF wf, of "0xFF41"] wf GameBoy_handlers
  by (simp add: Memory_Write_def Let_def WriteIO_def Bus_wf_def)

lemma Read_STAT:
  assumes wf: "Bus_wf b"
  shows "Memory_Read b 0xFF41 = Some (m_stat (ppu b))"
  using io_page(1) [OF wf, of "0xFF41"] wf GameBoy_handlers
  by (simp add: Memory_Read_def Let_def ReadIO_def Bus_wf_def)

lemma Write_LCDC:
  assumes wf: "Bus_wf b"
  shows "Memory_Write 0xFF40 v b = b\<lparr> ppu := (ppu b)\<lparr> m_lcdc := v \<rparr> \<rparr>"
  using io_page(2) [OF wf, of "0xFF40"] wf GameBoy_handlers
  by (simp add: Memory_Write_def Let_def WriteIO_def Bus_wf_def)

lemma raise_IF_wf:
  assumes wf: "Bus_wf b"
  shows "raise_IF bits b =
     Some (b\<lparr> memory := (memory b)\<lparr> m_io := (m_io (memory b))[0x0F := m_io (memory b) ! 0x0F OR bits] \<rparr> \<rparr>)"
  by (simp add: raise_IF_def Read_IF [OF wf] Write_IF [OF wf])

lemma Bus_wf_raise [simp]:
  "Bus_wf b \<Longrightarrow> Bus_wf (b\<lparr> memory := (memory b)\<lparr> m_io := (m_io (memory b))[i := x] \<rparr> \<rparr>)"
  by (rule Bus_wf_io) (simp_all add: Bus_wf_io_length)

lemma Bus_wf_raise_ppu [simp]:
  "Bus_wf b \<Longrightarrow> Bus_wf (b\<lparr> ppu := p, memory := (memory b)\<lparr> m_io := (m_io (memory b))[i := x] \<rparr> \<rparr>)"
  using Bus_wf_raise [of "b\<lparr> ppu := p \<rparr>" i x] by simp

lemma SetMode_wf:
  assumes wf: "Bus_wf b"
  shows "\<exists>b'. SetMode mode b = Some b' \<and> Bus_wf b' \<and> m_mode (ppu b') = mode \<and>
          m_scanline (ppu b') = m_scanline (ppu b) \<and>
          m_cycle_counter (ppu b') = m_cycle_counter (ppu b) \<and>
          m_lcdc (ppu b') = m_lcdc (ppu b) \<and> m_frame_ready (ppu b') = m_frame_ready (ppu b)"
  using wf by (cases mode) (simp_all add: SetMode_def Let_def Write_STAT raise_IF_wf)

lemma UpdateStatRegister_wf:
  assumes wf: "Bus_wf b"
  shows "\<exists>b'. UpdateStatRegister b = Some b' \<and> Bus_wf b' \<and> m_mode (ppu b') = m_mode (ppu b) \<and>
          m_scanline (ppu b') = m_scanline (ppu b) \<and>
          m_cycle_counter (ppu b') = m_cycle_counter (ppu b) \<and>
          m_lcdc (ppu b') = m_lcdc (ppu b) \<and> m_frame_ready (ppu b') = m_frame_ready (ppu b)"
  using wf by (simp add: UpdateStatRegister_def Let_def Write_STAT raise_IF_wf)

lemma ppu_ctrl_eq_refl [simp]: "ppu_ctrl_eq p p"
  by (simp add: ppu_ctrl_eq_def)

lemma ppu_ctrl_eq_trans: "ppu_ctrl_eq p q \<Longrightarrow> ppu_ctrl_eq q r \<Longrightarrow> ppu_ctrl_eq p r"
  by (simp add: ppu_ctrl_eq_def)

lemma fold_ctrl_eq:
  assumes "\<And>x q. ppu_ctrl_eq q (f x q)"
  shows "ppu_ctrl_eq p (fold f xs p)"
proof (induction xs arbitrary: p)
  case Nil
  show ?case by simp
next
  case (Cons x xs)
  show ?case using assms [of p x] Cons [of "f x p"] by (simp add: ppu_ctrl_eq_trans)
qed

lemma ScanOAM_loop_ctrl: "ppu_ctrl_eq p (ScanOAM_loop oam h i p)"
proof (induction oam h i p rule: ScanOAM_loop.induct)
  case (1 oam h i p)
  show ?case
  proof (cases "i < 40 \<and> m_sprite_count p < 10")
    case False
    then show ?thesis by (subst ScanOAM_loop.simps) auto
  next
    case True
    let ?sprite = "\<lparr> spr_y = oam ! (i * 4 + 0), spr_x = oam ! (i * 4 + 1),
                     spr_tile = oam ! (i * 4 + 2), spr_flags = oam ! (i * 4 + 3) \<rparr>"
    let ?p' = "(if int (unat (m_scanline p)) \<ge> int (unat (spr_y ?sprite)) - 16 \<and>
                   int (unat (m_scanline p)) < int (unat (spr_y ?sprite)) - 16 + int h
               then p\<lparr> m_sprite_buffer := (m_sprite_buffer p)[unat (m_sprite_count p) := ?sprite],
                       m_sprite_count := m_sprite_count p + 1 \<rparr>
               else p)"
    have step: "ScanOAM_loop oam h i p = ScanOAM_loop oam h (i + 1) ?p'"
      using True by (subst ScanOAM_loop.simps) (simp add: Let_def)
    have a: "ppu_ctrl_eq p ?p'" by (simp add: ppu_ctrl_eq_def)
    have b: "ppu_ctrl_eq ?p' (ScanOAM_loop oam h (i + 1) ?p')"
      using "1.IH" [OF True refl refl refl refl] by (simp add: Let_def)
    show ?thesis unfolding step using a b by (rule ppu_ctrl_eq_trans)
  qed
qed

lemma ScanOAM_frame:
  "\<exists>p. ScanOAM b = b\<lparr> ppu := p \<rparr> \<and> ppu_ctrl_eq (ppu b) p"
proof -
  let ?q = "(ppu b)\<lparr> m_sprite_count := 0 \<rparr>"
  let ?h = "if m_lcdc ?q AND LCDC_OBJ_SIZE \<noteq> 0 then 16 else 8"
  let ?p = "ScanOAM_loop (m_oam (memory b)) ?h 0 ?q"
  have e: "ScanOAM b = b\<lparr> ppu := ?p \<rparr>"
    by (simp add: ScanOAM_def Let_def)
  have "ppu_ctrl_eq (ppu b) ?q" by (simp add: ppu_ctrl_eq_def)
  moreover have "ppu_ctrl_eq ?q ?p" by (rule ScanOAM_loop_ctrl)
  ultimately have "ppu_ctrl_eq (ppu b) ?p" by (rule ppu_ctrl_eq_trans)
  with e show ?thesis by blast
qed

lemma RenderBackground_ctrl: "ppu_ctrl_eq p (RenderBackground vram y p)"
  unfolding RenderBackground_def Let_def
  by (rule fold_ctrl_eq) (simp add: ppu_ctrl_eq_def)

lemma RenderWindow_ctrl: "ppu_ctrl_eq p (RenderWindow vram y p)"
proof (cases "y < m_wy p")
  case True
  then show ?thesis by (simp add: RenderWindow_def)
next
  case False
  have "ppu_ctrl_eq p (fold f [0..<SCREEN_WIDTH] p)"
    if "\<And>x q. ppu_ctrl_eq q (f x q)" for f
    using that by (rule fold_ctrl_eq)
  then show ?thesis
    using False unfolding RenderWindow_def Let_def
    by (simp add: ppu_ctrl_eq_def)
qed

lemma RenderSprite_ctrl: "ppu_ctrl_eq p (RenderSprite vram y h sp p)"
  unfolding RenderSprite_def Let_def
  by (rule fold_ctrl_eq) (simp add: ppu_ctrl_eq_def)

lemma RenderSprites_ctrl: "ppu_ctrl_eq p (RenderSprites vram y p)"
proof (cases "m_sprite_count p = 0")
  case True
  then show ?thesis by (simp add: RenderSprites_def)
next
  case False
  have "ppu_ctrl_eq p (fold (\<lambda>i q. RenderSprite vram y h (m_sprite_buffer q ! i) q) xs p)" for h xs
    by (rule fold_ctrl_eq) (rule RenderSprite_ctrl)
  then show ?thesis
    using False by (simp add: RenderSprites_def Let_def)
qed

lemma RenderScanline_frame:
  "\<exists>p. RenderScanline b = b\<lparr> ppu := p \<rparr> \<and> ppu_ctrl_eq (ppu b) p"
proof (cases "unat (m_scanline (ppu b)) \<ge> SCREEN_HEIGHT")
  case True
  then have "RenderScanline b = b\<lparr> ppu := ppu b \<rparr>" by (simp add: RenderScanline_def Let_def)
  then show ?thesis using ppu_ctrl_eq_refl by blast
next
  case False
  let ?v = "m_vram (memory b)"
  let ?p1 = "if m_lcdc (ppu b) AND LCDC_BG_ENABLE \<noteq> 0 then RenderBackground ?v (m_scanline (ppu b)) (ppu b) else ppu b"
  let ?p2 = "if m_lcdc ?p1 AND LCDC_WIN_ENABLE \<noteq> 0 then RenderWindow ?v (m_scanline ?p1) ?p1 else ?p1"
  let ?p3 = "if m_lcdc ?p2 AND LCDC_OBJ_ENABLE \<noteq> 0 then RenderSprites ?v (m_scanline ?p2) ?p2 else ?p2"
  have e: "RenderScanline b = b\<lparr> ppu := ?p3 \<rparr>"
    using False by (simp add: RenderScanline_def Let_def)
  have 1: "ppu_ctrl_eq (ppu b) ?p1" using RenderBackground_ctrl by simp
  have 2: "ppu_ctrl_eq ?p1 ?p2" using RenderWindow_ctrl by simp
  have 3: "ppu_ctrl_eq ?p2 ?p3" using RenderSprites_ctrl by simp
  have "ppu_ctrl_eq (ppu b) ?p3"
    using 1 2 3 ppu_ctrl_eq_trans by blast
  then show ?thesis using e by blast
qed

lemma SetMode_ctrl:
  assumes wf: "Bus_wf b"
  obtains b' where "SetMode mode b = Some b'" "Bus_wf b'" "m_lcdc (ppu b') = m_lcdc (ppu b)"
    "PPU_control b' = (mode, m_scanline (ppu b), m_cycle_counter (ppu b))"
    "m_frame_ready (ppu b') = m_frame_ready (ppu b)"
  using SetMode_wf [OF wf, of mode] by (auto simp: PPU_control_def)

lemma UpdateStatRegister_ctrl:
  assumes wf: "Bus_wf b"
  obtains b' where "UpdateStatRegister b = Some b'" "Bus_wf b'" "m_lcdc (ppu b') = m_lcdc (ppu b)"
    "PPU_control b' = PPU_control b"
  using UpdateStatRegister_wf [OF wf] by (auto simp: PPU_control_def)

lemma PPU_Step_control:
  assumes on: "ppu_on b"
  shows "\<exists>b'. PPU_Step c b = Some b' \<and> ppu_on b' \<and> PPU_control b' = ctrl_step c (PPU_control b)"
proof -
  have wf: "Bus_wf b" and en: "m_lcdc (ppu b) AND LCDC_LCD_ENABLE \<noteq> 0"
    using on by (simp_all add: ppu_on_def)
  let ?n = "m_cycle_counter (ppu b) + c"
  let ?b1 = "b\<lparr> ppu := (ppu b)\<lparr> m_cycle_counter := ?n \<rparr> \<rparr>"
  have on1: "ppu_on ?b1" using on by (simp add: ppu_on_def)
  show ?thesis
  proof (cases "m_mode (ppu b)")
    case OAM_SCAN
    show ?thesis
    proof (cases "?n \<ge> 80")
      case False
      then have "PPU_Step c b = Some ?b1" using en OAM_SCAN by (simp add: PPU_Step_def Let_def)
      then show ?thesis using on1 OAM_SCAN False by (simp add: PPU_control_def ctrl_step_def)
    next
      case True
      let ?b2 = "b\<lparr> ppu := (ppu b)\<lparr> m_cycle_counter := ?n - 80 \<rparr> \<rparr>"
      obtain p where p: "ScanOAM ?b2 = ?b2\<lparr> ppu := p \<rparr>" "ppu_ctrl_eq (ppu ?b2) p"
        using ScanOAM_frame [of ?b2] by blast
      have wf3: "Bus_wf (?b2\<lparr> ppu := p \<rparr>)" using wf by simp
      obtain b' where b': "SetMode DRAWING (?b2\<lparr> ppu := p \<rparr>) = Some b'" "Bus_wf b'"
          "m_lcdc (ppu b') = m_lcdc (ppu (?b2\<lparr> ppu := p \<rparr>))"
          "PPU_control b' = (DRAWING, m_scanline (ppu (?b2\<lparr> ppu := p \<rparr>)), m_cycle_counter (ppu (?b2\<lparr> ppu := p \<rparr>)))"
        using SetMode_ctrl [OF wf3, of DRAWING] by blast
      have "PPU_Step c b = Some b'"
        using en OAM_SCAN True p(1) b'(1) by (simp add: PPU_Step_def Let_def)
      moreover have "ppu_on b'" using b'(2,3) p(2) en by (simp add: ppu_on_def ppu_ctrl_eq_def)
      moreover have "PPU_control b' = ctrl_step c (PPU_control b)"
        using b'(4) p(2) OAM_SCAN True by (simp add: PPU_control_def ctrl_step_def ppu_ctrl_eq_def)
      ultimately show ?thesis by blast
    qed
  next
    case DRAWING
    show ?thesis
    proof (cases "?n \<ge> 172")
      case False
      then have "PPU_Step c b = Some ?b1" using en DRAWING by (simp add: PPU_Step_def Let_def)
      then show ?thesis using on1 DRAWING False by (simp add: PPU_control_def ctrl_step_def)
    next
      case True
      let ?b2 = "b\<lparr> ppu := (ppu b)\<lparr> m_cycle_counter := ?n - 172 \<rparr> \<rparr>"
      obtain p where p: "RenderScanline ?b2 = ?b2\<lparr> ppu := p \<rparr>" "ppu_ctrl_eq (ppu ?b2) p"
        using RenderScanline_frame [of ?b2] by blast
      have wf3: "Bus_wf (?b2\<lparr> ppu := p \<rparr>)" using wf by simp
      obtain b' where b': "SetMode HBLANK (?b2\<lparr> ppu := p \<rparr>) = Some b'" "Bus_wf b'"
          "m_lcdc (ppu b') = m_lcdc (ppu (?b2\<lparr> ppu := p \<rparr>))"
          "PPU_control b' = (HBLANK, m_scanline (ppu (?b2\<lparr> ppu := p \<rparr>)), m_cycle_counter (ppu (?b2\<lparr> ppu := p \<rparr>)))"
        using SetMode_ctrl [OF wf3, of HBLANK] by blast
      have "PPU_Step c b = Some b'"
        using en DRAWING True p(1) b'(1) by (simp add: PPU_Step_def Let_def)
      moreover have "ppu_on b'" using b'(2,3) p(2) en by (simp add: ppu_on_def ppu_ctrl_eq_def)
      moreover have "PPU_control b' = ctrl_step c (PPU_control b)"
        using b'(4) p(2) DRAWING True by (simp add: PPU_control_def ctrl_step_def ppu_ctrl_eq_def)
      ultimately show ?thesis by blast
    qed
  next
    case HBLANK
    show ?thesis
    proof (cases "?n \<ge> 204")
      case False
      then have "PPU_Step c b = Some ?b1" using en HBLANK by (simp add: PPU_Step_def Let_def)
      then show ?thesis using on1 HBLANK False by (simp add: PPU_control_def ctrl_step_def)
    next
      case True
      let ?b3 = "b\<lparr> ppu := (ppu b)\<lparr> m_cycle_counter := ?n - 204, m_scanline := m_scanline (ppu b) + 1 \<rparr> \<rparr>"
      have wf3: "Bus_wf ?b3" using wf by simp
      obtain b4 where b4: "UpdateStatRegister ?b3 = Some b4" "Bus_wf b4"
          "m_lcdc (ppu b4) = m_lcdc (ppu ?b3)" "PPU_control b4 = PPU_control ?b3"
        using UpdateStatRegister_ctrl [OF wf3] by blast
      have ly4: "m_scanline (ppu b4) = m_scanline (ppu b) + 1"
        and n4: "m_cycle_counter (ppu b4) = ?n - 204"
        using b4(4) by (simp_all add: PPU_control_def)
      have pre: "PPU_Step c b =
          (if unat (m_scanline (ppu b4)) \<ge> SCREEN_HEIGHT
           then do { b5 \<leftarrow> SetMode VBLANK b4;
                     raise_IF 0x01 (b5\<lparr> ppu := (ppu b5)\<lparr> m_frame_ready := True \<rparr> \<rparr>) }
           else SetMode OAM_SCAN b4)"
        using en HBLANK True b4(1) by (simp add: PPU_Step_def Let_def Write_LY [OF wf3])
      show ?thesis
      proof (cases "unat (m_scanline (ppu b4)) \<ge> SCREEN_HEIGHT")
        case False
        obtain b' where b': "SetMode OAM_SCAN b4 = Some b'" "Bus_wf b'"
            "m_lcdc (ppu b') = m_lcdc (ppu b4)"
            "PPU_control b' = (OAM_SCAN, m_scanline (ppu b4), m_cycle_counter (ppu b4))"
          using SetMode_ctrl [OF b4(2), of OAM_SCAN] by blast
        have "PPU_Step c b = Some b'" using pre False b'(1) by simp
        moreover have "ppu_on b'" using b'(2,3) b4(3) en by (simp add: ppu_on_def)
        moreover have "PPU_control b' = ctrl_step c (PPU_control b)"
          using b'(4) ly4 n4 HBLANK True False by (simp add: PPU_control_def ctrl_step_def)
        ultimately show ?thesis by blast
      next
        case vb: True
        obtain b5 where b5: "SetMode VBLANK b4 = Some b5" "Bus_wf b5"
            "m_lcdc (ppu b5) = m_lcdc (ppu b4)"
            "PPU_control b5 = (VBLANK, m_scanline (ppu b4), m_cycle_counter (ppu b4))"
          using SetMode_ctrl [OF b4(2), of VBLANK] by blast
        let ?b6 = "b5\<lparr> ppu := (ppu b5)\<lparr> m_frame_ready := True \<rparr> \<rparr>"
        have wf6: "Bus_wf ?b6" using b5(2) by simp
        let ?b' = "?b6\<lparr> memory := (memory ?b6)\<lparr> m_io := (m_io (memory ?b6))[0x0F := m_io (memory ?b6) ! 0x0F OR 0x01] \<rparr> \<rparr>"
        have r: "raise_IF 0x01 ?b6 = Some ?b'" by (rule raise_IF_wf [OF wf6])
        have "PPU_Step c b = Some ?b'" using pre vb b5(1) r by simp
        moreover have "ppu_on ?b'"
          using Bus_wf_raise [OF wf6] b5(3) b4(3) en by (simp add: ppu_on_def)
        moreover have "PPU_control ?b' = ctrl_step c (PPU_control b)"
          using b5(4) ly4 n4 HBLANK True vb by (simp add: PPU_control_def ctrl_step_def)
        ultimately show ?thesis by blast
      qed
    qed
  next
    case VBLANK
    show ?thesis
    proof (cases "?n \<ge> 456")
      case False
      then have "PPU_Step c b = Some ?b1" using en VBLANK by (simp add: PPU_Step_def Let_def)
      then show ?thesis using on1 VBLANK False by (simp add: PPU_control_def ctrl_step_def)
    next
      case True
      let ?b3 = "b\<lparr> ppu := (ppu b)\<lparr> m_cycle_counter := ?n - 456, m_scanline := m_scanline (ppu b) + 1 \<rparr> \<rparr>"
      have wf3: "Bus_wf ?b3" using wf by simp
      obtain b4 where b4: "UpdateStatRegister ?b3 = Some b4" "Bus_wf b4"
          "m_lcdc (ppu b4) = m_lcdc (ppu ?b3)" "PPU_control b4 = PPU_control ?b3"
        using UpdateStatRegister_ctrl [OF wf3] by blast
      have ly4: "m_scanline (ppu b4) = m_scanline (ppu b) + 1"
        and n4: "m_cycle_counter (ppu b4) = ?n - 456" and m4: "m_mode (ppu b4) = VBLANK"
        using b4(4) VBLANK by (simp_all add: PPU_control_def)
      let ?b5 = "b4\<lparr> ppu := (ppu b4)\<lparr> m_scanline := 0 \<rparr> \<rparr>"
      have wf5: "Bus_wf ?b5" using b4(2) by simp
      have pre: "PPU_Step c b =
          (if unat (m_scanline (ppu b4)) \<ge> SCANLINES_PER_FRAME
           then SetMode OAM_SCAN ?b5 else Some b4)"
        using en VBLANK True b4(1)
        by (simp add: PPU_Step_def Let_def Write_LY [OF wf3] Write_LY [OF wf5])
      show ?thesis
      proof (cases "unat (m_scanline (ppu b4)) \<ge> SCANLINES_PER_FRAME")
        case False
        have "PPU_Step c b = Some b4" using pre False by simp
        moreover have "ppu_on b4" using b4(2,3) en by (simp add: ppu_on_def)
        moreover have "PPU_control b4 = ctrl_step c (PPU_control b)"
          using ly4 n4 m4 VBLANK True False by (simp add: PPU_control_def ctrl_step_def)
        ultimately show ?thesis by blast
      next
        case wrap: True
        obtain b' where b': "SetMode OAM_SCAN ?b5 = Some b'" "Bus_wf b'"
            "m_lcdc (ppu b') = m_lcdc (ppu ?b5)"
            "PPU_control b' = (OAM_SCAN, m_scanline (ppu ?b5), m_cycle_counter (ppu ?b5))"
          using SetMode_ctrl [OF wf5, of OAM_SCAN] by blast
        have "PPU_Step c b = Some b'" using pre wrap b'(1) by simp
        moreover have "ppu_on b'" using b'(2,3) b4(3) en by (simp add: ppu_on_def)
        moreover have "PPU_control b' = ctrl_step c (PPU_control b)"
          using b'(4) ly4 n4 VBLANK True wrap by (simp add: PPU_control_def ctrl_step_def)
        ultimately show ?thesis by blast
      qed
    qed
  qed
qed

lemma PPU_Steps_control:
  assumes "ppu_on b"
  shows "\<exists>b'. PPU_Steps cs b = Some b' \<and> ppu_on b' \<and>
           PPU_control b' = fold ctrl_step cs (PPU_control b)"
  using assms
proof (induction cs arbitrary: b)
  case Nil
  then show ?case by simp
next
  case (Cons c cs)
  obtain b1 where b1: "PPU_Step c b = Some b1" "ppu_on b1"
      "PPU_control b1 = ctrl_step c (PPU_control b)"
    using PPU_Step_control [OF Cons.prems, of c] by blast
  obtain b' where b': "PPU_Steps cs b1 = Some b'" "ppu_on b'"
      "PPU_control b' = fold ctrl_step cs (PPU_control b1)"
    using Cons.IH [OF b1(2)] by blast
  show ?case using b1 b' by simp
qed

lemma unat_small: "m < 1000 \<Longrightarrow> unat (word_of_nat m :: u32) = m"
  by (simp add: unat_of_nat)

lemma small_add: "(word_of_nat k :: u32) + c = word_of_nat (k + unat c)"
  by simp

lemma small_le: "m < 1000 \<Longrightarrow> t < 1000 \<Longrightarrow> ((word_of_nat t :: u32) \<le> word_of_nat m) = (t \<le> m)"
  by (simp add: word_le_nat_alt unat_small)

lemma visible_line_step:
  assumes c: "\<not> (S < 80 \<and> 252 \<le> S + unat c)" "\<not> (S < 252 \<and> 456 \<le> S + unat c)"
    and S: "S + unat c \<le> 456"
  shows "ctrl_step c (visible_line_after ly S) = visible_line_after ly (S + unat c)"
proof -
  let ?T = "S + unat c"
  have le: "((80 :: u32) \<le> word_of_nat m) = (80 \<le> m)"
    "((172 :: u32) \<le> word_of_nat m) = (172 \<le> m)"
    "((204 :: u32) \<le> word_of_nat m) = (204 \<le> m)"
    "((456 :: u32) \<le> word_of_nat m) = (456 \<le> m)" if "m < 1000" for m
    using that small_le [of m 80] small_le [of m 172] small_le [of m 204] small_le [of m 456]
    by simp_all
  consider "S < 80" | "80 \<le> S" "S < 252" | "252 \<le> S" "S < 456" | "S = 456"
    using S by linarith
  then show ?thesis
  proof cases
    case 1
    have n: "(word_of_nat S :: u32) + c = word_of_nat ?T" by simp
    have "ctrl_step c (visible_line_after ly S) =
        (if 80 \<le> ?T then (DRAWING, ly, word_of_nat ?T - 80) else (OAM_SCAN, ly, word_of_nat ?T))"
      using 1 S by (simp add: visible_line_after_def ctrl_step_def Let_def n le del: of_nat_add)
    also have "\<dots> = visible_line_after ly ?T"
      using 1 c by (simp add: visible_line_after_def)
    finally show ?thesis .
  next
    case 2
    let ?U = "S - 80 + unat c"
    have n: "(word_of_nat (S - 80) :: u32) + c = word_of_nat ?U" by simp
    have "ctrl_step c (visible_line_after ly S) =
        (if 172 \<le> ?U then (HBLANK, ly, word_of_nat ?U - 172) else (DRAWING, ly, word_of_nat ?U))"
      using 2 S
      by (simp add: visible_line_after_def ctrl_step_def Let_def n le del: of_nat_add of_nat_diff)
    also have "\<dots> = visible_line_after ly ?T"
      using 2 c by (auto simp: visible_line_after_def)
    finally show ?thesis .
  next
    case 3
    let ?U = "S - 252 + unat c"
    have n: "(word_of_nat (S - 252) :: u32) + c = word_of_nat ?U" by simp
    have "ctrl_step c (visible_line_after ly S) =
        (if 204 \<le> ?U
         then (if unat (ly + 1) \<ge> 144 then VBLANK else OAM_SCAN, ly + 1, word_of_nat ?U - 204)
         else (HBLANK, ly, word_of_nat ?U))"
      using 3 S
      by (simp add: visible_line_after_def ctrl_step_def Let_def n le del: of_nat_add of_nat_diff)
    also have "\<dots> = visible_line_after ly ?T"
      using 3 S by (auto simp: visible_line_after_def)
    finally show ?thesis .
  next
    case 4
    then have "unat c = 0" using S by simp
    then have "c = 0" by (simp add: unat_eq_0)
    then show ?thesis using 4 by (simp add: visible_line_after_def ctrl_step_def Let_def)
  qed
qed

lemma vblank_line_step:
  assumes S: "S + unat c \<le> 456"
  shows "ctrl_step c (vblank_line_after ly S) = vblank_line_after ly (S + unat c)"
proof -
  let ?T = "S + unat c"
  have le: "((80 :: u32) \<le> word_of_nat m) = (80 \<le> m)"
    "((456 :: u32) \<le> word_of_nat m) = (456 \<le> m)" if "m < 1000" for m
    using that small_le [of m 80] small_le [of m 456]
    by simp_all
  consider "S < 456" | "S = 456" using S by linarith
  then show ?thesis
  proof cases
    case 1
    have n: "(word_of_nat S :: u32) + c = word_of_nat ?T" by simp
    have "ctrl_step c (vblank_line_after ly S) =
        (if 456 \<le> ?T
         then (if unat (ly + 1) \<ge> 154 then (OAM_SCAN, 0, word_of_nat ?T - 456)
               else (VBLANK, ly + 1, word_of_nat ?T - 456))
         else (VBLANK, ly, word_of_nat ?T))"
      using 1 S by (simp add: vblank_line_after_def ctrl_step_def Let_def n le del: of_nat_add)
    also have "\<dots> = vblank_line_after ly ?T"
      using 1 S by (auto simp: vblank_line_after_def)
    finally show ?thesis .
  next
    case 2
    then have "unat c = 0" using S by simp
    then have "c = 0" by (simp add: unat_eq_0)
    then show ?thesis using 2 by (simp add: vblank_line_after_def ctrl_step_def Let_def)
  qed
qed

lemma visible_line_fold:
  assumes "one_boundary_per_call S cs" and "S + sum_list (map unat cs) \<le> 456"
  shows "fold ctrl_step cs (visible_line_after ly S) = visible_line_after ly (S + sum_list (map unat cs))"
  using assms
proof (induction cs arbitrary: S)
  case Nil
  show ?case by simp
next
  case (Cons c cs)
  have c: "\<not> (S < 80 \<and> 252 \<le> S + unat c)" "\<not> (S < 252 \<and> 456 \<le> S + unat c)"
    and rest: "one_boundary_per_call (S + unat c) cs"
    using Cons.prems(1) by simp_all
  have S1: "S + unat c \<le> 456" using Cons.prems(2) by simp
  have "fold ctrl_step cs (visible_line_after ly (S + unat c)) =
        visible_line_after ly (S + unat c + sum_list (map unat cs))"
    using Cons.prems(2) rest by (intro Cons.IH) (simp_all add: add.assoc)
  then show ?case using visible_line_step [OF c S1, of ly] by (simp add: add.assoc)
qed

lemma small_calls_one_boundary:
  assumes "\<forall>c \<in> set cs. c \<le> 172"
  shows "one_boundary_per_call S cs"
  using assms
proof (induction cs arbitrary: S)
  case Nil
  show ?case by simp
next
  case (Cons c cs)
  have "unat c \<le> 172" using Cons.prems by (simp add: word_le_nat_alt)
  then show ?case using Cons by simp
qed

lemma vblank_line_fold:
  assumes "S + sum_list (map unat cs) \<le> 456"
  shows "fold ctrl_step cs (vblank_line_after ly S) = vblank_line_after ly (S + sum_list (map unat cs))"
  using assms
proof (induction cs arbitrary: S)
  case Nil
  show ?case by simp
next
  case (Cons c cs)
  have S1: "S + unat c \<le> 456" using Cons.prems by simp
  have "fold ctrl_step cs (vblank_line_after ly (S + unat c)) =
        vblank_line_after ly (S + unat c + sum_list (map unat cs))"
    using Cons.prems by (intro Cons.IH) (simp_all add: add.assoc)
  then show ?case using vblank_line_step [OF S1, of ly] by (simp add: add.assoc)
qed

lemma GameBoy_ppu:
  "m_lcdc (ppu GameBoy_bus) = 0x91" "PPU_control GameBoy_bus = (OAM_SCAN, 0, 0)"
  by (simp_all add: GameBoy_bus_def PPU_new_def PPU_Reset_def PPU_control_def)

lemma ppu_on_GameBoy: "ppu_on GameBoy_bus"
  by (simp add: ppu_on_def Bus_wf_GameBoy GameBoy_ppu)

lemma ppu_on_vblank_last_line: "ppu_on vblank_last_line_bus"
  using Bus_wf_GameBoy
  by (simp add: ppu_on_def vblank_last_line_bus_def PPU_new_def PPU_Reset_def)

text \<open>
  C3 (as amended). With the LCD enabled and the cycle counter 0, let the picture unit be
  stepped by calls whose cycle counts sum to \<open>S \<le> 456\<close>. From OAM_SCAN on a line
  \<open>LY < 144\<close>, if no call crosses two mode boundaries at once, the unit is in OAM_SCAN
  while \<open>S < 80\<close>, in DRAWING while \<open>80 \<le> S < 252\<close>, in HBLANK while \<open>252 \<le> S < 456\<close>, and
  at \<open>S = 456\<close> it is on line \<open>LY + 1\<close> with the counter 0 (in OAM_SCAN, or in VBLANK when
  the new line is 144). From VBLANK on a line 144-153, with calls of any size, the unit
  stays on the line while \<open>S < 456\<close> and at \<open>S = 456\<close> is on the next line, line 153 being
  followed by line 0 in OAM_SCAN.
\<close>

theorem PPU_line_timing:
  assumes on: "ppu_on b" and start: "m_cycle_counter (ppu b) = 0"
    and total: "sum_list (map unat cs) \<le> 456"
  shows "(m_mode (ppu b) = OAM_SCAN \<and> unat (m_scanline (ppu b)) < 144 \<and> one_boundary_per_call 0 cs \<longrightarrow>
            map_option PPU_control (PPU_Steps cs b) =
              Some (visible_line_after (m_scanline (ppu b)) (sum_list (map unat cs)))) \<and>
         (m_mode (ppu b) = VBLANK \<and> 144 \<le> unat (m_scanline (ppu b)) \<and> unat (m_scanline (ppu b)) \<le> 153 \<longrightarrow>
            map_option PPU_control (PPU_Steps cs b) =
              Some (vblank_line_after (m_scanline (ppu b)) (sum_list (map unat cs))))"
proof -
  obtain b' where b': "PPU_Steps cs b = Some b'"
      "PPU_control b' = fold ctrl_step cs (PPU_control b)"
    using PPU_Steps_control [OF on, of cs] by blast
  have vis: "PPU_control b = visible_line_after (m_scanline (ppu b)) 0" if "m_mode (ppu b) = OAM_SCAN"
    using that start by (simp add: PPU_control_def visible_line_after_def)
  have vbl: "PPU_control b = vblank_line_after (m_scanline (ppu b)) 0" if "m_mode (ppu b) = VBLANK"
    using that start by (simp add: PPU_control_def vblank_line_after_def)
  show ?thesis
    using b' vis vbl total
      visible_line_fold [of 0 cs "m_scanline (ppu b)"] vblank_line_fold [of 0 cs "m_scanline (ppu b)"]
    by auto
qed

theorem PPU_line_timing_witness:
  "map_option PPU_control (PPU_Steps [80, 172, 204] GameBoy_bus) = Some (OAM_SCAN, 1, 0) \<and>
   map_option PPU_control (PPU_Steps [80, 100] GameBoy_bus) = Some (DRAWING, 0, 100) \<and>
   map_option PPU_control (PPU_Steps [456] vblank_last_line_bus) = Some (OAM_SCAN, 0, 0)"
proof -
  have g: "m_mode (ppu GameBoy_bus) = OAM_SCAN" "m_scanline (ppu GameBoy_bus) = 0"
    "m_cycle_counter (ppu GameBoy_bus) = 0" "unat (m_scanline (ppu GameBoy_bus)) < 144"
    using GameBoy_ppu(2) by (simp_all add: PPU_control_def)
  have v: "m_mode (ppu vblank_last_line_bus) = VBLANK" "m_scanline (ppu vblank_last_line_bus) = 153"
    "m_cycle_counter (ppu vblank_last_line_bus) = 0"
    "144 \<le> unat (m_scanline (ppu vblank_last_line_bus))"
    "unat (m_scanline (ppu vblank_last_line_bus)) \<le> 153"
    by (simp_all add: vblank_last_line_bus_def PPU_new_def PPU_Reset_def)
  have s: "sum_list (map unat [80, 172, 204 :: u32]) = 456" "sum_list (map unat [80, 100 :: u32]) = 180"
    "sum_list (map unat [456 :: u32]) = 456"
    by simp_all
  have le: "sum_list (map unat [80, 172, 204 :: u32]) \<le> 456" "sum_list (map unat [80, 100 :: u32]) \<le> 456"
    "sum_list (map unat [456 :: u32]) \<le> 456"
    by simp_all
  have small: "one_boundary_per_call 0 [80, 172, 204]" "one_boundary_per_call 0 [80, 100]"
    by simp_all
  have 1: "map_option PPU_control (PPU_Steps [80, 172, 204] GameBoy_bus) =
      Some (visible_line_after (m_scanline (ppu GameBoy_bus)) (sum_list (map unat [80, 172, 204 :: u32])))"
    using PPU_line_timing [OF ppu_on_GameBoy g(3) le(1)] g(1,4) small(1) by blast
  have 2: "map_option PPU_control (PPU_Steps [80, 100] GameBoy_bus) =
      Some (visible_line_after (m_scanline (ppu GameBoy_bus)) (sum_list (map unat [80, 100 :: u32])))"
    using PPU_line_timing [OF ppu_on_GameBoy g(3) le(2)] g(1,4) small(2) by blast
  have 3: "map_option PPU_control (PPU_Steps [456] vblank_last_line_bus) =
      Some (vblank_line_after (m_scanline (ppu vblank_last_line_bus)) (sum_list (map unat [456 :: u32])))"
    using PPU_line_timing [OF ppu_on_vblank_last_line v(3) le(3)] v(1,4,5) by blast
  have r1: "visible_line_after 0 456 = (OAM_SCAN, 1, 0)" by (simp add: visible_line_after_def)
  have r2: "visible_line_after 0 180 = (DRAWING, 0, 100)" by (simp add: visible_line_after_def)
  have r3: "vblank_line_after 153 456 = (OAM_SCAN, 0, 0)" by (simp add: vblank_line_after_def)
  show ?thesis
    using 1 2 3 unfolding s g(2) v(2) r1 r2 r3 by blast
qed

text \<open>
  C3 as stated fails: one call of \<^verbatim>\<open>Step(456)\<close> on the machine as constructed (OAM_SCAN,
  line 0, counter 0, LCDC = 0x91) makes the one transition to DRAWING and leaves LY at 0,
  with 376 cycles in the counter.
\<close>

theorem PPU_single_step_456_counterexample:
  "map_option PPU_control (PPU_Step 456 GameBoy_bus) = Some (DRAWING, 0, 376)"
proof -
  obtain b' where "PPU_Step 456 GameBoy_bus = Some b'"
      "PPU_control b' = ctrl_step 456 (PPU_control GameBoy_bus)"
    using PPU_Step_control [OF ppu_on_GameBoy, of 456] by blast
  then show ?thesis
    by (simp add: GameBoy_ppu ctrl_step_def)
qed

lemma PPU_Steps_off:
  assumes "m_lcdc (ppu b) AND LCDC_LCD_ENABLE = 0"
  shows "PPU_Steps cs b = Some b"
  using assms by (induction cs) (simp_all add: PPU_Step_def)

lemma SetMode_stat:
  assumes wf: "Bus_wf b" and s: "SetMode mode b = Some b'"
  shows "m_stat (ppu b') AND 0x03 = Mode_u8 mode"
proof -
  have k: "((x AND 0xFC OR m) AND 0xF8 OR (x AND 0xFC OR m) AND 0x07) AND 0x03 = m"
    if "m AND 0x03 = m" for x m :: u8
  proof -
    have "(x AND 0xFC OR m) AND 0xF8 OR (x AND 0xFC OR m) AND 0x07 =
          (x AND 0xFC OR m) AND (0xF8 OR 0x07)"
      by (simp only: bit.conj_disj_distrib)
    also have "\<dots> = x AND 0xFC OR m"
    proof -
      have "(0xF8 OR 0x07 :: u8) = - 1" by simp
      then show ?thesis by (simp only: and.right_neutral)
    qed
    finally have "((x AND 0xFC OR m) AND 0xF8 OR (x AND 0xFC OR m) AND 0x07) AND 0x03 =
          (x AND 0xFC OR m) AND 0x03" by simp
    also have "\<dots> = x AND (0xFC AND 0x03) OR m AND 0x03"
      by (simp only: bit.conj_disj_distrib2 and.assoc)
    also have "\<dots> = m" using that by simp
    finally show ?thesis .
  qed
  have m: "Mode_u8 mode AND 0x03 = Mode_u8 mode" by (cases mode) simp_all
  show ?thesis
    using wf s k [OF m]
    by (cases mode) (auto simp: SetMode_def Let_def Write_STAT raise_IF_wf split: if_splits)
qed

lemma HBLANK_to_OAM_SCAN_stat:
  assumes on: "ppu_on b" and mode: "m_mode (ppu b) = HBLANK"
    and n: "m_cycle_counter (ppu b) + c \<ge> 204"
    and ly: "unat (m_scanline (ppu b) + 1) < SCREEN_HEIGHT"
    and step: "PPU_Step c b = Some b'"
  shows "m_stat (ppu b') AND 0x03 = 0x02"
proof -
  have wf: "Bus_wf b" and en: "m_lcdc (ppu b) AND LCDC_LCD_ENABLE \<noteq> 0"
    using on by (simp_all add: ppu_on_def)
  let ?n = "m_cycle_counter (ppu b) + c"
  let ?b3 = "b\<lparr> ppu := (ppu b)\<lparr> m_cycle_counter := ?n - 204, m_scanline := m_scanline (ppu b) + 1 \<rparr> \<rparr>"
  have wf3: "Bus_wf ?b3" using wf by simp
  obtain b4 where b4: "UpdateStatRegister ?b3 = Some b4" "Bus_wf b4"
      "m_lcdc (ppu b4) = m_lcdc (ppu ?b3)" "PPU_control b4 = PPU_control ?b3"
    using UpdateStatRegister_ctrl [OF wf3] by blast
  have ly4: "m_scanline (ppu b4) = m_scanline (ppu b) + 1"
    using b4(4) by (simp add: PPU_control_def)
  have "PPU_Step c b = SetMode OAM_SCAN b4"
    using en mode n b4(1) ly ly4 by (simp add: PPU_Step_def Let_def Write_LY [OF wf3])
  then have "SetMode OAM_SCAN b4 = Some b'" using step by simp
  from SetMode_stat [OF b4(2) this] show ?thesis by simp
qed

lemma PPU_Steps_append:
  "PPU_Steps (xs @ ys) b = Option.bind (PPU_Steps xs b) (PPU_Steps ys)"
proof (induction xs arbitrary: b)
  case Nil
  show ?case by simp
next
  case (Cons c cs)
  show ?case by (cases "PPU_Step c b") (simp_all add: Cons.IH)
qed

lemma first_line_bus_state:
  "PPU_Steps [80, 172, 204] GameBoy_bus = Some first_line_bus"
  "ppu_on first_line_bus"
  "PPU_control first_line_bus = (OAM_SCAN, 1, 0)"
  "m_stat (ppu first_line_bus) AND 0x03 = 0x02"
proof -
  obtain b2 where b2: "PPU_Steps [80, 172] GameBoy_bus = Some b2" "ppu_on b2"
      "PPU_control b2 = fold ctrl_step [80, 172] (PPU_control GameBoy_bus)"
    using PPU_Steps_control [OF ppu_on_GameBoy, of "[80, 172]"] by blast
  have c2: "PPU_control b2 = (HBLANK, 0, 0)"
    unfolding b2(3) by (simp add: GameBoy_ppu ctrl_step_def)
  obtain b3 where b3: "PPU_Step 204 b2 = Some b3" "ppu_on b3"
      "PPU_control b3 = ctrl_step 204 (PPU_control b2)"
    using PPU_Step_control [OF b2(2), of 204] by blast
  have c3: "PPU_control b3 = (OAM_SCAN, 1, 0)"
    unfolding b3(3) c2 by (simp add: ctrl_step_def)
  have "PPU_Steps ([80, 172] @ [204]) GameBoy_bus = Some b3"
    unfolding PPU_Steps_append b2(1) using b3(1) by simp
  then have s: "PPU_Steps [80, 172, 204] GameBoy_bus = Some b3" by simp
  then have e: "first_line_bus = b3" by (simp add: first_line_bus_def)
  have st: "m_stat (ppu b3) AND 0x03 = 0x02"
    using c2 by (intro HBLANK_to_OAM_SCAN_stat [OF b2(2) _ _ _ b3(1)]) (simp_all add: PPU_control_def)
  show "PPU_Steps [80, 172, 204] GameBoy_bus = Some first_line_bus" using s e by simp
  show "ppu_on first_line_bus" using b3(2) e by simp
  show "PPU_control first_line_bus = (OAM_SCAN, 1, 0)" using c3 e by simp
  show "m_stat (ppu first_line_bus) AND 0x03 = 0x02" using st e by simp
qed

lemma LCD_off_frozen:
  assumes wf: "Bus_wf b" and off: "v_off AND LCDC_LCD_ENABLE = 0"
  shows "Memory_Write 0xFF40 v_off b = b\<lparr> ppu := (ppu b)\<lparr> m_lcdc := v_off \<rparr> \<rparr>"
    and "PPU_Steps cs (Memory_Write 0xFF40 v_off b) = Some (Memory_Write 0xFF40 v_off b)"
    and "Memory_Read (Memory_Write 0xFF40 v_off b) 0xFF44 = Some (m_scanline (ppu b))"
    and "Memory_Read (Memory_Write 0xFF40 v_off b) 0xFF41 = Some (m_stat (ppu b))"
    and "Memory_Write 0xFF40 v_on (Memory_Write 0xFF40 v_off b) = b\<lparr> ppu := (ppu b)\<lparr> m_lcdc := v_on \<rparr> \<rparr>"
proof -
  let ?b = "b\<lparr> ppu := (ppu b)\<lparr> m_lcdc := v_off \<rparr> \<rparr>"
  show w: "Memory_Write 0xFF40 v_off b = ?b" by (rule Write_LCDC [OF wf])
  have wf': "Bus_wf ?b" using wf by simp
  have "PPU_Steps cs ?b = Some ?b" using off by (intro PPU_Steps_off) simp
  then show "PPU_Steps cs (Memory_Write 0xFF40 v_off b) = Some (Memory_Write 0xFF40 v_off b)"
    unfolding w .
  show "Memory_Read (Memory_Write 0xFF40 v_off b) 0xFF44 = Some (m_scanline (ppu b))"
    unfolding w using Read_LY [OF wf'] by simp
  show "Memory_Read (Memory_Write 0xFF40 v_off b) 0xFF41 = Some (m_stat (ppu b))"
    unfolding w using Read_STAT [OF wf'] by simp
  show "Memory_Write 0xFF40 v_on (Memory_Write 0xFF40 v_off b) = b\<lparr> ppu := (ppu b)\<lparr> m_lcdc := v_on \<rparr> \<rparr>"
    unfolding w using Write_LCDC [OF wf', of v_on] by simp
qed

text \<open>
  C7 (as amended). After LCDC is written with bit 7 clear, stepping the picture unit by any
  cycle counts changes nothing; LY and STAT read as they did before the write (the line and
  the STAT byte are frozen where they were, not forced to 0 and HBLANK); and writing LCDC
  again gives the state before the LCD was disabled but for LCDC: execution resumes in the
  mode, on the line and at the cycle count where it stopped.
\<close>

theorem LCD_disabled_freezes:
  assumes wf: "Bus_wf b" and off: "v_off AND LCDC_LCD_ENABLE = 0"
  shows "PPU_Steps cs (Memory_Write 0xFF40 v_off b) = Some (Memory_Write 0xFF40 v_off b) \<and>
         Memory_Read (Memory_Write 0xFF40 v_off b) 0xFF44 = Some (m_scanline (ppu b)) \<and>
         Memory_Read (Memory_Write 0xFF40 v_off b) 0xFF41 = Some (m_stat (ppu b)) \<and>
         Memory_Write 0xFF40 v_on (Memory_Write 0xFF40 v_off b) = b\<lparr> ppu := (ppu b)\<lparr> m_lcdc := v_on \<rparr> \<rparr> \<and>
         Memory_Read (Memory_Write 0xFF40 v_off b) 0xFF44 = Memory_Read b 0xFF44 \<and>
         Memory_Read (Memory_Write 0xFF40 v_off b) 0xFF41 = Memory_Read b 0xFF41"
  using LCD_off_frozen(2-5) [OF wf off] Read_LY [OF wf] Read_STAT [OF wf] by simp

text \<open>On the machine after the first line (OAM_SCAN on line 1, the STAT mode bits 2), the
  LCD is disabled: two steps of 456 cycles change nothing, LY reads 1 and the STAT mode
  bits read 2, and enabling the LCD again leaves the unit in OAM_SCAN on line 1.\<close>

theorem LCD_disabled_freezes_witness:
  "Bus_wf first_line_bus \<and> (0x11 :: u8) AND LCDC_LCD_ENABLE = 0 \<and>
   PPU_Steps [456, 456] (Memory_Write 0xFF40 0x11 first_line_bus) =
     Some (Memory_Write 0xFF40 0x11 first_line_bus) \<and>
   Memory_Read (Memory_Write 0xFF40 0x11 first_line_bus) 0xFF44 = Some 1 \<and>
   map_option (\<lambda>s. s AND 0x03) (Memory_Read (Memory_Write 0xFF40 0x11 first_line_bus) 0xFF41) = Some 2 \<and>
   PPU_control (Memory_Write 0xFF40 0x91 (Memory_Write 0xFF40 0x11 first_line_bus)) = (OAM_SCAN, 1, 0)"
proof -
  have wf: "Bus_wf first_line_bus" using first_line_bus_state(2) by (simp add: ppu_on_def)
  have off: "(0x11 :: u8) AND LCDC_LCD_ENABLE = 0" by simp
  have ly: "m_scanline (ppu first_line_bus) = 1"
    and c: "PPU_control (first_line_bus\<lparr> ppu := (ppu first_line_bus)\<lparr> m_lcdc := 0x91 \<rparr> \<rparr>) = (OAM_SCAN, 1, 0)"
    using first_line_bus_state(3) by (simp_all add: PPU_control_def)
  from LCD_disabled_freezes [OF wf off, of "[456, 456]" "0x91"]
  have "PPU_Steps [456, 456] (Memory_Write 0xFF40 0x11 first_line_bus) =
          Some (Memory_Write 0xFF40 0x11 first_line_bus)"
    and "Memory_Read (Memory_Write 0xFF40 0x11 first_line_bus) 0xFF44 = Some (m_scanline (ppu first_line_bus))"
    and "Memory_Read (Memory_Write 0xFF40 0x11 first_line_bus) 0xFF41 = Some (m_stat (ppu first_line_bus))"
    and "Memory_Write 0xFF40 0x91 (Memory_Write 0xFF40 0x11 first_line_bus) =
         first_line_bus\<lparr> ppu := (ppu first_line_bus)\<lparr> m_lcdc := 0x91 \<rparr> \<rparr>"
    by blast+
  then show ?thesis
    using wf off ly c first_line_bus_state(4) by simp
qed

text \<open>
  C7 as stated fails: on the machine as constructed, after the first line (calls of 80,
  172 and 204 cycles) the LCD is disabled; LY then reads 1, not 0, the STAT mode bits read
  2 (OAM_SCAN), not 0 (HBLANK), and after the LCD is enabled again the unit is in OAM_SCAN
  on line 1, not on line 0.
\<close>

theorem LCD_disabled_LY_counterexample:
  "do { b \<leftarrow> PPU_Steps [80, 172, 204] GameBoy_bus;
        b \<leftarrow> PPU_Steps [456] (Memory_Write 0xFF40 0x11 b);
        Memory_Read b 0xFF44 } = Some 1 \<and>
   do { b \<leftarrow> PPU_Steps [80, 172, 204] GameBoy_bus;
        b \<leftarrow> PPU_Steps [456] (Memory_Write 0xFF40 0x11 b);
        map_option (\<lambda>s. s AND 0x03) (Memory_Read b 0xFF41) } = Some 2 \<and>
   do { b \<leftarrow> PPU_Steps [80, 172, 204] GameBoy_bus;
        b \<leftarrow> PPU_Steps [456] (Memory_Write 0xFF40 0x11 b);
        Some (PPU_control (Memory_Write 0xFF40 0x91 b)) } = Some (OAM_SCAN, 1, 0)"
proof -
  have wf: "Bus_wf first_line_bus" using first_line_bus_state(2) by (simp add: ppu_on_def)
  have off: "(0x11 :: u8) AND LCDC_LCD_ENABLE = 0" by simp
  note f = LCD_off_frozen(2-5) [OF wf off]
  have ly: "m_scanline (ppu first_line_bus) = 1"
    and c: "PPU_control (first_line_bus\<lparr> ppu := (ppu first_line_bus)\<lparr> m_lcdc := 0x91 \<rparr> \<rparr>) = (OAM_SCAN, 1, 0)"
    using first_line_bus_state(3) by (simp_all add: PPU_control_def)
  show ?thesis
    using f ly c first_line_bus_state(4)
    by (simp add: first_line_bus_state(1) del: PPU_Steps.simps)
qed

section \<open>Processor\<close>

subsection \<open>Cycle counts of the conditional branches\<close>

text \<open>A step of a running processor with the master enable clear: the opcode fetch costs
  4 cycles, then the instruction runs.\<close>

lemma step_running:
  assumes "\<not> m_halted c" "\<not> m_ime c" "Memory_Read b (get_pc c) = Some opcode"
  shows "CPU_Step (c, b) =
     do { (c', b') \<leftarrow> ExecuteInstruction opcode (add_cycles 4 (set_pc (get_pc c + 1) (c\<lparr> m_cycles := 0 \<rparr>)), b);
          Some (m_cycles c', c', b') }"
  using assms
  by (simp add: CPU_Step_def ServiceInterrupts_def FetchByte_def ReadByte_def get_pc_def set_pc_def add_cycles_def)

lemma GetFlag_frame [simp]:
  "GetFlag f (add_cycles n c) = GetFlag f c"
  "GetFlag f (set_pc v c) = GetFlag f c"
  "GetFlag f (c\<lparr> m_cycles := k \<rparr>) = GetFlag f c"
  by (simp_all add: GetFlag_def add_cycles_def set_pc_def)

lemma branch_condition_frame [simp]:
  "branch_condition op (add_cycles n c) = branch_condition op c"
  "branch_condition op (set_pc v c) = branch_condition op c"
  "branch_condition op (c\<lparr> m_cycles := k \<rparr>) = branch_condition op c"
  by (simp_all add: branch_condition_def)

lemma exec_JP_cc:
  assumes "opcode \<in> {0xC2, 0xCA, 0xD2, 0xDA}"
  shows "ExecuteInstruction opcode (c, b) = OP_JP_cc_nn (branch_condition opcode c) (c, b)"
proof -
  consider "opcode = 0xC2" | "opcode = 0xCA" | "opcode = 0xD2" | "opcode = 0xDA"
    using assms by auto
  then show ?thesis
    by cases (simp_all add: ExecuteInstruction_def branch_condition_def)
qed

lemma exec_JR_cc:
  assumes "opcode \<in> {0x20, 0x28, 0x30, 0x38}"
  shows "ExecuteInstruction opcode (c, b) = OP_JR_cc_e (branch_condition opcode c) (c, b)"
proof -
  consider "opcode = 0x20" | "opcode = 0x28" | "opcode = 0x30" | "opcode = 0x38"
    using assms by auto
  then show ?thesis
    by cases (simp_all add: ExecuteInstruction_def branch_condition_def)
qed

lemma exec_CALL_cc:
  assumes "opcode \<in> {0xC4, 0xCC, 0xD4, 0xDC}"
  shows "ExecuteInstruction opcode (c, b) = OP_CALL_cc_nn (branch_condition opcode c) (c, b)"
proof -
  consider "opcode = 0xC4" | "opcode = 0xCC" | "opcode = 0xD4" | "opcode = 0xDC"
    using assms by auto
  then show ?thesis
    by cases (simp_all add: ExecuteInstruction_def branch_condition_def)
qed

lemma exec_RET_cc:
  assumes "opcode \<in> {0xC0, 0xC8, 0xD0, 0xD8}"
  shows "ExecuteInstruction opcode (c, b) = OP_RET_cc (branch_condition opcode c) (c, b)"
proof -
  consider "opcode = 0xC0" | "opcode = 0xC8" | "opcode = 0xD0" | "opcode = 0xD8"
    using assms by auto
  then show ?thesis
    by cases (simp_all add: ExecuteInstruction_def branch_condition_def)
qed

lemma get_pc_simps [simp]:
  "get_pc (set_pc v c) = v"
  "get_pc (add_cycles n c) = get_pc c"
  "get_pc (c\<lparr> m_cycles := k \<rparr>) = get_pc c"
  "m_cycles (set_pc v c) = m_cycles c"
  "m_cycles (add_cycles n c) = m_cycles c + n"
  by (simp_all add: get_pc_def set_pc_def add_cycles_def)

lemma JP_cc_cycles:
  assumes run: "\<not> m_halted c" "\<not> m_ime c"
    and op: "Memory_Read b (get_pc c) = Some opcode" "opcode \<in> {0xC2, 0xCA, 0xD2, 0xDA}"
    and imm: "Memory_Read16 b (get_pc c + 1) = Some nn"
  shows "map_option fst (CPU_Step (c, b)) = Some (if branch_condition opcode c then 20 else 16)"
  using imm
  by (simp add: step_running [OF run op(1)] exec_JP_cc [OF op(2)] OP_JP_cc_nn_def FetchWord_def ReadWord_def)

lemma JR_cc_cycles:
  assumes run: "\<not> m_halted c" "\<not> m_ime c"
    and op: "Memory_Read b (get_pc c) = Some opcode" "opcode \<in> {0x20, 0x28, 0x30, 0x38}"
    and imm: "Memory_Read b (get_pc c + 1) = Some e"
  shows "map_option fst (CPU_Step (c, b)) = Some (if branch_condition opcode c then 16 else 12)"
  using imm
  by (simp add: step_running [OF run op(1)] exec_JR_cc [OF op(2)] OP_JR_cc_e_def FetchByte_def ReadByte_def)

lemma Push_cycles [simp]: "m_cycles (fst (Push v (c, b))) = m_cycles c + 8"
  by (simp add: Push_def WriteWord_def Let_def add_cycles_def)

lemma CALL_cc_cycles:
  assumes run: "\<not> m_halted c" "\<not> m_ime c"
    and op: "Memory_Read b (get_pc c) = Some opcode" "opcode \<in> {0xC4, 0xCC, 0xD4, 0xDC}"
    and imm: "Memory_Read16 b (get_pc c + 1) = Some nn"
  shows "map_option fst (CPU_Step (c, b)) = Some (if branch_condition opcode c then 28 else 16)"
  using imm
  by (simp add: step_running [OF run op(1)] exec_CALL_cc [OF op(2)] OP_CALL_cc_nn_def FetchWord_def
      ReadWord_def split_beta)

lemma get_r16_SP_frame [simp]:
  "get_r16 R_SP (add_cycles n c) = get_r16 R_SP c"
  "get_r16 R_SP (set_pc v c) = get_r16 R_SP c"
  "get_r16 R_SP (c\<lparr> m_cycles := k \<rparr>) = get_r16 R_SP c"
  "m_cycles (set_r16 r v c) = m_cycles c"
  by (cases r; simp add: add_cycles_def set_pc_def)+

lemma RET_cc_cycles:
  assumes run: "\<not> m_halted c" "\<not> m_ime c"
    and op: "Memory_Read b (get_pc c) = Some opcode" "opcode \<in> {0xC0, 0xC8, 0xD0, 0xD8}"
    and stk: "Memory_Read16 b (get_r16 R_SP c) = Some ret"
  shows "map_option fst (CPU_Step (c, b)) = Some (if branch_condition opcode c then 32 else 12)"
  using stk
  by (simp add: step_running [OF run op(1)] exec_RET_cc [OF op(2)] OP_RET_cc_def Pop_def ReadWord_def
      add_cycles_def set_pc_def branch_condition_def GetFlag_def)

lemma program_rom_length: "length prog \<le> 0x40 \<Longrightarrow> length (program_rom prog) = 0x8000"
  by (simp add: program_rom_def)

lemma program_rom_nth:
  "i < length prog \<Longrightarrow> length prog \<le> 0x40 \<Longrightarrow> program_rom prog ! (0x100 + i) = prog ! i"
  by (simp add: program_rom_def nth_append)

lemma program_rom_zero:
  "length prog \<le> 0x40 \<Longrightarrow> i < 0x100 \<or> (0x140 \<le> i \<and> i < 0x8000) \<Longrightarrow> program_rom prog ! i = 0"
  by (auto simp: program_rom_def nth_append)

lemma program_rom_empty: "i < 0x8000 \<Longrightarrow> program_rom [] ! i = 0"
  by (simp add: program_rom_def nth_append)

lemma program_bus_memory:
  assumes "length prog \<le> 0x40"
  shows "program_bus prog =
     GameBoy_bus\<lparr> memory := (memory GameBoy_bus)\<lparr> m_mbc := Some (MBC0 (MBC0_new (program_rom prog))) \<rparr> \<rparr>"
  using assms program_rom_zero [OF assms, of "0x147"]
  by (simp add: program_bus_def Memory_LoadROM_def program_rom_length MBC_Create_def Let_def)

lemma Bus_wf_mbc: "Bus_wf b \<Longrightarrow> Bus_wf (b\<lparr> memory := (memory b)\<lparr> m_mbc := x \<rparr> \<rparr>)"
  using Memory_wf_GameBoy unfolding Bus_wf_def Memory_wf_def by (simp add: page_tables_closed)

lemma Bus_wf_program:
  assumes "length prog \<le> 0x40"
  shows "Bus_wf (program_bus prog)"
  unfolding program_bus_memory [OF assms] using Bus_wf_mbc [OF Bus_wf_GameBoy] by simp

lemma rom_page:
  assumes wf: "Bus_wf b" and a: "(a :: u16) \<le> 0x7FFF"
  shows "m_read_page_table (memory b) ! (unat a div PAGE_SIZE) = None"
proof -
  have "unat a \<le> 0x7FFF" using a by (simp add: word_le_nat_alt)
  then have "init_page_entry (unat a div PAGE_SIZE) = None"
    by (simp add: init_page_entry_def)
  then show ?thesis
    using wf wf_read_entry [OF _ unat_u16_page, of "memory b" a] by (simp add: Bus_wf_def)
qed

lemma program_read:
  assumes len: "length prog \<le> 0x40" and a: "(a :: u16) \<le> 0x7FFF"
  shows "Memory_Read (program_bus prog) a = Some (program_rom prog ! unat a)"
proof -
  have "unat a < 0x8000" using a by (simp add: word_le_nat_alt)
  then show ?thesis
    using rom_page [OF Bus_wf_program [OF len] a] a
    by (simp add: Memory_Read_def Let_def program_bus_memory [OF len] MBC0_Read_def MBC0_new_def
        vec_at_def program_rom_length [OF len])
qed

lemma program_read_prog:
  assumes len: "length prog \<le> 0x40" and i: "i < length prog"
  shows "Memory_Read (program_bus prog) (0x100 + word_of_nat i) = Some (prog ! i)"
proof -
  have u: "unat (0x100 + word_of_nat i :: u16) = 0x100 + i"
    using len i by (simp add: unat_word_ariths unat_of_nat)
  then have "(0x100 + word_of_nat i :: u16) \<le> 0x7FFF"
    using len i by (simp add: word_le_nat_alt)
  then show ?thesis
    using program_read [OF len, of "0x100 + word_of_nat i"] program_rom_nth [OF i len] u by simp
qed

lemma CPU_new_state:
  "get_pc CPU_new = 0x0100" "get_r16 R_SP CPU_new = 0xFFFE" "\<not> m_halted CPU_new" "\<not> m_ime CPU_new"
  "GetFlag FLAG_Z CPU_new" "GetFlag FLAG_C CPU_new"
  by (simp_all add: CPU_new_def CPU_Reset_def Let_def get_pc_def set_pc_def GetFlag_def hi8_def lo8_def)

lemma program_fetch:
  assumes len: "length prog \<le> 0x40"
  shows "Memory_Read (program_bus prog) 0x0100 = Some ((prog @ replicate 3 0) ! 0)"
    and "Memory_Read (program_bus prog) 0x0101 = Some ((prog @ replicate 3 0) ! 1)"
    and "Memory_Read (program_bus prog) 0x0102 = Some ((prog @ replicate 3 0) ! 2)"
  using len
  by (simp_all add: program_read [OF len] program_rom_def nth_append)

lemma program_fetch16:
  assumes len: "length prog \<le> 0x40"
  shows "Memory_Read16 (program_bus prog) 0x0101 =
         Some (push_bit 8 (ucast ((prog @ replicate 3 0) ! 2)) OR ucast ((prog @ replicate 3 0) ! 1))"
  by (simp add: Memory_Read16_def program_fetch [OF len])

lemma program_stack:
  assumes len: "length prog \<le> 0x40"
  shows "Memory_Read16 (program_bus prog) 0xFFFE = Some 0"
proof -
  have wf: "Bus_wf (program_bus prog)" by (rule Bus_wf_program [OF len])
  have p: "m_read_page_table (memory (program_bus prog)) ! (unat (0xFFFE :: u16) div PAGE_SIZE) = None"
    using io_page(1) [OF wf, of "0xFFFE"] by simp
  have h: "m_hram (memory (program_bus prog)) ! 0x7E = 0"
    by (simp add: program_bus_memory [OF len] GameBoy_bus_def Timer_RegisterIOHandlers_def
        PPU_RegisterIOHandlers_def RegisterIOHandler_def Memory_new_def Memory_Reset_def Let_def)
  have ie: "m_ie_register (memory (program_bus prog)) = 0"
    by (simp add: program_bus_memory [OF len] GameBoy_bus_def Timer_RegisterIOHandlers_def
        PPU_RegisterIOHandlers_def RegisterIOHandler_def Memory_new_def Memory_Reset_def Let_def)
  have "Memory_Read (program_bus prog) 0xFFFE = Some 0"
    using p h by (simp add: Memory_Read_def Let_def)
  then show ?thesis
    by (simp add: Memory_Read16_def Read_IE [OF wf] ie)
qed

lemma CPU_new_conditions:
  "\<not> branch_condition 0xC2 CPU_new" "branch_condition 0xCA CPU_new"
  "\<not> branch_condition 0x20 CPU_new" "branch_condition 0x28 CPU_new"
  "\<not> branch_condition 0xC4 CPU_new" "branch_condition 0xCC CPU_new"
  "\<not> branch_condition 0xC0 CPU_new" "branch_condition 0xC8 CPU_new"
  using CPU_new_state(5,6) by (simp_all add: branch_condition_def)

text \<open>
  C1 (fails on the code). For a running processor with the master enable clear,
  \<^verbatim>\<open>CPU::Step\<close> on a conditional branch returns, taken and not taken: JP cc,nn 20 and 16;
  JR cc,e 16 and 12; CALL cc,nn 28 and 16; RET cc 32 and 12. These are not the reference
  counts 16/12, 12/8, 24/12 and 20/8: the 4 cycles of the opcode fetch are counted by
  \<^verbatim>\<open>FetchByte\<close> and again by the instruction, and the taken RET cc adds 12 more on top of the
  8 of \<^verbatim>\<open>Pop\<close>. The taken and not-taken counts are distinct.
\<close>

theorem conditional_branch_cycles:
  assumes run: "\<not> m_halted c" "\<not> m_ime c"
    and op: "Memory_Read b (get_pc c) = Some opcode"
  shows "(opcode \<in> {0xC2, 0xCA, 0xD2, 0xDA} \<and> Memory_Read16 b (get_pc c + 1) \<noteq> None \<longrightarrow>
            map_option fst (CPU_Step (c, b)) = Some (if branch_condition opcode c then 20 else 16)) \<and>
         (opcode \<in> {0x20, 0x28, 0x30, 0x38} \<and> Memory_Read b (get_pc c + 1) \<noteq> None \<longrightarrow>
            map_option fst (CPU_Step (c, b)) = Some (if branch_condition opcode c then 16 else 12)) \<and>
         (opcode \<in> {0xC4, 0xCC, 0xD4, 0xDC} \<and> Memory_Read16 b (get_pc c + 1) \<noteq> None \<longrightarrow>
            map_option fst (CPU_Step (c, b)) = Some (if branch_condition opcode c then 28 else 16)) \<and>
         (opcode \<in> {0xC0, 0xC8, 0xD0, 0xD8} \<and> Memory_Read16 b (get_r16 R_SP c) \<noteq> None \<longrightarrow>
            map_option fst (CPU_Step (c, b)) = Some (if branch_condition opcode c then 32 else 12))"
proof (intro conjI impI; elim conjE)
  assume "opcode \<in> {0xC2, 0xCA, 0xD2, 0xDA}" "Memory_Read16 b (get_pc c + 1) \<noteq> None"
  then show "map_option fst (CPU_Step (c, b)) = Some (if branch_condition opcode c then 20 else 16)"
    using JP_cc_cycles [OF run op] by blast
next
  assume "opcode \<in> {0x20, 0x28, 0x30, 0x38}" "Memory_Read b (get_pc c + 1) \<noteq> None"
  then show "map_option fst (CPU_Step (c, b)) = Some (if branch_condition opcode c then 16 else 12)"
    using JR_cc_cycles [OF run op] by blast
next
  assume "opcode \<in> {0xC4, 0xCC, 0xD4, 0xDC}" "Memory_Read16 b (get_pc c + 1) \<noteq> None"
  then show "map_option fst (CPU_Step (c, b)) = Some (if branch_condition opcode c then 28 else 16)"
    using CALL_cc_cycles [OF run op] by blast
next
  assume "opcode \<in> {0xC0, 0xC8, 0xD0, 0xD8}" "Memory_Read16 b (get_r16 R_SP c) \<noteq> None"
  then show "map_option fst (CPU_Step (c, b)) = Some (if branch_condition opcode c then 32 else 12)"
    using RET_cc_cycles [OF run op] by blast
qed

lemma program_start:
  assumes "length prog \<le> 0x40"
  shows "Memory_Read (program_bus prog) (get_pc CPU_new) = Some ((prog @ replicate 3 0) ! 0)"
    and "Memory_Read (program_bus prog) (get_pc CPU_new + 1) = Some ((prog @ replicate 3 0) ! 1)"
    and "Memory_Read16 (program_bus prog) (get_pc CPU_new + 1) \<noteq> None"
    and "Memory_Read16 (program_bus prog) (get_r16 R_SP CPU_new) \<noteq> None"
  using assms unfolding CPU_new_state(1,2)
  by (simp_all add: program_fetch program_fetch16 program_stack)

text \<open>The processor after reset (Z and C set) on the programs \<open>JP Z\<close>, \<open>JP NZ\<close>,
  \<open>JR Z\<close>, \<open>JR NZ\<close>, \<open>CALL Z\<close>, \<open>CALL NZ\<close>, \<open>RET Z\<close> and \<open>RET NZ\<close> placed at 0x0100.\<close>

theorem conditional_branch_cycles_witness:
  "map_option fst (CPU_Step (CPU_new, program_bus [0xCA, 0x50, 0x01])) = Some 20 \<and>
   map_option fst (CPU_Step (CPU_new, program_bus [0xC2, 0x50, 0x01])) = Some 16 \<and>
   map_option fst (CPU_Step (CPU_new, program_bus [0x28, 0x02])) = Some 16 \<and>
   map_option fst (CPU_Step (CPU_new, program_bus [0x20, 0x02])) = Some 12 \<and>
   map_option fst (CPU_Step (CPU_new, program_bus [0xCC, 0x50, 0x01])) = Some 28 \<and>
   map_option fst (CPU_Step (CPU_new, program_bus [0xC4, 0x50, 0x01])) = Some 16 \<and>
   map_option fst (CPU_Step (CPU_new, program_bus [0xC8])) = Some 32 \<and>
   map_option fst (CPU_Step (CPU_new, program_bus [0xC0])) = Some 12"
proof -
  note run = CPU_new_state(3,4)
  have at: "Memory_Read (program_bus (op # rest)) (get_pc CPU_new) = Some op"
    if "length rest \<le> 2" for op rest
    using that program_start(1) [of "op # rest"] by simp
  have rd: "Memory_Read (program_bus [op, e]) (get_pc CPU_new + 1) \<noteq> None" for op e
    using program_start(2) [of "[op, e]"] by simp
  have rd16: "Memory_Read16 (program_bus prog) (get_pc CPU_new + 1) \<noteq> None"
    if "length prog \<le> 3" for prog
    using that program_start(3) [of prog] by simp
  have stk: "Memory_Read16 (program_bus prog) (get_r16 R_SP CPU_new) \<noteq> None"
    if "length prog \<le> 3" for prog
    using that program_start(4) [of prog] by simp
  show ?thesis
    using conditional_branch_cycles [OF run at, of "[0x50, 0x01]" "0xCA"]
      conditional_branch_cycles [OF run at, of "[0x50, 0x01]" "0xC2"]
      conditional_branch_cycles [OF run at, of "[0x02]" "0x28"]
      conditional_branch_cycles [OF run at, of "[0x02]" "0x20"]
      conditional_branch_cycles [OF run at, of "[0x50, 0x01]" "0xCC"]
      conditional_branch_cycles [OF run at, of "[0x50, 0x01]" "0xC4"]
      conditional_branch_cycles [OF run at, of "[]" "0xC8"]
      conditional_branch_cycles [OF run at, of "[]" "0xC0"]
      rd16 [of "[0xCA, 0x50, 0x01]"] rd16 [of "[0xC2, 0x50, 0x01]"]
      rd16 [of "[0xCC, 0x50, 0x01]"] rd16 [of "[0xC4, 0x50, 0x01]"]
      rd [of "0x28" "0x02"] rd [of "0x20" "0x02"]
      stk [of "[0xC8]"] stk [of "[0xC0]"]
    by (simp add: CPU_new_conditions)
qed

text \<open>The unconditional branches of the same file return the reference counts: JP nn 16,
  JR e 12, CALL nn 24, RET 16.\<close>

lemma exec_unconditional:
  "ExecuteInstruction 0xC3 s = OP_JP_nn s" "ExecuteInstruction 0x18 s = OP_JR_e s"
  "ExecuteInstruction 0xCD s = OP_CALL_nn s" "ExecuteInstruction 0xC9 s = OP_RET s"
  by (cases s; simp add: ExecuteInstruction_def)+

lemma unconditional_branch_cycles:
  "map_option fst (CPU_Step (CPU_new, program_bus [0xC3, 0x50, 0x01])) = Some 16"
  "map_option fst (CPU_Step (CPU_new, program_bus [0x18, 0x02])) = Some 12"
  "map_option fst (CPU_Step (CPU_new, program_bus [0xCD, 0x50, 0x01])) = Some 24"
  "map_option fst (CPU_Step (CPU_new, program_bus [0xC9])) = Some 16"
proof -
  note run = CPU_new_state(3,4)
  have at: "Memory_Read (program_bus (op # rest)) (get_pc CPU_new) = Some op"
    if "length rest \<le> 2" for op rest
    using that program_start(1) [of "op # rest"] by simp
  have imm: "Memory_Read16 (program_bus [op, 0x50, 0x01]) (get_pc CPU_new + 1) = Some 0x0150" for op
    unfolding CPU_new_state(1) by (simp add: program_fetch16)
  have e: "Memory_Read (program_bus [op, 0x02]) (get_pc CPU_new + 1) = Some 0x02" for op
    using program_start(2) [of "[op, 0x02]"] by simp
  have stk: "Memory_Read16 (program_bus [op]) (get_r16 R_SP CPU_new) = Some 0" for op
    unfolding CPU_new_state(2) by (rule program_stack) simp
  show "map_option fst (CPU_Step (CPU_new, program_bus [0xC3, 0x50, 0x01])) = Some 16"
    using imm [of "0xC3"]
    by (simp add: step_running [OF run at] exec_unconditional OP_JP_nn_def FetchWord_def ReadWord_def)
  show "map_option fst (CPU_Step (CPU_new, program_bus [0x18, 0x02])) = Some 12"
    using e [of "0x18"]
    by (simp add: step_running [OF run at] exec_unconditional OP_JR_e_def FetchByte_def ReadByte_def)
  show "map_option fst (CPU_Step (CPU_new, program_bus [0xCD, 0x50, 0x01])) = Some 24"
    using imm [of "0xCD"]
    by (simp add: step_running [OF run at] exec_unconditional OP_CALL_nn_def FetchWord_def
        ReadWord_def split_beta)
  show "map_option fst (CPU_Step (CPU_new, program_bus [0xC9])) = Some 16"
    using stk [of "0xC9"]
    by (simp add: step_running [OF run at] exec_unconditional OP_RET_def Pop_def ReadWord_def
        add_cycles_def set_pc_def)
qed

subsection \<open>Interrupt service\<close>

lemma Write_IE:
  assumes wf: "Bus_wf b"
  shows "Memory_Write 0xFFFF v b = b\<lparr> memory := (memory b)\<lparr> m_ie_register := v \<rparr> \<rparr>"
  using io_page(2) [OF wf, of "0xFFFF"]
  by (simp add: Memory_Write_def Let_def)

lemma Write_HRAM:
  assumes wf: "Bus_wf b" and lo: "0xFF80 \<le> a" and hi: "a \<le> (0xFFFE :: u16)"
  shows "Memory_Write a v b =
     b\<lparr> memory := (memory b)\<lparr> m_hram := (m_hram (memory b))[unat (a - 0xFF80) := v] \<rparr> \<rparr>"
proof -
  have lo': "0xFE00 \<le> a" using lo by (simp add: word_le_nat_alt)
  have r: "0xFF80 \<le> unat a" "unat a \<le> 0xFFFE"
    using lo hi by (simp_all add: word_le_nat_alt)
  have c: "\<not> a \<le> 0x7FFF" "\<not> a \<le> 0xBFFF" "\<not> a \<le> 0xFE9F" "\<not> a \<le> 0xFEFF" "\<not> a \<le> 0xFF7F"
    using r by (simp_all add: word_le_nat_alt)
  show ?thesis
    using c lo hi by (simp add: Memory_Write_def Let_def io_page(2) [OF wf lo'])
qed

lemma Bus_wf_ie: "Bus_wf b \<Longrightarrow> Bus_wf (b\<lparr> memory := (memory b)\<lparr> m_ie_register := x \<rparr> \<rparr>)"
  using Memory_wf_GameBoy unfolding Bus_wf_def Memory_wf_def by (simp add: page_tables_closed)

lemma Bus_wf_hram:
  "Bus_wf b \<Longrightarrow> Bus_wf (b\<lparr> memory := (memory b)\<lparr> m_hram := (m_hram (memory b))[i := x] \<rparr> \<rparr>)"
  using Memory_wf_GameBoy unfolding Bus_wf_def Memory_wf_def by (simp add: page_tables_closed)

lemma rom_read:
  assumes wf: "Bus_wf b" and mbc: "m_mbc (memory b) = Some (MBC0 (MBC0_new rom))"
    and a: "(a :: u16) \<le> 0x7FFF" and len: "unat a < length rom"
  shows "Memory_Read b a = Some (rom ! unat a)"
  using rom_page [OF wf a] a len mbc
  by (simp add: Memory_Read_def Let_def MBC0_Read_def MBC0_new_def vec_at_def)

lemma Read_HRAM:
  assumes wf: "Bus_wf b" and lo: "0xFF80 \<le> a" and hi: "a \<le> (0xFFFE :: u16)"
  shows "Memory_Read b a = Some (m_hram (memory b) ! unat (a - 0xFF80))"
proof -
  have lo': "0xFE00 \<le> a" using lo by (simp add: word_le_nat_alt)
  have r: "0xFF80 \<le> unat a" "unat a \<le> 0xFFFE"
    using lo hi by (simp_all add: word_le_nat_alt)
  have c: "\<not> a \<le> 0x7FFF" "\<not> a \<le> 0xBFFF" "\<not> a \<le> 0xFE9F" "\<not> a \<le> 0xFEFF" "\<not> a \<le> 0xFF7F"
    using r by (simp_all add: word_le_nat_alt)
  show ?thesis
    using c lo hi by (simp add: Memory_Read_def Let_def io_page(1) [OF wf lo'])
qed

lemma interrupt_bus_eq:
  "interrupt_bus v = (program_bus [])\<lparr> memory := (memory (program_bus []))
      \<lparr> m_io := (m_io (memory (program_bus [])))[0x0F := v], m_ie_register := v \<rparr> \<rparr>"
proof -
  have wf: "Bus_wf (program_bus [])" by (rule Bus_wf_program) simp
  show ?thesis
    unfolding interrupt_bus_def Write_IF [OF wf]
    by (subst Write_IE) (simp_all add: wf)
qed

lemma interrupt_bus_wf: "Bus_wf (interrupt_bus v)"
proof -
  have wf: "Bus_wf (program_bus [])" by (rule Bus_wf_program) simp
  have wf': "Bus_wf (Memory_Write 0xFF0F v (program_bus []))"
    unfolding Write_IF [OF wf] by (rule Bus_wf_raise [OF wf])
  show ?thesis
    unfolding interrupt_bus_def Write_IE [OF wf'] by (rule Bus_wf_ie [OF wf'])
qed

lemma interrupt_bus_regs:
  "Memory_Read (interrupt_bus v) 0xFF0F = Some v" "Memory_Read (interrupt_bus v) 0xFFFF = Some v"
  using Bus_wf_io_length [OF Bus_wf_program [of "[]"]]
  unfolding Read_IF [OF interrupt_bus_wf] Read_IE [OF interrupt_bus_wf]
  by (simp_all add: interrupt_bus_eq)

lemma interrupt_bus_mbc:
  "m_mbc (memory (interrupt_bus v)) = Some (MBC0 (MBC0_new (program_rom [])))"
  by (simp add: interrupt_bus_eq program_bus_memory)

lemma step_NOP:
  assumes "\<not> m_halted c" "\<not> m_ime c" "Memory_Read b (get_pc c) = Some 0x00"
  shows "CPU_Step (c, b) = Some (8, (set_pc (get_pc c + 1) c)\<lparr> m_cycles := 8 \<rparr>, b)"
  by (simp add: step_running [OF assms] ExecuteInstruction_def OP_NOP_def pure_op_def
      add_cycles_def set_pc_def)

lemma halted_wake:
  assumes "m_halted c" "Memory_Read b 0xFF0F = Some if_reg" "Memory_Read b 0xFFFF = Some ie_reg"
    "if_reg AND ie_reg \<noteq> 0"
  shows "CPU_Step (c, b) = CPU_Step (c\<lparr> m_halted := False \<rparr>, b)"
proof -
  have swap: "c\<lparr> m_cycles := 0, m_halted := False \<rparr> = c\<lparr> m_halted := False, m_cycles := 0 \<rparr>"
    by (cases c) simp
  show ?thesis
    using assms by (simp add: CPU_Step_def Let_def swap)
qed

lemma service_at:
  assumes "i < 5" "bit triggered i"
  shows "ServiceInterrupts_loop triggered if_reg i (c, b) = serviced i if_reg (c, b)"
proof -
  have t: "triggered AND push_bit i 1 \<noteq> 0"
    using assms(2) by (simp add: bit_iff_and_push_bit_not_eq_0)
  show ?thesis
    using assms(1) t
    by (subst ServiceInterrupts_loop.simps)
       (simp add: serviced_def Let_def Push_def WriteWord_def add_cycles_def set_pc_def get_pc_def)
qed

lemma service_skip:
  assumes "k \<le> i" "i < 5" "bit triggered i" "\<forall>j<i. \<not> bit triggered j"
  shows "ServiceInterrupts_loop triggered if_reg k (c, b) = serviced i if_reg (c, b)"
  using assms
proof (induction "i - k" arbitrary: k)
  case 0
  then have "k = i" by simp
  then show ?case using 0 service_at by simp
next
  case (Suc n)
  then have k: "k < i" "k < 5" by simp_all
  then have nb: "\<not> bit triggered k" using Suc.prems by simp
  then have t: "triggered AND push_bit k 1 = 0"
    by (simp add: bit_iff_and_push_bit_not_eq_0)
  have "ServiceInterrupts_loop triggered if_reg k (c, b) =
        ServiceInterrupts_loop triggered if_reg (k + 1) (c, b)"
    using k t by (subst ServiceInterrupts_loop.simps) simp
  also have "\<dots> = serviced i if_reg (c, b)"
    using Suc.hyps(1) [of "k + 1"] Suc.hyps(2) Suc.prems k by simp
  finally show ?case .
qed

lemma interrupt_cpu_state:
  "m_ime interrupt_cpu" "\<not> m_halted interrupt_cpu" "get_pc interrupt_cpu = 0x0100"
  "get_r16 R_SP interrupt_cpu = 0xFFFE" "interrupt_cpu\<lparr> m_cycles := 0 \<rparr> = interrupt_cpu"
  "reg_sp (m_regs interrupt_cpu) = 0xFFFE"
  by (simp_all add: interrupt_cpu_def CPU_new_def CPU_Reset_def Let_def get_pc_def set_pc_def)

text \<open>
  C2 (fails on the code). When IME is set and bit \<open>i < 5\<close> is the lowest bit set in
  IF AND IE, \<^verbatim>\<open>ServiceInterrupts\<close> clears IME, writes IF with bit \<open>i\<close> cleared, pushes PC
  (SP decreases by 2), sets PC to 0x40 + 8 i, and adds 28 cycles, not 20: the 20 of the
  service and the 8 that \<^verbatim>\<open>Push\<close> adds through \<^verbatim>\<open>WriteWord\<close>.
\<close>

theorem interrupt_service_costs_28:
  assumes ime: "m_ime c"
    and IF: "Memory_Read b 0xFF0F = Some if_reg" and IE: "Memory_Read b 0xFFFF = Some ie_reg"
    and i: "i < 5" and pending: "bit (if_reg AND ie_reg) i"
    and lowest: "\<forall>j<i. \<not> bit (if_reg AND ie_reg) j"
  shows "ServiceInterrupts (c, b) =
     Some (add_cycles 28 (set_pc (0x0040 + word_of_nat (i * 0x08))
             (set_r16 R_SP (get_r16 R_SP c - 2) (c\<lparr> m_ime := False \<rparr>))),
           Memory_Write16 (get_r16 R_SP c - 2) (get_pc c)
             (Memory_Write 0xFF0F (if_reg AND NOT (push_bit i 1)) b))"
proof -
  have nz: "if_reg AND ie_reg \<noteq> 0"
  proof
    assume "if_reg AND ie_reg = 0"
    then have "\<not> bit (if_reg AND ie_reg) i" by (simp only: bit_0_eq) simp
    then show False using pending by simp
  qed
  show ?thesis
    using ime IF IE nz service_skip [OF _ i pending lowest, of 0 if_reg c b]
    by (simp add: ServiceInterrupts_def Let_def serviced_def)
qed

text \<open>The processor after reset with IME set, on the machine with IF = IE = 0x01: the service
  alone adds 28 cycles, and the step returns 36 where the NOP at the vector 0x0040 alone
  costs 8.\<close>

theorem interrupt_service_costs_28_witness:
  "m_ime interrupt_cpu \<and>
   Memory_Read (interrupt_bus 0x01) 0xFF0F = Some 0x01 \<and>
   Memory_Read (interrupt_bus 0x01) 0xFFFF = Some 0x01 \<and>
   map_option (\<lambda>(c, b). (m_cycles c, m_ime c, get_pc c, get_r16 R_SP c,
                           Memory_Read b 0xFF0F, Memory_Read16 b 0xFFFC))
     (ServiceInterrupts (interrupt_cpu, interrupt_bus 0x01)) =
     Some (28, False, 0x0040, 0xFFFC, Some 0x00, Some 0x0100) \<and>
   map_option fst (CPU_Step (interrupt_cpu, interrupt_bus 0x01)) = Some 36 \<and>
   map_option fst (CPU_Step (set_pc 0x0040 CPU_new, interrupt_bus 0x00)) = Some 8"
proof -
  let ?b = "interrupt_bus 0x01"
  let ?b1 = "Memory_Write 0xFF0F 0x00 ?b"
  let ?b2 = "Memory_Write 0xFFFC 0x00 ?b1"
  let ?b3 = "Memory_Write 0xFFFD 0x01 ?b2"
  let ?c = "add_cycles 28 (set_pc 0x0040 (set_r16 R_SP 0xFFFC (interrupt_cpu\<lparr> m_ime := False \<rparr>)))"
  have wf: "Bus_wf ?b" by (rule interrupt_bus_wf)
  have e1: "?b1 = ?b\<lparr> memory := (memory ?b)\<lparr> m_io := (m_io (memory ?b))[0x0F := 0x00] \<rparr> \<rparr>"
    by (rule Write_IF [OF wf])
  have wf1: "Bus_wf ?b1" unfolding e1 by (rule Bus_wf_raise [OF wf])
  have e2: "?b2 = ?b1\<lparr> memory := (memory ?b1)\<lparr> m_hram := (m_hram (memory ?b1))[0x7C := 0x00] \<rparr> \<rparr>"
    using Write_HRAM [OF wf1, of "0xFFFC" "0x00"] by simp
  have wf2: "Bus_wf ?b2" unfolding e2 by (rule Bus_wf_hram [OF wf1])
  have e3: "?b3 = ?b2\<lparr> memory := (memory ?b2)\<lparr> m_hram := (m_hram (memory ?b2))[0x7D := 0x01] \<rparr> \<rparr>"
    using Write_HRAM [OF wf2, of "0xFFFD" "0x01"] by simp
  have wf3: "Bus_wf ?b3" unfolding e3 by (rule Bus_wf_hram [OF wf2])
  have len: "length (m_io (memory ?b)) = IO_SIZE" "length (m_hram (memory ?b1)) = HRAM_SIZE"
    using wf wf1 by (simp_all add: Bus_wf_def Memory_wf_def)
  have io1: "m_io (memory ?b1) ! 0x0F = 0x00" unfolding e1 using len(1) by simp
  have io2: "m_io (memory ?b2) = m_io (memory ?b1)" unfolding e2 by simp
  have io3: "m_io (memory ?b3) = m_io (memory ?b2)" unfolding e3 by simp
  have h2: "m_hram (memory ?b2) = (m_hram (memory ?b1))[0x7C := 0x00]" unfolding e2 by simp
  have h3: "m_hram (memory ?b3) = (m_hram (memory ?b2))[0x7D := 0x01]" unfolding e3 by simp
  have hram3: "m_hram (memory ?b3) ! 0x7C = 0x00" "m_hram (memory ?b3) ! 0x7D = 0x01"
    using len(2) by (simp_all add: h3 h2)
  have m1: "m_mbc (memory ?b1) = m_mbc (memory ?b)" unfolding e1 by simp
  have m2: "m_mbc (memory ?b2) = m_mbc (memory ?b1)" unfolding e2 by simp
  have m3: "m_mbc (memory ?b3) = m_mbc (memory ?b2)" unfolding e3 by simp
  have mbc3: "m_mbc (memory ?b3) = Some (MBC0 (MBC0_new (program_rom [])))"
    by (simp only: m3 m2 m1 interrupt_bus_mbc)
  have serv: "ServiceInterrupts (interrupt_cpu, ?b) = Some (?c, ?b3)"
    using interrupt_service_costs_28 [OF interrupt_cpu_state(1) interrupt_bus_regs, of 0 "0x01"]
    by (simp add: interrupt_cpu_state Memory_Write16_def)
  have IF3: "Memory_Read ?b3 0xFF0F = Some 0x00"
    unfolding Read_IF [OF wf3] by (simp only: io3 io2 io1)
  have stk3: "Memory_Read16 ?b3 0xFFFC = Some 0x0100"
    using Read_HRAM [OF wf3, of "0xFFFC"] Read_HRAM [OF wf3, of "0xFFFD"] hram3
    by (simp add: Memory_Read16_def)
  have c: "m_cycles ?c = 28" "\<not> m_ime ?c" "get_pc ?c = 0x0040" "get_r16 R_SP ?c = 0xFFFC"
    using interrupt_cpu_state(5)
    by (simp_all add: add_cycles_def set_pc_def get_pc_def interrupt_cpu_def CPU_new_def
        CPU_Reset_def Let_def)
  have vec: "Memory_Read ?b3 0x0040 = Some 0x00"
    by (subst rom_read [OF wf3 mbc3]) (simp_all add: program_rom_empty program_rom_length)
  have vec0: "Memory_Read (interrupt_bus 0x00) (get_pc (set_pc 0x0040 CPU_new)) = Some 0x00"
    unfolding get_pc_simps
    by (subst rom_read [OF interrupt_bus_wf interrupt_bus_mbc])
       (simp_all add: program_rom_empty program_rom_length)
  have step: "map_option fst (CPU_Step (interrupt_cpu, ?b)) = Some 36"
    using interrupt_cpu_state(2) vec c
    by (simp add: CPU_Step_def Let_def interrupt_cpu_state(5) serv FetchByte_def ReadByte_def
        ExecuteInstruction_def OP_NOP_def pure_op_def add_cycles_def set_pc_def get_pc_def)
  have nop: "map_option fst (CPU_Step (set_pc 0x0040 CPU_new, interrupt_bus 0x00)) = Some 8"
    using CPU_new_state(3,4) by (subst step_NOP [OF _ _ vec0]) (simp_all add: set_pc_def)
  show ?thesis
    using serv IF3 stk3 c step nop interrupt_cpu_state(1)
    by (simp add: interrupt_bus_regs)
qed

subsection \<open>HALT\<close>

text \<open>
  C6 (fails on the code). While the processor is halted and IF AND IE = 0 over all eight
  bits, a step returns 4 cycles and changes nothing but the cycle counter: no instruction is
  executed and the processor stays halted. When IF AND IE is not 0, the step clears the
  halted latch and goes on as the step of the running processor does. The wake condition
  is not masked with 0x1F, while the interrupt service of the same step looks at bits 0 to 4
  only.
\<close>

theorem halted_step:
  assumes halted: "m_halted c"
    and IF: "Memory_Read b 0xFF0F = Some if_reg" and IE: "Memory_Read b 0xFFFF = Some ie_reg"
  shows "CPU_Step (c, b) =
     (if if_reg AND ie_reg = 0 then Some (4, c\<lparr> m_cycles := 4 \<rparr>, b)
      else CPU_Step (c\<lparr> m_halted := False \<rparr>, b))"
proof -
  have swap: "c\<lparr> m_cycles := 0, m_halted := False \<rparr> = c\<lparr> m_halted := False, m_cycles := 0 \<rparr>"
    by (cases c) simp
  show ?thesis
    using assms by (simp add: CPU_Step_def Let_def swap)
qed

text \<open>The halted processor on the machine with IF = IE = 0 stays halted for 4 cycles; with
  IF = IE = 0x04 it wakes.\<close>

theorem halted_step_witness:
  "m_halted halted_cpu \<and>
   Memory_Read (interrupt_bus 0x00) 0xFF0F = Some 0x00 \<and>
   Memory_Read (interrupt_bus 0x00) 0xFFFF = Some 0x00 \<and>
   CPU_Step (halted_cpu, interrupt_bus 0x00) =
     Some (4, halted_cpu\<lparr> m_cycles := 4 \<rparr>, interrupt_bus 0x00) \<and>
   Memory_Read (interrupt_bus 0x04) 0xFF0F = Some 0x04 \<and>
   Memory_Read (interrupt_bus 0x04) 0xFFFF = Some 0x04 \<and>
   CPU_Step (halted_cpu, interrupt_bus 0x04) =
     CPU_Step (halted_cpu\<lparr> m_halted := False \<rparr>, interrupt_bus 0x04)"
proof -
  have h: "m_halted halted_cpu" by (simp add: halted_cpu_def)
  show ?thesis
    using halted_step [OF h interrupt_bus_regs, of "0x00"]
      halted_step [OF h interrupt_bus_regs, of "0x04"] h
    by (simp add: interrupt_bus_regs)
qed

lemma service_none:
  assumes "k \<le> 5" "\<forall>j<5. \<not> bit triggered j"
  shows "ServiceInterrupts_loop triggered if_reg k s = s"
  using assms
proof (induction "5 - k" arbitrary: k)
  case 0
  then show ?case by (subst ServiceInterrupts_loop.simps) simp
next
  case (Suc n)
  then have k: "k < 5" by simp
  then have "\<not> bit triggered k" using Suc.prems by simp
  then have t: "triggered AND push_bit k 1 = 0"
    by (simp add: bit_iff_and_push_bit_not_eq_0)
  have "ServiceInterrupts_loop triggered if_reg k s =
        ServiceInterrupts_loop triggered if_reg (k + 1) s"
    using k t by (subst ServiceInterrupts_loop.simps) simp
  also have "\<dots> = s"
    using Suc.hyps(1) [of "k + 1"] Suc.hyps(2) Suc.prems k by simp
  finally show ?case .
qed

lemma service_masked:
  assumes IF: "Memory_Read b 0xFF0F = Some if_reg" and IE: "Memory_Read b 0xFFFF = Some ie_reg"
    and none: "if_reg AND ie_reg AND 0x1F = 0"
  shows "ServiceInterrupts (c, b) = Some (c, b)"
proof -
  let ?t = "if_reg AND ie_reg"
  have m: "(0x1F :: u8) = mask 5" by (simp add: mask_eq_exp_minus_1)
  have none': "?t AND mask 5 = 0" using none unfolding m by (simp only: and.assoc)
  have nb: "\<not> bit ?t j" if "j < 5" for j
  proof
    assume "bit ?t j"
    then have "bit (?t AND mask 5) j" using that by (simp add: bit_and_iff bit_mask_iff)
    then show False unfolding none' by simp
  qed
  have "ServiceInterrupts_loop ?t if_reg 0 (c, b) = (c, b)"
    by (rule service_none) (simp_all add: nb)
  then show ?thesis
    using IF IE by (simp add: ServiceInterrupts_def Let_def)
qed

text \<open>
  C6 as stated fails: with IF = IE = 0x20, IF AND IE AND 0x1F is 0, and yet the step of the
  halted processor clears the halted latch and executes the NOP at 0x0100 (8 cycles, PC
  0x0101). \<^verbatim>\<open>ServiceInterrupts\<close>, called next in the same step, finds nothing to service in
  that state even with IME set: it looks at bits 0 to 4 only.
\<close>

theorem halted_wake_on_unused_bit_counterexample:
  "m_halted halted_cpu \<and>
   Memory_Read (interrupt_bus 0x20) 0xFF0F = Some 0x20 \<and>
   Memory_Read (interrupt_bus 0x20) 0xFFFF = Some 0x20 \<and>
   (0x20 :: u8) AND 0x20 AND 0x1F = 0 \<and>
   map_option (\<lambda>(n, c, b). (n, m_halted c, get_pc c)) (CPU_Step (halted_cpu, interrupt_bus 0x20)) =
     Some (8, False, 0x0101) \<and>
   ServiceInterrupts (interrupt_cpu, interrupt_bus 0x20) = Some (interrupt_cpu, interrupt_bus 0x20)"
proof -
  have h: "m_halted halted_cpu" by (simp add: halted_cpu_def)
  have c: "halted_cpu\<lparr> m_halted := False \<rparr> = CPU_new"
    using CPU_new_state(3) by (simp add: halted_cpu_def)
  have rd: "Memory_Read (interrupt_bus 0x20) (get_pc CPU_new) = Some 0x00"
    unfolding CPU_new_state(1)
    by (subst rom_read [OF interrupt_bus_wf interrupt_bus_mbc])
       (simp_all add: program_rom_empty program_rom_length)
  have s: "ServiceInterrupts (interrupt_cpu, interrupt_bus 0x20) = Some (interrupt_cpu, interrupt_bus 0x20)"
    by (rule service_masked [OF interrupt_bus_regs]) simp
  have "CPU_Step (halted_cpu, interrupt_bus 0x20) = CPU_Step (CPU_new, interrupt_bus 0x20)"
    using halted_wake [OF h interrupt_bus_regs, of "0x20"] c by simp
  also have "\<dots> = Some (8, (set_pc (get_pc CPU_new + 1) CPU_new)\<lparr> m_cycles := 8 \<rparr>, interrupt_bus 0x20)"
    by (rule step_NOP [OF CPU_new_state(3,4) rd])
  finally show ?thesis
    using h s CPU_new_state(1,3) by (simp add: interrupt_bus_regs set_pc_def get_pc_def)
qed

end
